(* ===== verification/Prelude.thy ===== *)
theory Prelude
  imports Main "HOL-Library.Multiset" "HOL-Library.Product_Lexorder"
begin

text \<open>
  Shared vocabulary of the championship development. Python exceptions are the
  constructors of \<open>py_error\<close>, and a call that may raise returns \<open>py_error + 'a\<close>
  (\<open>Inl\<close> is the exception). A Python \<open>dict\<close> is an association list kept in
  insertion order, as CPython iterates it. \<open>dict_modify\<close> is the in-place mutation
  of the object stored under a key: in \<^verbatim>\<open>x = d[k]; x.f += 1\<close>, \<open>x\<close> aliases the
  entry. Nullable SQL strings (a missing JSON field read with \<^verbatim>\<open>.get\<close>, a NULL column)
  are \<open>string option\<close>. The collection \<open>dict_simps\<close> holds the rewriting facts about
  the dictionary operations.
\<close>

named_theorems dict_simps "rewriting facts about the Python dict model"

datatype py_error =
    KeyError
  | AttributeError
  | ValueError
  | IndexError
  | TypeError
  | UnboundLocalError

type_synonym 'a py_result = "py_error + 'a"

type_synonym sql_str = "string option"

type_synonym ('k, 'v) pydict = "('k \<times> 'v) list"

definition dict_get :: "('k, 'v) pydict \<Rightarrow> 'k \<Rightarrow> 'v option" where
  "dict_get d k = map_of d k"

definition dict_keys :: "('k, 'v) pydict \<Rightarrow> 'k list" where
  "dict_keys d = map fst d"

definition dict_values :: "('k, 'v) pydict \<Rightarrow> 'v list" where
  "dict_values d = map snd d"

fun dict_set :: "('k, 'v) pydict \<Rightarrow> 'k \<Rightarrow> 'v \<Rightarrow> ('k, 'v) pydict" where
  "dict_set [] k v = [(k, v)]"
| "dict_set ((k', v') # d) k v =
     (if k' = k then (k, v) # d else (k', v') # dict_set d k v)"

definition dict_modify :: "('k, 'v) pydict \<Rightarrow> 'k \<Rightarrow> ('v \<Rightarrow> 'v) \<Rightarrow> ('k, 'v) pydict" where
  "dict_modify d k f = map (\<lambda>(k', v). if k' = k then (k', f v) else (k', v)) d"

subsection \<open>Dictionary lemmas\<close>

lemma dict_get_Cons [dict_simps]:
  "dict_get ((k', v) # d) k = (if k = k' then Some v else dict_get d k)"
  by (simp add: dict_get_def)

lemma dict_get_Nil [dict_simps]: "dict_get [] k = None"
  by (simp add: dict_get_def)

lemma dict_keys_modify [simp, dict_simps]: "dict_keys (dict_modify d k f) = dict_keys d"
  by (induction d) (auto simp: dict_keys_def dict_modify_def)

lemma dict_get_modify [dict_simps]:
  "dict_get (dict_modify d k f) k' =
     (if k' = k then map_option f (dict_get d k) else dict_get d k')"
  by (induction d) (auto simp: dict_get_def dict_modify_def)

lemma dict_get_None_iff: "dict_get d k = None \<longleftrightarrow> k \<notin> set (dict_keys d)"
  by (induction d) (auto simp: dict_get_def dict_keys_def)

lemma dict_values_modify_distinct:
  assumes "distinct (dict_keys d)" and "dict_get d k = Some v"
  shows "mset (dict_values (dict_modify d k f)) = mset (dict_values d) - {#v#} + {#f v#}"
  using assms
proof (induction d)
  case Nil
  then show ?case by (simp add: dict_get_def)
next
  case (Cons p d)
  obtain k' v' where p: "p = (k', v')" by fastforce
  show ?case
  proof (cases "k' = k")
    case True
    with Cons.prems p have "k \<notin> set (dict_keys d)" and "v' = v"
      by (auto simp: dict_keys_def dict_get_def)
    then have "dict_modify d k f = d"
      by (induction d) (auto simp: dict_modify_def dict_keys_def)
    with True p \<open>v' = v\<close> show ?thesis
      by (simp add: dict_modify_def dict_values_def)
  next
    case False
    with Cons.prems p have "distinct (dict_keys d)" and "dict_get d k = Some v"
      by (auto simp: dict_keys_def dict_get_def)
    with Cons.IH have IH: "mset (dict_values (dict_modify d k f)) =
        mset (dict_values d) - {#v#} + {#f v#}" by blast
    have "v \<in># mset (dict_values d)"
      using \<open>dict_get d k = Some v\<close>
      by (auto simp: dict_get_def dict_values_def dest: map_of_SomeD intro: rev_image_eqI)
    with False p IH show ?thesis
      by (simp add: dict_modify_def dict_values_def)
  qed
qed

lemma dict_set_fresh [dict_simps]:
  "k \<notin> set (dict_keys d) \<Longrightarrow> dict_set d k v = d @ [(k, v)]"
  by (induction d) (auto simp: dict_keys_def)

subsection \<open>Sums as exception results\<close>

lemma sum_case_Inr_iff [simp]:
  "((case x of Inl e \<Rightarrow> Inl e | Inr a \<Rightarrow> f a) = Inr b) \<longleftrightarrow> (\<exists>a. x = Inr a \<and> f a = Inr b)"
  by (cases x) auto

lemma dict_modify_map [dict_simps]:
  "dict_modify d k f = map (\<lambda>(k', v). (k', if k' = k then f v else v)) d"
  by (simp add: dict_modify_def case_prod_beta if_distrib)

subsection \<open>Sorting\<close>

text \<open>
  CPython's \<^verbatim>\<open>list.sort(reverse=True)\<close> reverses the list, sorts it stably and
  reverses it again. For a key \<open>f\<close>, this is the stable sort by any key \<open>g\<close> whose
  order is the reverse of the order of \<open>f\<close>.
\<close>

lemma rev_sort_key_rev:
  fixes f :: "'a \<Rightarrow> 'k::linorder" and g :: "'a \<Rightarrow> 'l::linorder"
  assumes fg: "\<And>x y. f x \<le> f y \<longleftrightarrow> g y \<le> g x"
  shows "rev (sort_key f (rev xs)) = sort_key g xs"
proof (rule properties_for_sort_key [symmetric])
  have eq: "g x = g y \<longleftrightarrow> f x = f y" for x y
    using fg [of x y] fg [of y x] by (auto simp: order_eq_iff)
  show "mset (rev (sort_key f (rev xs))) = mset xs" by simp
  show "filter (\<lambda>x. g k = g x) (rev (sort_key f (rev xs))) = filter (\<lambda>x. g k = g x) xs" for k
  proof -
    have "filter (\<lambda>x. f x = f k) (sort_key f (rev xs)) = filter (\<lambda>x. f x = f k) (rev xs)"
      by (rule sort_key_stable)
    then show ?thesis by (simp add: eq rev_filter [symmetric] eq_commute [of "f k"])
  qed
  have "sorted (map f (sort_key f (rev xs)))" by simp
  then show "sorted (map g (rev (sort_key f (rev xs))))"
    unfolding sorted_wrt_map rev_map [symmetric] sorted_wrt_rev
    by (rule sorted_wrt_mono_rel [rotated]) (simp add: fg)
qed

end
