(* ===== verification/PyBuiltins.thy ===== *)
theory PyBuiltins
  imports Prelude
begin

text \<open>
  The Python built-ins that the score handling of \<^verbatim>\<open>src/app/championship/utils.py\<close>
  relies on: \<^verbatim>\<open>str.split(sep)\<close>, \<^verbatim>\<open>int(str)\<close> and \<^verbatim>\<open>str(int)\<close>, and list
  indexing that raises \<open>IndexError\<close>. These are CPython library code, not code of
  the repository; they are modelled from CPython's documented behaviour on strings of
  code points below 256 (an Isabelle \<open>char\<close> is read as a Latin-1 code point).
  \<^verbatim>\<open>int(str)\<close> strips Unicode white space, accepts one sign, and decimal digits
  with single underscores between them (PEP 515); leading zeros are allowed in base 10.
  The lemmas give the round trip \<open>py_int (py_str_int n) = Some n\<close> and
  the join/split round trip.
\<close>

definition py_space :: "char \<Rightarrow> bool" where
  "py_space c \<longleftrightarrow> (of_char c :: nat) \<in> set [9, 10, 11, 12, 13, 28, 29, 30, 31, 32, 133, 160]"

definition is_digit :: "char \<Rightarrow> bool" where
  "is_digit c \<longleftrightarrow> (48::nat) \<le> of_char c \<and> (of_char c :: nat) \<le> 57"

definition digit_val :: "char \<Rightarrow> nat" where
  "digit_val c = of_char c - of_char CHR ''0''"

definition py_strip :: "string \<Rightarrow> string" where
  "py_strip s = rev (dropWhile py_space (rev (dropWhile py_space s)))"

fun digits_tail :: "string \<Rightarrow> bool" where
  "digits_tail [] = True"
| "digits_tail (c # cs) =
     (if is_digit c then digits_tail cs
      else c = CHR ''_'' \<and> (case cs of [] \<Rightarrow> False | d # ds \<Rightarrow> is_digit d \<and> digits_tail ds))"

definition decimal_literal :: "string \<Rightarrow> bool" where
  "decimal_literal s = (case s of [] \<Rightarrow> False | c # cs \<Rightarrow> is_digit c \<and> digits_tail cs)"

definition digits_value :: "string \<Rightarrow> nat" where
  "digits_value s = foldl (\<lambda>n c. 10 * n + digit_val c) 0 (filter is_digit s)"

definition py_int :: "string \<Rightarrow> int option" where
  "py_int s =
     (let t = py_strip s in
      case t of
        [] \<Rightarrow> None
      | c # cs \<Rightarrow>
          if c = CHR ''-'' then (if decimal_literal cs then Some (- int (digits_value cs)) else None)
          else if c = CHR ''+'' then (if decimal_literal cs then Some (int (digits_value cs)) else None)
          else if decimal_literal t then Some (int (digits_value t)) else None)"

fun split_on :: "char \<Rightarrow> string \<Rightarrow> string list" where
  "split_on c [] = [[]]"
| "split_on c (x # xs) =
     (if x = c then [] # split_on c xs
      else (let ws = split_on c xs in (x # hd ws) # tl ws))"

fun join_on :: "char \<Rightarrow> string list \<Rightarrow> string" where
  "join_on c [] = []"
| "join_on c [w] = w"
| "join_on c (w # ws) = w @ c # join_on c ws"

definition py_index :: "'a list \<Rightarrow> nat \<Rightarrow> 'a py_result" where
  "py_index xs i = (if i < length xs then Inr (xs ! i) else Inl IndexError)"

fun show_nat :: "nat \<Rightarrow> string" where
  "show_nat n =
     (if n < 10 then [char_of (48 + n)] else show_nat (n div 10) @ [char_of (48 + n mod 10)])"

definition py_str_int :: "int \<Rightarrow> string" where
  "py_str_int i = (if i < 0 then CHR ''-'' # show_nat (nat (- i)) else show_nat (nat i))"

declare show_nat.simps [simp del]

subsection \<open>split and join\<close>

lemma split_on_nonempty [simp]: "split_on c s \<noteq> []"
  by (induction s) (auto simp: Let_def)

lemma join_split_on: "join_on c (split_on c s) = s"
proof (induction s)
  case Nil
  then show ?case by simp
next
  case (Cons x xs)
  obtain w ws where ws: "split_on c xs = w # ws"
    using split_on_nonempty by (metis list.exhaust)
  show ?case
  proof (cases "x = c")
    case True
    with Cons.IH ws show ?thesis by (cases ws) auto
  next
    case False
    with Cons.IH ws show ?thesis by (cases ws) auto
  qed
qed

lemma split_on_no_sep: "c \<notin> set s \<Longrightarrow> split_on c s = [s]"
  by (induction s) auto

lemma split_on_append_sep:
  "c \<notin> set s \<Longrightarrow> split_on c (s @ c # t) = s # split_on c t"
  by (induction s) auto

subsection \<open>Decimal digits\<close>

lemma is_digit_char_of: "(d::nat) < 10 \<Longrightarrow> is_digit (char_of (48 + d))"
  by (simp add: is_digit_def of_char_of)

lemma digit_val_char_of: "(d::nat) < 10 \<Longrightarrow> digit_val (char_of (48 + d)) = d"
  by (simp add: digit_val_def of_char_of)

lemma show_nat_digits: "\<forall>c \<in> set (show_nat n). is_digit c"
  by (induction n rule: show_nat.induct) (subst show_nat.simps, auto simp: is_digit_char_of)

lemma show_nat_nonempty: "show_nat n \<noteq> []"
  by (subst show_nat.simps) simp

lemma foldl_digits_append:
  "foldl (\<lambda>n c. 10 * n + digit_val c) a (xs @ [c]) = 10 * foldl (\<lambda>n c. 10 * n + digit_val c) a xs + digit_val c"
  by simp

lemma digits_value_show_nat: "digits_value (show_nat n) = n"
proof (induction n rule: show_nat.induct)
  case (1 n)
  show ?case
  proof (cases "n < 10")
    case True
    then show ?thesis
      by (subst show_nat.simps) (simp add: digits_value_def is_digit_char_of digit_val_char_of)
  next
    case False
    have filt: "filter is_digit (show_nat (n div 10)) = show_nat (n div 10)"
      using show_nat_digits by (simp add: filter_id_conv)
    have "digits_value (show_nat n) = 10 * digits_value (show_nat (n div 10)) + n mod 10"
      using False
      by (subst show_nat.simps) (simp add: digits_value_def filt is_digit_char_of digit_val_char_of)
    with False "1.IH" show ?thesis by simp
  qed
qed

lemma digits_tail_all_digits: "\<forall>c \<in> set s. is_digit c \<Longrightarrow> digits_tail s"
  by (induction s) auto

lemma decimal_literal_show_nat: "decimal_literal (show_nat n)"
proof -
  obtain c cs where cs: "show_nat n = c # cs"
    using show_nat_nonempty by (metis list.exhaust)
  with show_nat_digits [of n] show ?thesis
    by (simp add: decimal_literal_def digits_tail_all_digits)
qed

lemma py_space_digit: "is_digit c \<Longrightarrow> \<not> py_space c"
  by (auto simp: is_digit_def py_space_def)

lemma py_strip_no_space:
  assumes "s \<noteq> []" and "\<not> py_space (hd s)" and "\<not> py_space (last s)"
  shows "py_strip s = s"
proof -
  have "dropWhile py_space s = s"
    using assms by (cases s) auto
  moreover have "dropWhile py_space (rev s) = rev s"
    using assms by (cases "rev s") (auto simp: last_rev [symmetric] simp del: last_rev)
  ultimately show ?thesis by (simp add: py_strip_def)
qed

lemma py_str_int_shape:
  "py_str_int i \<noteq> [] \<and> \<not> py_space (hd (py_str_int i)) \<and> \<not> py_space (last (py_str_int i))"
proof -
  have d: "\<forall>c \<in> set (show_nat m). is_digit c" and ne: "show_nat m \<noteq> []" for m
    using show_nat_digits show_nat_nonempty by blast+
  have "\<not> py_space (hd (show_nat m)) \<and> \<not> py_space (last (show_nat m))" for m
    using d [of m] ne [of m] by (simp add: py_space_digit)
  moreover have "\<not> py_space CHR ''-''" by (simp add: py_space_def)
  ultimately show ?thesis
    using ne by (auto simp: py_str_int_def)
qed

lemma py_int_py_str_int: "py_int (py_str_int i) = Some i"
proof -
  have strip: "py_strip (py_str_int i) = py_str_int i"
    using py_str_int_shape [of i] by (blast intro: py_strip_no_space)
  obtain c cs where cs: "show_nat (nat \<bar>i\<bar>) = c # cs"
    using show_nat_nonempty by (metis list.exhaust)
  have dig: "is_digit c"
    using show_nat_digits [of "nat \<bar>i\<bar>"] cs by simp
  then have "c \<noteq> CHR ''-'' \<and> c \<noteq> CHR ''+''"
    by (auto simp: is_digit_def)
  then show ?thesis
    using cs strip decimal_literal_show_nat [of "nat \<bar>i\<bar>"] digits_value_show_nat [of "nat \<bar>i\<bar>"]
    by (cases "i < 0") (auto simp: py_int_def py_str_int_def)
qed

end
