(* ===== verification/Models.thy ===== *)
theory Models
  imports Prelude
begin

text \<open>
  The data model of \<^verbatim>\<open>src/app/championship/models.py\<close>. Each SQLAlchemy model is a
  record whose fields are the table's columns (a field is prefixed by its table where
  two tables share a column name). A \<^verbatim>\<open>String\<close> column is a nullable \<open>sql_str\<close>;
  the \<^verbatim>\<open>Integer\<close> column \<^verbatim>\<open>matchday\<close> is nullable too, so it is \<open>int option\<close>.
  A \<^verbatim>\<open>DateTime\<close> is the tuple (year, month, day, hour, minute, second); the
  lexicographic order of such tuples is the chronological order.
  \<^verbatim>\<open>StandingsRow\<close> is a plain Python class whose comparison operators look at
  points first and goal difference second. The lemmas show that these operators are
  exactly the lexicographic order on the key \<open>row_key\<close>, so
  \<^verbatim>\<open>list.sort\<close> can be modelled as a sort by that key.
\<close>

type_synonym timestamp = "int \<times> int \<times> int \<times> int \<times> int \<times> int"

record league =
  league_pk :: int
  league_title :: sql_str

record league_group =
  group_pk :: int
  group_title :: sql_str
  group_league_id :: int

record football_team =
  team_pk :: int
  team_name :: sql_str

record fixture_result =
  fixture_pk :: int
  matchday :: "int option"
  kickoff_at :: timestamp
  score :: sql_str
  group_id :: int
  home_team_id :: int
  away_team_id :: int

record standings_row =
  rank :: int
  team :: sql_str
  played_games :: int
  points :: int
  goals :: int
  goals_against :: int
  goal_difference :: int
  win :: int
  lose :: int
  draw :: int
  row_matchday :: int

text \<open>\<^verbatim>\<open>StandingsRow(team=team_name)\<close>: every other argument keeps its default.\<close>

definition new_standings_row :: "sql_str \<Rightarrow> standings_row" where
  "new_standings_row t =
     \<lparr>rank = -1, team = t, played_games = 0, points = 0, goals = 0, goals_against = 0,
      goal_difference = 0, win = 0, lose = 0, draw = 0, row_matchday = 0\<rparr>"

definition row_eq :: "standings_row \<Rightarrow> standings_row \<Rightarrow> bool" where
  "row_eq a b \<longleftrightarrow> points a = points b \<and> goal_difference a = goal_difference b"

definition row_lt :: "standings_row \<Rightarrow> standings_row \<Rightarrow> bool" where
  "row_lt a b =
     (if points a < points b then True
      else if points a > points b then False
      else goal_difference a < goal_difference b)"

definition row_gt :: "standings_row \<Rightarrow> standings_row \<Rightarrow> bool" where
  "row_gt a b =
     (if points a > points b then True
      else if points a < points b then False
      else goal_difference a > goal_difference b)"

definition row_key :: "standings_row \<Rightarrow> int \<times> int" where
  "row_key r = (points r, goal_difference r)"

record standing_dict =
  sd_rank :: int
  sd_team :: sql_str
  sd_playedGames :: int
  sd_points :: int
  sd_goals :: int
  sd_goalsAgainst :: int
  sd_goalDifference :: int
  sd_win :: int
  sd_lose :: int
  sd_draw :: int

definition row_to_result_dict :: "standings_row \<Rightarrow> standing_dict" where
  "row_to_result_dict r =
     \<lparr>sd_rank = rank r, sd_team = team r, sd_playedGames = played_games r,
      sd_points = points r, sd_goals = goals r, sd_goalsAgainst = goals_against r,
      sd_goalDifference = goal_difference r, sd_win = win r, sd_lose = lose r,
      sd_draw = draw r\<rparr>"

subsection \<open>The comparison operators are the order on \<open>row_key\<close>\<close>

text \<open>C17: The hand-written comparison operators of \<^verbatim>\<open>StandingsRow\<close> are the
  lexicographic order on (points, goal difference): \<^verbatim>\<open>__lt__\<close> is \<open><\<close>,
  \<^verbatim>\<open>__gt__\<close> is \<open>>\<close> and \<^verbatim>\<open>__eq__\<close> is equality of the key, so they form a
  strict weak order and a sort by them is a sort by the key.\<close>

theorem row_comparisons_key_order:
  "(row_lt a b \<longleftrightarrow> row_key a < row_key b) \<and> (row_gt a b \<longleftrightarrow> row_key b < row_key a) \<and>
   (row_eq a b \<longleftrightarrow> row_key a = row_key b)"
  by (auto simp: row_lt_def row_gt_def row_eq_def row_key_def less_prod_def)

end
