(* ===== verification/Catalog.thy ===== *)
theory Catalog
  imports Models
begin

text \<open>
  The database the code reaches through SQLAlchemy (\<^verbatim>\<open>DB.session\<close>,
  \<^verbatim>\<open>Model.query\<close>) and the entity catalog of \<^verbatim>\<open>ChampionshipDataUtil\<close>
  (\<^verbatim>\<open>utils.py\<close> lines 14--113). A table is a list of rows in insertion
  order. Each table has a PostgreSQL \<^verbatim>\<open>SERIAL\<close> sequence that holds the last id
  it issued, so an insert takes the next id. \<^verbatim>\<open>query.get(id)\<close> is a lookup by
  primary key. \<^verbatim>\<open>filter_by(...).first()\<close> returns the first matching row
  (SQLAlchemy turns \<^verbatim>\<open>filter_by(title=None)\<close> into \<^verbatim>\<open>IS NULL\<close>, which is
  equality on \<open>sql_str\<close>). The query has no \<^verbatim>\<open>ORDER BY\<close>, so "first" is
  the database's choice, but the invariant \<open>catalog_inv\<close> makes the match unique.
  Persistence failures are not modelled: with no failures, every \<^verbatim>\<open>try\<close> block of
  the catalog returns normally, so the operations return the entity and the new state.
\<close>

record db =
  leagues :: "league list"
  league_groups :: "league_group list"
  football_teams :: "football_team list"
  fixture_results :: "fixture_result list"
  league_seq :: int
  group_seq :: int
  team_seq :: int
  fixture_seq :: int

definition empty_db :: db where
  "empty_db =
     \<lparr>leagues = [], league_groups = [], football_teams = [], fixture_results = [],
      league_seq = 0, group_seq = 0, team_seq = 0, fixture_seq = 0\<rparr>"

subsection \<open>Queries\<close>

definition league_by_title :: "db \<Rightarrow> sql_str \<Rightarrow> league option" where
  "league_by_title s t = find (\<lambda>l. league_title l = t) (leagues s)"

definition league_get :: "db \<Rightarrow> int \<Rightarrow> league option" where
  "league_get s i = find (\<lambda>l. league_pk l = i) (leagues s)"

definition group_by :: "db \<Rightarrow> sql_str \<Rightarrow> int \<Rightarrow> league_group option" where
  "group_by s t lid = find (\<lambda>g. group_title g = t \<and> group_league_id g = lid) (league_groups s)"

definition group_get :: "db \<Rightarrow> int \<Rightarrow> league_group option" where
  "group_get s i = find (\<lambda>g. group_pk g = i) (league_groups s)"

definition team_by_name :: "db \<Rightarrow> sql_str \<Rightarrow> football_team option" where
  "team_by_name s n = find (\<lambda>t. team_name t = n) (football_teams s)"

definition team_get :: "db \<Rightarrow> int \<Rightarrow> football_team option" where
  "team_get s i = find (\<lambda>t. team_pk t = i) (football_teams s)"

definition fixture_get :: "db \<Rightarrow> int \<Rightarrow> fixture_result option" where
  "fixture_get s i = find (\<lambda>f. fixture_pk f = i) (fixture_results s)"

definition fixtures_of_group :: "db \<Rightarrow> int \<Rightarrow> fixture_result list" where
  "fixtures_of_group s gid = filter (\<lambda>f. group_id f = gid) (fixture_results s)"

subsection \<open>Inserts (\<^verbatim>\<open>session.add\<close>, \<^verbatim>\<open>commit\<close>, \<^verbatim>\<open>refresh\<close>)\<close>

definition insert_league :: "db \<Rightarrow> sql_str \<Rightarrow> league \<times> db" where
  "insert_league s t =
     (let l = \<lparr>league_pk = league_seq s + 1, league_title = t\<rparr>
      in (l, s\<lparr>leagues := leagues s @ [l], league_seq := league_seq s + 1\<rparr>))"

definition insert_group :: "db \<Rightarrow> sql_str \<Rightarrow> int \<Rightarrow> league_group \<times> db" where
  "insert_group s t lid =
     (let g = \<lparr>group_pk = group_seq s + 1, group_title = t, group_league_id = lid\<rparr>
      in (g, s\<lparr>league_groups := league_groups s @ [g], group_seq := group_seq s + 1\<rparr>))"

definition insert_team :: "db \<Rightarrow> sql_str \<Rightarrow> football_team \<times> db" where
  "insert_team s n =
     (let t = \<lparr>team_pk = team_seq s + 1, team_name = n\<rparr>
      in (t, s\<lparr>football_teams := football_teams s @ [t], team_seq := team_seq s + 1\<rparr>))"

subsection \<open>The catalog operations\<close>

definition get_add_league :: "db \<Rightarrow> sql_str \<Rightarrow> league \<times> db" where
  "get_add_league s league_name =
     (case league_by_title s league_name of
        None \<Rightarrow> insert_league s league_name
      | Some l \<Rightarrow> (l, s))"

definition get_league :: "db \<Rightarrow> sql_str \<Rightarrow> league option" where
  "get_league s league_name = league_by_title s league_name"

definition get_add_group :: "db \<Rightarrow> sql_str \<Rightarrow> int \<Rightarrow> league_group \<times> db" where
  "get_add_group s group_name lid =
     (case group_by s group_name lid of
        None \<Rightarrow> insert_group s group_name lid
      | Some g \<Rightarrow> (g, s))"

definition get_group :: "db \<Rightarrow> sql_str \<Rightarrow> int \<Rightarrow> league_group option" where
  "get_group s group_name lid = group_by s group_name lid"

definition get_add_team :: "db \<Rightarrow> sql_str \<Rightarrow> football_team \<times> db" where
  "get_add_team s tname =
     (case team_by_name s tname of
        None \<Rightarrow> insert_team s tname
      | Some t \<Rightarrow> (t, s))"

subsection \<open>States reached by the catalog operations\<close>

text \<open>
  The catalog operations as the workflows call them: a league is resolved by title,
  a group by title within the league just resolved, a team by name.
\<close>

inductive catalog_reach :: "db \<Rightarrow> bool" where
  reach_empty: "catalog_reach empty_db"
| reach_league: "catalog_reach s \<Longrightarrow> catalog_reach (snd (get_add_league s t))"
| reach_group: "catalog_reach s \<Longrightarrow>
     catalog_reach (snd (get_add_group (snd (get_add_league s lt)) gt
                          (league_pk (fst (get_add_league s lt)))))"
| reach_team: "catalog_reach s \<Longrightarrow> catalog_reach (snd (get_add_team s n))"

subsection \<open>The catalog invariant\<close>

text \<open>
  Natural keys are unique (league title, group title within a league, team name),
  primary keys are unique and below their sequence, and every foreign key refers to an
  existing row.
\<close>

definition catalog_inv :: "db \<Rightarrow> bool" where
  "catalog_inv s \<longleftrightarrow>
     0 \<le> league_seq s \<and> 0 \<le> group_seq s \<and> 0 \<le> team_seq s \<and> 0 \<le> fixture_seq s \<and>
     distinct (map league_title (leagues s)) \<and> distinct (map league_pk (leagues s)) \<and>
     (\<forall>l \<in> set (leagues s). 0 < league_pk l \<and> league_pk l \<le> league_seq s) \<and>
     distinct (map (\<lambda>g. (group_title g, group_league_id g)) (league_groups s)) \<and>
     distinct (map group_pk (league_groups s)) \<and>
     (\<forall>g \<in> set (league_groups s). 0 < group_pk g \<and> group_pk g \<le> group_seq s \<and>
        league_get s (group_league_id g) \<noteq> None) \<and>
     distinct (map team_name (football_teams s)) \<and> distinct (map team_pk (football_teams s)) \<and>
     (\<forall>t \<in> set (football_teams s). 0 < team_pk t \<and> team_pk t \<le> team_seq s) \<and>
     distinct (map fixture_pk (fixture_results s)) \<and>
     (\<forall>f \<in> set (fixture_results s). 0 < fixture_pk f \<and> fixture_pk f \<le> fixture_seq s \<and>
        group_get s (group_id f) \<noteq> None \<and> team_get s (home_team_id f) \<noteq> None \<and>
        team_get s (away_team_id f) \<noteq> None)"

lemma find_append_None [simp]:
  "find P xs = None \<Longrightarrow> find P (xs @ [x]) = (if P x then Some x else None)"
  by (induction xs) auto

lemma find_append_Some [simp]:
  "find P xs = Some y \<Longrightarrow> find P (xs @ ys) = Some y"
  by (induction xs) auto

lemma find_None_notin: "find P xs = None \<Longrightarrow> x \<in> set xs \<Longrightarrow> \<not> P x"
  by (induction xs) (auto split: if_splits)

lemma find_Some_in: "find P xs = Some x \<Longrightarrow> x \<in> set xs \<and> P x"
  by (induction xs) (auto split: if_splits)

lemma find_map_notin: "x \<notin> set (map f xs) \<Longrightarrow> find (\<lambda>y. f y = x) xs = None"
  by (induction xs) auto

lemma fresh_key_notin:
  "\<forall>y \<in> set xs. f y \<le> (n::int) \<Longrightarrow> n + 1 \<notin> set (map f xs)"
  by fastforce

lemma find_append_mono:
  "find P xs \<noteq> None \<Longrightarrow> find P (xs @ ys) \<noteq> None"
  by (induction xs) auto

lemma insert_league_get_mono:
  "league_get s i \<noteq> None \<Longrightarrow> league_get (snd (insert_league s t)) i \<noteq> None"
  by (simp add: league_get_def insert_league_def Let_def find_append_mono)

lemma insert_group_get_mono:
  "group_get s i \<noteq> None \<Longrightarrow> group_get (snd (insert_group s t lid)) i \<noteq> None"
  by (simp add: group_get_def insert_group_def Let_def find_append_mono)

lemma insert_team_get_mono:
  "team_get s i \<noteq> None \<Longrightarrow> team_get (snd (insert_team s n)) i \<noteq> None"
  by (simp add: team_get_def insert_team_def Let_def find_append_mono)

lemmas catalog_unfold = catalog_inv_def insert_league_def insert_group_def insert_team_def
  league_get_def group_get_def team_get_def Let_def

lemma insert_league_inv:
  assumes "catalog_inv s" and "league_by_title s t = None"
  shows "catalog_inv (snd (insert_league s t))"
proof -
  have "t \<notin> set (map league_title (leagues s))"
    using assms(2) find_None_notin by (fastforce simp: league_by_title_def)
  moreover have "league_seq s + 1 \<notin> set (map league_pk (leagues s))"
    using assms(1) by (intro fresh_key_notin) (simp add: catalog_inv_def)
  ultimately show ?thesis
    using assms(1) by (auto simp: catalog_unfold find_append_mono)
qed

lemma insert_group_inv:
  assumes "catalog_inv s" and "group_by s t lid = None" and "league_get s lid \<noteq> None"
  shows "catalog_inv (snd (insert_group s t lid))"
proof -
  have "(t, lid) \<notin> set (map (\<lambda>g. (group_title g, group_league_id g)) (league_groups s))"
    using assms(2) find_None_notin by (fastforce simp: group_by_def)
  moreover have "group_seq s + 1 \<notin> set (map group_pk (league_groups s))"
    using assms(1) by (intro fresh_key_notin) (simp add: catalog_inv_def)
  ultimately show ?thesis
    using assms(1,3) by (auto simp: catalog_unfold find_append_mono)
qed

lemma insert_team_inv:
  assumes "catalog_inv s" and "team_by_name s n = None"
  shows "catalog_inv (snd (insert_team s n))"
proof -
  have "n \<notin> set (map team_name (football_teams s))"
    using assms(2) find_None_notin by (fastforce simp: team_by_name_def)
  moreover have "team_seq s + 1 \<notin> set (map team_pk (football_teams s))"
    using assms(1) by (intro fresh_key_notin) (simp add: catalog_inv_def)
  ultimately show ?thesis
    using assms(1) by (auto simp: catalog_unfold find_append_mono)
qed

subsection \<open>Properties of resolve-or-create\<close>

lemma get_add_league_inv:
  "catalog_inv s \<Longrightarrow> catalog_inv (snd (get_add_league s t))"
  by (auto simp: get_add_league_def insert_league_inv split: option.splits)

lemma get_add_group_inv:
  "catalog_inv s \<Longrightarrow> league_get s lid \<noteq> None \<Longrightarrow> catalog_inv (snd (get_add_group s t lid))"
  by (auto simp: get_add_group_def insert_group_inv split: option.splits)

lemma get_add_team_inv:
  "catalog_inv s \<Longrightarrow> catalog_inv (snd (get_add_team s n))"
  by (auto simp: get_add_team_def insert_team_inv split: option.splits)

lemma get_add_league_found:
  "league_by_title (snd (get_add_league s t)) t = Some (fst (get_add_league s t))"
  by (auto simp: get_add_league_def insert_league_def league_by_title_def Let_def
      split: option.splits)

lemma get_add_group_found:
  "group_by (snd (get_add_group s t lid)) t lid = Some (fst (get_add_group s t lid))"
  by (auto simp: get_add_group_def insert_group_def group_by_def Let_def split: option.splits)

lemma get_add_team_found:
  "team_by_name (snd (get_add_team s n)) n = Some (fst (get_add_team s n))"
  by (auto simp: get_add_team_def insert_team_def team_by_name_def Let_def split: option.splits)

lemma get_add_league_title: "league_title (fst (get_add_league s t)) = t"
  using get_add_league_found [of s t] by (auto simp: league_by_title_def dest: find_Some_in)

lemma get_add_group_key:
  "group_title (fst (get_add_group s t lid)) = t \<and> group_league_id (fst (get_add_group s t lid)) = lid"
  using get_add_group_found [of s t lid] by (auto simp: group_by_def dest: find_Some_in)

lemma get_add_team_name: "team_name (fst (get_add_team s n)) = n"
  using get_add_team_found [of s n] by (auto simp: team_by_name_def dest: find_Some_in)

lemma get_add_league_frame:
  "league_groups (snd (get_add_league s t)) = league_groups s \<and>
   football_teams (snd (get_add_league s t)) = football_teams s \<and>
   fixture_results (snd (get_add_league s t)) = fixture_results s"
  by (simp add: get_add_league_def insert_league_def Let_def split: option.splits)

lemma get_add_group_frame:
  "leagues (snd (get_add_group s t lid)) = leagues s \<and>
   football_teams (snd (get_add_group s t lid)) = football_teams s \<and>
   fixture_results (snd (get_add_group s t lid)) = fixture_results s"
  by (simp add: get_add_group_def insert_group_def Let_def split: option.splits)

lemma get_add_team_frame:
  "leagues (snd (get_add_team s n)) = leagues s \<and>
   league_groups (snd (get_add_team s n)) = league_groups s \<and>
   fixture_results (snd (get_add_team s n)) = fixture_results s"
  by (simp add: get_add_team_def insert_team_def Let_def split: option.splits)

lemma count_key_distinct:
  "distinct (map f xs) \<Longrightarrow> x \<in> set xs \<Longrightarrow> length (filter (\<lambda>y. f y = f x) xs) = 1"
proof (induction xs)
  case Nil
  then show ?case by simp
next
  case (Cons a xs)
  show ?case
  proof (cases "a = x")
    case True
    with Cons.prems have "f x \<notin> f ` set xs" by simp
    then have "filter (\<lambda>y. f y = f x) xs = []"
      unfolding filter_empty_conv by (metis imageI)
    with True show ?thesis by simp
  next
    case False
    with Cons.prems have "f a \<noteq> f x"
      by (auto simp: image_iff)
    with False Cons show ?thesis by simp
  qed
qed

lemma catalog_inv_empty: "catalog_inv empty_db"
  by (simp add: catalog_inv_def empty_db_def)

lemma get_add_league_exists: "league_get (snd (get_add_league s t)) (league_pk (fst (get_add_league s t))) \<noteq> None"
proof -
  have "fst (get_add_league s t) \<in> set (leagues (snd (get_add_league s t)))"
    using get_add_league_found [of s t] by (auto simp: league_by_title_def dest: find_Some_in)
  then show ?thesis
    by (auto simp: league_get_def find_None_iff)
qed

lemma get_add_group_distinct:
  "catalog_inv s \<Longrightarrow> distinct (map (\<lambda>g. (group_title g, group_league_id g)) (league_groups (snd (get_add_group s t lid))))"
proof (cases "group_by s t lid")
  case None
  assume inv: "catalog_inv s"
  have "(t, lid) \<notin> set (map (\<lambda>g. (group_title g, group_league_id g)) (league_groups s))"
    using None find_None_notin by (fastforce simp: group_by_def)
  with inv None show ?thesis
    by (simp add: get_add_group_def insert_group_def catalog_inv_def Let_def)
next
  case (Some g)
  assume "catalog_inv s"
  with Some show ?thesis by (simp add: get_add_group_def catalog_inv_def)
qed

lemma get_add_team_exists: "team_get (snd (get_add_team s n)) (team_pk (fst (get_add_team s n))) \<noteq> None"
proof -
  have "fst (get_add_team s n) \<in> set (football_teams (snd (get_add_team s n)))"
    using get_add_team_found [of s n] by (auto simp: team_by_name_def dest: find_Some_in)
  then show ?thesis
    by (auto simp: team_get_def find_None_iff)
qed

lemma get_add_group_exists:
  "group_get (snd (get_add_group s t lid)) (group_pk (fst (get_add_group s t lid))) \<noteq> None"
proof -
  have "fst (get_add_group s t lid) \<in> set (league_groups (snd (get_add_group s t lid)))"
    using get_add_group_found [of s t lid] by (auto simp: group_by_def dest: find_Some_in)
  then show ?thesis
    by (auto simp: group_get_def find_None_iff)
qed

lemma get_add_frame_gets [simp]:
  "team_get (snd (get_add_league s t)) = team_get s"
  "group_get (snd (get_add_league s t)) = group_get s"
  "team_get (snd (get_add_group s t lid)) = team_get s"
  "league_get (snd (get_add_group s t lid)) = league_get s"
  "league_get (snd (get_add_team s n)) = league_get s"
  "group_get (snd (get_add_team s n)) = group_get s"
  by (simp_all add: fun_eq_iff team_get_def group_get_def league_get_def
      get_add_league_frame get_add_group_frame get_add_team_frame)

lemma get_add_league_get_mono:
  "league_get s i \<noteq> None \<Longrightarrow> league_get (snd (get_add_league s t)) i \<noteq> None"
  by (cases "league_by_title s t") (simp_all add: get_add_league_def insert_league_get_mono)

lemma get_add_group_get_mono:
  "group_get s j \<noteq> None \<Longrightarrow> group_get (snd (get_add_group s t lid)) j \<noteq> None"
  by (cases "group_by s t lid") (simp_all add: get_add_group_def insert_group_get_mono)

lemma get_add_team_get_mono:
  "team_get s k \<noteq> None \<Longrightarrow> team_get (snd (get_add_team s n)) k \<noteq> None"
  by (cases "team_by_name s n") (simp_all add: get_add_team_def insert_team_get_mono)

lemma find_distinct_key:
  "distinct (map f xs) \<Longrightarrow> x \<in> set xs \<Longrightarrow> find (\<lambda>y. f y = f x) xs = Some x"
  by (induction xs) (auto simp: image_iff)

lemma catalog_inv_gets:
  assumes "catalog_inv s"
  shows "x \<in> set (football_teams s) \<Longrightarrow> team_get s (team_pk x) = Some x"
    and "g \<in> set (league_groups s) \<Longrightarrow> group_get s (group_pk g) = Some g"
    and "l \<in> set (leagues s) \<Longrightarrow> league_get s (league_pk l) = Some l"
  using assms by (simp_all add: catalog_inv_def team_get_def group_get_def league_get_def find_distinct_key)

lemma get_add_team_in: "fst (get_add_team s n) \<in> set (football_teams (snd (get_add_team s n)))"
  using get_add_team_found [of s n] by (auto simp: team_by_name_def dest: find_Some_in)

lemma get_add_group_in: "fst (get_add_group s t lid) \<in> set (league_groups (snd (get_add_group s t lid)))"
  using get_add_group_found [of s t lid] by (auto simp: group_by_def dest: find_Some_in)

lemma get_add_league_in: "fst (get_add_league s t) \<in> set (leagues (snd (get_add_league s t)))"
  using get_add_league_found [of s t] by (auto simp: league_by_title_def dest: find_Some_in)

lemma get_add_team_teams_mono: "set (football_teams s) \<subseteq> set (football_teams (snd (get_add_team s n)))"
  by (auto simp: get_add_team_def insert_team_def Let_def split: option.split)

subsection \<open>Properties of the catalog\<close>

text \<open>C18: Resolve-or-create is idempotent: resolving a league title, a group (title,
  league id) or a team name a second time finds the entity the first call returned and
  changes nothing.\<close>

theorem resolve_idempotent:
  "get_add_league (snd (get_add_league s t)) t = get_add_league s t \<and>
   get_add_group (snd (get_add_group s g lid)) g lid = get_add_group s g lid \<and>
   get_add_team (snd (get_add_team s n)) n = get_add_team s n"
proof (intro conjI)
  show "get_add_league (snd (get_add_league s t)) t = get_add_league s t"
    using get_add_league_found [of s t]
    by (simp add: get_add_league_def [of "snd (get_add_league s t)"] prod_eq_iff)
  show "get_add_group (snd (get_add_group s g lid)) g lid = get_add_group s g lid"
    using get_add_group_found [of s g lid]
    by (simp add: get_add_group_def [of "snd (get_add_group s g lid)"] prod_eq_iff)
  show "get_add_team (snd (get_add_team s n)) n = get_add_team s n"
    using get_add_team_found [of s n]
    by (simp add: get_add_team_def [of "snd (get_add_team s n)"] prod_eq_iff)
qed

text \<open>C19: In a consistent database, after resolving a natural key there is exactly one
  record with that key: one league per title, one group per (title, league), one team
  per name.\<close>

theorem resolve_leaves_one_record:
  assumes "catalog_inv s"
  shows "length (filter (\<lambda>l. league_title l = t) (leagues (snd (get_add_league s t)))) = 1 \<and>
         length (filter (\<lambda>g. (group_title g, group_league_id g) = (t, lid))
                   (league_groups (snd (get_add_group s t lid)))) = 1 \<and>
         length (filter (\<lambda>x. team_name x = n) (football_teams (snd (get_add_team s n)))) = 1"
proof (intro conjI)
  have "fst (get_add_league s t) \<in> set (leagues (snd (get_add_league s t)))"
    using get_add_league_found [of s t] by (auto simp: league_by_title_def dest: find_Some_in)
  with get_add_league_inv [OF assms] show "length (filter (\<lambda>l. league_title l = t) (leagues (snd (get_add_league s t)))) = 1"
    using count_key_distinct [of league_title] get_add_league_title [of s t]
    by (fastforce simp: catalog_inv_def)
next
  have "fst (get_add_group s t lid) \<in> set (league_groups (snd (get_add_group s t lid)))"
    using get_add_group_found [of s t lid] by (auto simp: group_by_def dest: find_Some_in)
  with get_add_group_distinct [OF assms, of t lid]
  show "length (filter (\<lambda>g. (group_title g, group_league_id g) = (t, lid))
          (league_groups (snd (get_add_group s t lid)))) = 1"
    using count_key_distinct [of "\<lambda>g. (group_title g, group_league_id g)"] get_add_group_key [of s t lid]
    by fastforce
next
  have "fst (get_add_team s n) \<in> set (football_teams (snd (get_add_team s n)))"
    using get_add_team_found [of s n] by (auto simp: team_by_name_def dest: find_Some_in)
  with get_add_team_inv [OF assms] show "length (filter (\<lambda>x. team_name x = n) (football_teams (snd (get_add_team s n)))) = 1"
    using count_key_distinct [of team_name] get_add_team_name [of s n]
    by (fastforce simp: catalog_inv_def)
qed

text \<open>C20: Every database state reached from the empty database by the catalog
  operations, composed as the workflows compose them, is consistent: natural keys and
  primary keys are unique, ids stay below their sequences, foreign keys resolve.\<close>

theorem catalog_reach_inv:
  assumes "catalog_reach s"
  shows "catalog_inv s"
  using assms
proof (induction rule: catalog_reach.induct)
  case reach_empty
  then show ?case by (rule catalog_inv_empty)
next
  case (reach_league s t)
  from reach_league.IH show ?case by (rule get_add_league_inv)
next
  case (reach_group s lt gt)
  from reach_group.IH have "catalog_inv (snd (get_add_league s lt))" by (rule get_add_league_inv)
  then show ?case by (rule get_add_group_inv) (rule get_add_league_exists)
next
  case (reach_team s n)
  from reach_team.IH show ?case by (rule get_add_team_inv)
qed

end
