(* ===== verification/Standings.thy ===== *)
theory Standings
  imports Catalog PyBuiltins
begin

text \<open>
  The standings aggregator: the private class methods \<^verbatim>\<open>__create_standings_dict\<close>,
  \<^verbatim>\<open>__parse_result\<close>, \<^verbatim>\<open>__get_sorted_stangings_as_list\<close> and
  \<^verbatim>\<open>__gen_standing_table\<close> of \<^verbatim>\<open>ChampionshipDataUtil\<close> (\<^verbatim>\<open>utils.py\<close>
  lines 190--317). The standings dictionary maps a team id to its
  \<^verbatim>\<open>StandingsRow\<close>. \<^verbatim>\<open>__parse_result\<close> fetches the home and the away row and
  mutates them field by field. When the home and the away id are equal, both names
  alias one object. The model therefore applies every \<^verbatim>\<open>+=\<close> of the source, in the
  source's order, to the dictionary entry (\<open>dict_modify\<close>).

  Iterating a Python \<^verbatim>\<open>set\<close> of team ids yields an order chosen by CPython's hash
  table. It is a parameter \<open>it\<close> of the model (\<open>set_iter\<close>). Theorems that depend on
  it assume only \<open>set_iter_ok it\<close>: the enumeration is duplicate-free and complete.

  \<^verbatim>\<open>standings.sort(reverse=True)\<close> is CPython's stable sort run with
  \<^verbatim>\<open>reverse=True\<close>. CPython reverses the list, sorts it stably with \<^verbatim>\<open><\<close>,
  and reverses it again. \<^verbatim>\<open>StandingsRow.__lt__\<close> is the order on \<open>row_key\<close>
  (theory \<open>Models\<close>), so the sort is \<open>rev (sort_key row_key (rev xs))\<close>.
\<close>

type_synonym standings_dict = "(int, standings_row) pydict"

type_synonym set_iter = "int list \<Rightarrow> int list"

definition set_iter_ok :: "set_iter \<Rightarrow> bool" where
  "set_iter_ok it \<longleftrightarrow> (\<forall>xs. distinct (it xs) \<and> set (it xs) = set xs)"

subsection \<open>\<^verbatim>\<open>__create_standings_dict\<close>\<close>

definition fixture_team_ids :: "fixture_result list \<Rightarrow> int list" where
  "fixture_team_ids fs = concat (map (\<lambda>f. [home_team_id f, away_team_id f]) fs)"

fun build_standings :: "db \<Rightarrow> int list \<Rightarrow> standings_dict \<Rightarrow> standings_dict py_result" where
  "build_standings s [] d = Inr d"
| "build_standings s (i # is) d =
     (case team_get s i of
        None \<Rightarrow> Inl AttributeError
      | Some t \<Rightarrow> build_standings s is (dict_set d i (new_standings_row (team_name t))))"

definition create_standings_dict :: "db \<Rightarrow> set_iter \<Rightarrow> fixture_result list \<Rightarrow> standings_dict py_result" where
  "create_standings_dict s it fs = build_standings s (it (fixture_team_ids fs)) []"

subsection \<open>\<^verbatim>\<open>__parse_result\<close>\<close>

text \<open>
  \<^verbatim>\<open>fixture_result.score.split(':')\<close>, then \<^verbatim>\<open>int\<close> of piece 0 and of piece 1.
  A NULL score raises \<open>AttributeError\<close> (\<^verbatim>\<open>None.split\<close>). A piece that is no
  integer raises \<open>ValueError\<close>. A score without a colon raises \<open>IndexError\<close>
  at \<^verbatim>\<open>splited_score[1]\<close>, unless piece 0 already failed.
\<close>

definition parse_score :: "sql_str \<Rightarrow> (int \<times> int) py_result" where
  "parse_score sc =
     (case sc of
        None \<Rightarrow> Inl AttributeError
      | Some str \<Rightarrow>
          (let parts = split_on CHR '':'' str in
           case py_int (hd parts) of
             None \<Rightarrow> Inl ValueError
           | Some h \<Rightarrow>
               (case py_index parts 1 of
                  Inl e \<Rightarrow> Inl e
                | Inr p \<Rightarrow> (case py_int p of None \<Rightarrow> Inl ValueError | Some a \<Rightarrow> Inr (h, a)))))"

definition add_points :: "int \<Rightarrow> standings_row \<Rightarrow> standings_row" where
  "add_points n r = r\<lparr>points := points r + n\<rparr>"

definition add_win :: "standings_row \<Rightarrow> standings_row" where
  "add_win r = r\<lparr>win := win r + 1\<rparr>"

definition add_lose :: "standings_row \<Rightarrow> standings_row" where
  "add_lose r = r\<lparr>lose := lose r + 1\<rparr>"

definition add_draw :: "standings_row \<Rightarrow> standings_row" where
  "add_draw r = r\<lparr>draw := draw r + 1\<rparr>"

definition add_goals :: "int \<Rightarrow> int \<Rightarrow> standings_row \<Rightarrow> standings_row" where
  "add_goals own opp r =
     r\<lparr>played_games := played_games r + 1, goals := goals r + own,
       goals_against := goals_against r + opp, goal_difference := goal_difference r + (own - opp)\<rparr>"

definition parse_result :: "standings_dict \<Rightarrow> fixture_result \<Rightarrow> standings_dict py_result" where
  "parse_result d f =
     (let h = home_team_id f; a = away_team_id f in
      if dict_get d h = None then Inl KeyError
      else if dict_get d a = None then Inl KeyError
      else
        (case parse_score (score f) of
           Inl e \<Rightarrow> Inl e
         | Inr (home_score, away_score) \<Rightarrow>
             (let d1 =
                (if home_score > away_score then
                   dict_modify (dict_modify (dict_modify d h (add_points 3)) h add_win) a add_lose
                 else if away_score < home_score then
                   dict_modify (dict_modify (dict_modify d a (add_points 3)) a add_win) h add_lose
                 else
                   dict_modify (dict_modify (dict_modify (dict_modify d h (add_points 1)) h add_draw)
                     a (add_points 1)) a add_draw);
                  d2 = dict_modify d1 h (add_goals home_score away_score)
              in Inr (dict_modify d2 a (add_goals away_score home_score)))))"

subsection \<open>The loop of \<^verbatim>\<open>__gen_standing_table\<close>\<close>

text \<open>
  One iteration updates \<^verbatim>\<open>max_matchday\<close> and then parses the result. A NULL
  matchday raises \<open>TypeError\<close> (\<^verbatim>\<open>None > int\<close> in Python 3). The first exception
  aborts the loop, and with it the whole table.
\<close>

fun populate :: "standings_dict \<Rightarrow> int \<Rightarrow> fixture_result list \<Rightarrow> (int \<times> standings_dict) py_result" where
  "populate d mm [] = Inr (mm, d)"
| "populate d mm (f # fs) =
     (case matchday f of
        None \<Rightarrow> Inl TypeError
      | Some m \<Rightarrow>
          (let mm' = (if m > mm then m else mm) in
           case parse_result d f of
             Inl e \<Rightarrow> Inl e
           | Inr d' \<Rightarrow> populate d' mm' fs))"

subsection \<open>\<^verbatim>\<open>__get_sorted_stangings_as_list\<close>\<close>

definition py_sort_reverse :: "standings_row list \<Rightarrow> standings_row list" where
  "py_sort_reverse xs = rev (sort_key row_key (rev xs))"

fun assign_ranks :: "int \<Rightarrow> standings_row list \<Rightarrow> standings_row list" where
  "assign_ranks i [] = []"
| "assign_ranks i (r # rs) = r\<lparr>rank := i\<rparr> # assign_ranks (i + 1) rs"

definition get_sorted_standings_as_list :: "standings_dict \<Rightarrow> standings_row list" where
  "get_sorted_standings_as_list d = assign_ranks 1 (py_sort_reverse (dict_values d))"

subsection \<open>\<^verbatim>\<open>__gen_standing_table\<close>\<close>

record group_table =
  gt_leagueTitle :: sql_str
  gt_matchday :: int
  gt_group :: sql_str
  gt_standing :: "standing_dict list"

definition gen_standing_table :: "db \<Rightarrow> set_iter \<Rightarrow> int \<Rightarrow> group_table py_result" where
  "gen_standing_table s it gid =
     (let fixtures = fixtures_of_group s gid in
      case create_standings_dict s it fixtures of
        Inl e \<Rightarrow> Inl e
      | Inr d \<Rightarrow>
          (case populate d 0 fixtures of
             Inl e \<Rightarrow> Inl e
           | Inr (max_matchday, d') \<Rightarrow>
               (let standings = get_sorted_standings_as_list d' in
                case group_get s gid of
                  None \<Rightarrow> Inl AttributeError
                | Some g \<Rightarrow>
                    (case league_get s (group_league_id g) of
                       None \<Rightarrow> Inl AttributeError
                     | Some l \<Rightarrow>
                         Inr \<lparr>gt_leagueTitle = league_title l, gt_matchday = max_matchday,
                              gt_group = group_title g,
                              gt_standing = map row_to_result_dict standings\<rparr>))))"

subsection \<open>Specification of the aggregation\<close>

text \<open>
  The per-row invariant of a standings row. A match changes a row by
  \<open>home_delta\<close> or \<open>away_delta\<close>, the net effect of the updates
  \<^verbatim>\<open>__parse_result\<close> makes to the home and the away row. \<open>result_delta\<close> is the
  rule the specification states: three points for the strictly higher score, one each
  on a draw. \<open>team_stats\<close> is the abstract aggregation: one team's row is its
  initial row changed by every match it took part in, in order. \<open>desc_key\<close>
  orders rows best first.
\<close>

definition row_inv :: "standings_row \<Rightarrow> bool" where
  "row_inv r \<longleftrightarrow>
     goal_difference r = goals r - goals_against r \<and>
     played_games r = win r + lose r + draw r \<and>
     points r = 3 * win r + draw r \<and> 0 \<le> win r \<and> 0 \<le> lose r \<and> 0 \<le> draw r"

definition home_delta :: "int \<Rightarrow> int \<Rightarrow> standings_row \<Rightarrow> standings_row" where
  "home_delta hs as =
     add_goals hs as \<circ> (if hs > as then add_win \<circ> add_points 3 else add_draw \<circ> add_points 1)"

definition away_delta :: "int \<Rightarrow> int \<Rightarrow> standings_row \<Rightarrow> standings_row" where
  "away_delta hs as = add_goals as hs \<circ> (if hs > as then add_lose else add_draw \<circ> add_points 1)"

definition result_delta :: "int \<Rightarrow> int \<Rightarrow> standings_row \<Rightarrow> standings_row" where
  "result_delta own opp =
     add_goals own opp \<circ>
       (if own > opp then add_win \<circ> add_points 3
        else if own < opp then add_lose else add_draw \<circ> add_points 1)"

definition fixture_effect :: "int \<Rightarrow> fixture_result \<Rightarrow> standings_row \<Rightarrow> standings_row" where
  "fixture_effect t f r =
     (case parse_score (score f) of
        Inl _ \<Rightarrow> r
      | Inr (hs, as) \<Rightarrow>
          (let r1 = (if t = home_team_id f then home_delta hs as r else r)
           in if t = away_team_id f then away_delta hs as r1 else r1))"

definition team_stats :: "fixture_result list \<Rightarrow> int \<Rightarrow> standings_row \<Rightarrow> standings_row" where
  "team_stats fs t r = foldl (\<lambda>r f. fixture_effect t f r) r fs"

definition max_matchday_of :: "int \<Rightarrow> fixture_result list \<Rightarrow> int" where
  "max_matchday_of mm fs =
     foldl (\<lambda>m f. case matchday f of None \<Rightarrow> m | Some x \<Rightarrow> max m x) mm fs"

definition score_ok :: "fixture_result \<Rightarrow> bool" where
  "score_ok f = (case parse_score (score f) of Inl _ \<Rightarrow> False | Inr _ \<Rightarrow> True)"

definition populate_ok :: "standings_dict \<Rightarrow> fixture_result list \<Rightarrow> bool" where
  "populate_ok d fs \<longleftrightarrow>
     (\<forall>f \<in> set fs. matchday f \<noteq> None \<and> home_team_id f \<in> set (dict_keys d) \<and>
        away_team_id f \<in> set (dict_keys d) \<and> score_ok f)"

definition desc_key :: "standings_row \<Rightarrow> int \<times> int" where
  "desc_key r = (- points r, - goal_difference r)"

definition standing_ok :: "standing_dict \<Rightarrow> bool" where
  "standing_ok r \<longleftrightarrow>
     sd_goalDifference r = sd_goals r - sd_goalsAgainst r \<and>
     sd_playedGames r = sd_win r + sd_lose r + sd_draw r \<and>
     sd_points r = 3 * sd_win r + sd_draw r \<and> 0 \<le> sd_win r \<and> 0 \<le> sd_lose r \<and> 0 \<le> sd_draw r"

definition team_initial_row :: "db \<Rightarrow> int \<Rightarrow> standings_row" where
  "team_initial_row s i =
     new_standings_row (case team_get s i of None \<Rightarrow> None | Some t \<Rightarrow> team_name t)"

definition standings_spec :: "db \<Rightarrow> set_iter \<Rightarrow> fixture_result list \<Rightarrow> standings_row list" where
  "standings_spec s it fs =
     assign_ranks 1
       (sort_key desc_key (map (\<lambda>i. team_stats fs i (team_initial_row s i)) (it (fixture_team_ids fs))))"

definition match_points :: "fixture_result \<Rightarrow> int" where
  "match_points f =
     (case parse_score (score f) of Inl _ \<Rightarrow> 0 | Inr (hs, as) \<Rightarrow> if hs > as then 3 else 2)"

subsection \<open>Lemmas: one match, the loop, the sort\<close>

lemmas row_update_defs = add_points_def add_win_def add_lose_def add_draw_def add_goals_def

lemma parse_result_Inr_iff:
  "parse_result d f = Inr d' \<longleftrightarrow>
     home_team_id f \<in> set (dict_keys d) \<and> away_team_id f \<in> set (dict_keys d) \<and> score_ok f \<and>
     d' = map (\<lambda>(k, v). (k, fixture_effect k f v)) d"
proof (cases "parse_score (score f)")
  case (Inl e)
  then show ?thesis
    by (auto simp: parse_result_def score_ok_def Let_def)
next
  case (Inr p)
  obtain hs as where p: "p = (hs, as)" by fastforce
  have eff: "map (\<lambda>(k, v). (k, fixture_effect k f v)) d =
    (let h = home_team_id f; a = away_team_id f;
         d1 = (if hs > as then dict_modify (dict_modify (dict_modify d h (add_points 3)) h add_win) a add_lose
               else if as < hs then dict_modify (dict_modify (dict_modify d a (add_points 3)) a add_win) h add_lose
               else dict_modify (dict_modify (dict_modify (dict_modify d h (add_points 1)) h add_draw) a (add_points 1)) a add_draw);
         d2 = dict_modify d1 h (add_goals hs as)
     in dict_modify d2 a (add_goals as hs))"
    using Inr p
    by (auto simp: dict_modify_map fixture_effect_def home_delta_def away_delta_def row_update_defs Let_def
        intro!: map_cong)
  show ?thesis
    using Inr p eff by (auto simp: parse_result_def score_ok_def dict_get_None_iff Let_def)
qed

lemma dict_keys_map_val [simp]: "dict_keys (map (\<lambda>(k, v). (k, F k v)) d) = dict_keys d"
  by (induction d) (auto simp: dict_keys_def)

lemma team_stats_Cons: "team_stats (f # fs) t r = team_stats fs t (fixture_effect t f r)"
  by (simp add: team_stats_def)

lemma max_matchday_of_Cons:
  "matchday f = Some m \<Longrightarrow> max_matchday_of (if m > mm then m else mm) fs = max_matchday_of mm (f # fs)"
  by (simp add: max_matchday_of_def max_def)

lemma populate_Inr_iff:
  "populate d mm fs = Inr (mm', d') \<longleftrightarrow>
     populate_ok d fs \<and> mm' = max_matchday_of mm fs \<and> d' = map (\<lambda>(k, v). (k, team_stats fs k v)) d"
proof (induction fs arbitrary: d mm)
  case Nil
  then show ?case
    by (auto simp: populate_ok_def max_matchday_of_def team_stats_def)
next
  case (Cons f fs)
  show ?case
  proof (cases "matchday f")
    case None
    then show ?thesis by (simp add: populate_ok_def)
  next
    case (Some m)
    then show ?thesis
      using Cons.IH
      by (auto simp: populate_ok_def parse_result_Inr_iff max_matchday_of_Cons team_stats_Cons
          case_prod_beta split: sum.splits)
  qed
qed

lemma row_inv_fixture_effect: "row_inv r \<Longrightarrow> row_inv (fixture_effect t f r)"
  by (auto simp: fixture_effect_def home_delta_def away_delta_def row_update_defs row_inv_def Let_def
      split: sum.splits)

lemma row_inv_team_stats: "row_inv r \<Longrightarrow> row_inv (team_stats fs t r)"
  by (induction fs arbitrary: r) (auto simp: team_stats_Cons row_inv_fixture_effect, simp add: team_stats_def)

lemma fixture_effect_commute:
  "fixture_effect t f \<circ> fixture_effect t g = fixture_effect t g \<circ> fixture_effect t f"
  by (auto simp: fun_eq_iff fixture_effect_def home_delta_def away_delta_def row_update_defs Let_def
      split: sum.splits)

lemma team_stats_perm: "mset fs = mset gs \<Longrightarrow> team_stats fs t r = team_stats gs t r"
proof -
  assume "mset fs = mset gs"
  then have "fold (fixture_effect t) fs = fold (fixture_effect t) gs"
    by (rule fold_multiset_equiv [rotated]) (simp add: fixture_effect_commute)
  then show ?thesis
    by (simp add: team_stats_def foldl_conv_fold)
qed

lemma row_key_desc_key: "row_key x \<le> row_key y \<longleftrightarrow> desc_key y \<le> desc_key x"
  by (auto simp: row_key_def desc_key_def less_eq_prod_def)

lemma py_sort_reverse_sort_key: "py_sort_reverse xs = sort_key desc_key xs"
  unfolding py_sort_reverse_def by (rule rev_sort_key_rev) (rule row_key_desc_key)

lemma length_assign_ranks [simp]: "length (assign_ranks i rs) = length rs"
  by (induction rs arbitrary: i) auto

lemma nth_assign_ranks:
  "k < length rs \<Longrightarrow> assign_ranks i rs ! k = (rs ! k)\<lparr>rank := i + int k\<rparr>"
proof (induction rs arbitrary: i k)
  case Nil
  then show ?case by simp
next
  case (Cons r rs)
  then show ?case by (cases k) auto
qed

lemma map_rank_assign_ranks: "map rank (assign_ranks i rs) = map (\<lambda>k. i + int k) [0..<length rs]"
  by (rule nth_equalityI) (auto simp: nth_assign_ranks)

lemma assign_ranks_keys: "map desc_key (assign_ranks i rs) = map desc_key rs"
  by (induction rs arbitrary: i) (auto simp: desc_key_def)

lemma max_matchday_of_Max:
  "max_matchday_of mm fs = Max (insert mm {m. \<exists>f \<in> set fs. matchday f = Some m})"
proof (induction fs arbitrary: mm)
  case Nil
  then show ?case by (simp add: max_matchday_of_def)
next
  case (Cons f fs)
  have fin: "finite {m. \<exists>f \<in> set fs. matchday f = Some m}"
  proof -
    have "{m. \<exists>f \<in> set fs. matchday f = Some m} \<subseteq> (\<lambda>f. the (matchday f)) ` set fs"
      by force
    then show ?thesis by (rule finite_subset) simp
  qed
  show ?case
  proof (cases "matchday f")
    case None
    with Cons.IH show ?thesis
      by (simp add: max_matchday_of_def)
  next
    case (Some x)
    have "{m. \<exists>g \<in> set (f # fs). matchday g = Some m} = insert x {m. \<exists>f \<in> set fs. matchday f = Some m}"
      using Some by auto
    moreover have "Max (insert (max mm x) S) = max mm (Max (insert x S))"
      if "S = {m. \<exists>f \<in> set fs. matchday f = Some m}" for S
      using fin that by (cases "S = {}") (simp_all add: max.assoc)
    ultimately show ?thesis
      using Cons.IH [of "max mm x"] Some fin by (simp add: max_matchday_of_def)
  qed
qed

subsection \<open>Helper lemmas for the table\<close>

lemma build_standings_Inr_iff:
  "distinct is \<Longrightarrow> set is \<inter> set (dict_keys d) = {} \<Longrightarrow>
   build_standings s is d = Inr d' \<longleftrightarrow>
     (\<forall>i \<in> set is. team_get s i \<noteq> None) \<and> d' = d @ map (\<lambda>i. (i, team_initial_row s i)) is"
proof (induction "is" arbitrary: d)
  case Nil
  then show ?case by auto
next
  case (Cons i "is")
  show ?case
  proof (cases "team_get s i")
    case None
    then show ?thesis by simp
  next
    case (Some t)
    have fresh: "i \<notin> set (dict_keys d)" using Cons.prems by auto
    have "set is \<inter> set (dict_keys (d @ [(i, team_initial_row s i)])) = {}"
      using Cons.prems by (auto simp: dict_keys_def)
    with Cons.IH [of "d @ [(i, team_initial_row s i)]"] Cons.prems Some fresh show ?thesis
      by (auto simp: dict_set_fresh team_initial_row_def)
  qed
qed

lemma set_iter_okD: "set_iter_ok it \<Longrightarrow> distinct (it xs) \<and> set (it xs) = set xs"
  by (simp add: set_iter_ok_def)

lemma create_standings_dict_Inr_iff:
  assumes "set_iter_ok it"
  shows "create_standings_dict s it fs = Inr d \<longleftrightarrow>
     (\<forall>i \<in> set (fixture_team_ids fs). team_get s i \<noteq> None) \<and>
     d = map (\<lambda>i. (i, team_initial_row s i)) (it (fixture_team_ids fs))"
  using build_standings_Inr_iff [of "it (fixture_team_ids fs)" "[]" s d] set_iter_okD [OF assms]
  by (simp add: create_standings_dict_def dict_keys_def)

lemma fixture_team_ids_set:
  "set (fixture_team_ids fs) = home_team_id ` set fs \<union> away_team_id ` set fs"
  by (induction fs) (auto simp: fixture_team_ids_def)

lemma populate_ok_created:
  assumes "set_iter_ok it"
  shows "populate_ok (map (\<lambda>i. (i, r i)) (it (fixture_team_ids fs))) fs \<longleftrightarrow>
     (\<forall>f \<in> set fs. matchday f \<noteq> None \<and> score_ok f)"
  using set_iter_okD [OF assms, of "fixture_team_ids fs"]
  by (auto simp: populate_ok_def dict_keys_def comp_def fixture_team_ids_set)

lemma gen_standing_table_Inr_iff:
  assumes "set_iter_ok it"
  shows "gen_standing_table s it gid = Inr tbl \<longleftrightarrow>
    (let fs = fixtures_of_group s gid in
     (\<forall>i \<in> set (fixture_team_ids fs). team_get s i \<noteq> None) \<and>
     (\<forall>f \<in> set fs. matchday f \<noteq> None \<and> score_ok f) \<and>
     (\<exists>g l. group_get s gid = Some g \<and> league_get s (group_league_id g) = Some l \<and>
        tbl = \<lparr>gt_leagueTitle = league_title l, gt_matchday = max_matchday_of 0 fs,
               gt_group = group_title g,
               gt_standing = map row_to_result_dict (standings_spec s it fs)\<rparr>))"
proof -
  let ?fs = "fixtures_of_group s gid"
  let ?d = "map (\<lambda>i. (i, team_initial_row s i)) (it (fixture_team_ids ?fs))"
  show ?thesis
    using create_standings_dict_Inr_iff [OF assms, of s ?fs] populate_ok_created [OF assms, of _ ?fs]
    by (auto simp: gen_standing_table_def populate_Inr_iff get_sorted_standings_as_list_def
        py_sort_reverse_sort_key standings_spec_def dict_values_def comp_def Let_def
        split: sum.splits option.splits prod.splits)
qed

lemma row_inv_rank [simp]: "row_inv (r\<lparr>rank := i\<rparr>) = row_inv r"
  by (simp add: row_inv_def)

lemma row_inv_assign_ranks: "\<forall>r \<in> set rs. row_inv r \<Longrightarrow> \<forall>r \<in> set (assign_ranks i rs). row_inv r"
  by (induction rs arbitrary: i) auto

lemma row_inv_new_standings_row: "row_inv (new_standings_row t)"
  by (simp add: row_inv_def new_standings_row_def)

lemma map_rank_upto: "map (\<lambda>k. 1 + int k) [0..<n] = [1..int n]"
  by (rule nth_equalityI) (auto simp: nth_upto)

lemma standings_spec_ranks:
  "map rank (standings_spec s it fs) = [1..int (length (standings_spec s it fs))]"
  unfolding standings_spec_def map_rank_assign_ranks length_assign_ranks by (rule map_rank_upto)

lemma standings_spec_sorted: "sorted (map desc_key (standings_spec s it fs))"
  unfolding standings_spec_def assign_ranks_keys by (rule sorted_sort_key)

lemma standings_spec_row_inv: "\<forall>r \<in> set (standings_spec s it fs). row_inv r"
  unfolding standings_spec_def
  by (rule row_inv_assign_ranks)
     (auto simp: team_initial_row_def row_inv_team_stats row_inv_new_standings_row)

lemma standing_ok_row_to_result_dict: "row_inv r \<Longrightarrow> standing_ok (row_to_result_dict r)"
  by (simp add: row_inv_def standing_ok_def row_to_result_dict_def)

lemma desc_key_result_dict:
  "(\<lambda>r. (- sd_points r, - sd_goalDifference r)) \<circ> row_to_result_dict = desc_key"
  by (simp add: fun_eq_iff row_to_result_dict_def desc_key_def)

lemma gen_standing_table_populate:
  assumes "gen_standing_table s it gid = Inr tbl"
  shows "\<exists>d. create_standings_dict s it (fixtures_of_group s gid) = Inr d \<and>
             populate_ok d (fixtures_of_group s gid)"
  using assms
  by (auto simp: gen_standing_table_def populate_Inr_iff Let_def
      split: sum.splits option.splits prod.splits)

lemma gen_standing_table_score_ok:
  "gen_standing_table s it gid = Inr tbl \<Longrightarrow> f \<in> set (fixtures_of_group s gid) \<Longrightarrow> score_ok f"
  using gen_standing_table_populate by (fastforce simp: populate_ok_def)

lemma gen_standing_table_spec:
  assumes "set_iter_ok it" and "gen_standing_table s it gid = Inr tbl"
  shows "gt_standing tbl = map row_to_result_dict (standings_spec s it (fixtures_of_group s gid)) \<and>
         gt_matchday tbl = max_matchday_of 0 (fixtures_of_group s gid)"
  using assms(2) by (auto simp: gen_standing_table_Inr_iff [OF assms(1)] Let_def)

lemma team_fixture_effect: "team (fixture_effect t f r) = team r"
  by (auto simp: fixture_effect_def home_delta_def away_delta_def row_update_defs Let_def
      split: sum.splits)

lemma team_team_stats: "team (team_stats fs i r) = team r"
proof (induction fs arbitrary: r)
  case Nil
  then show ?case by (simp add: team_stats_def)
next
  case (Cons f fs)
  then show ?case by (simp only: team_stats_Cons team_fixture_effect)
qed

lemma team_assign_ranks: "map team (assign_ranks i rs) = map team rs"
  by (induction rs arbitrary: i) auto

lemma standings_spec_teams:
  "mset (map team (standings_spec s it fs)) =
   image_mset (\<lambda>i. team (team_initial_row s i)) (mset (it (fixture_team_ids fs)))"
proof -
  let ?rows = "map (\<lambda>i. team_stats fs i (team_initial_row s i)) (it (fixture_team_ids fs))"
  have "mset (map team (standings_spec s it fs)) = mset (map team (sort_key desc_key ?rows))"
    by (simp add: standings_spec_def team_assign_ranks)
  also have "\<dots> = image_mset team (mset ?rows)"
    by (simp only: mset_map mset_sort)
  also have "\<dots> = image_mset (\<lambda>i. team (team_initial_row s i)) (mset (it (fixture_team_ids fs)))"
    by (simp add: image_mset.compositionality comp_def team_team_stats)
  finally show ?thesis .
qed

lemma sort_eq_mset: "mset xs = mset ys \<Longrightarrow> sort xs = sort ys"
  by (rule properties_for_sort) simp_all

lemma map_key_sort_key: "map f (sort_key f xs) = sort (map f xs)"
  by (rule properties_for_sort [symmetric]) simp_all

lemma assign_ranks_rank_key:
  "map (\<lambda>r. (rank r, desc_key r)) (assign_ranks i rs) =
   map (\<lambda>(k, key). (i + int k, key)) (zip [0..<length rs] (map desc_key rs))"
  by (rule nth_equalityI) (auto simp: nth_assign_ranks desc_key_def)

lemma standings_spec_rank_key:
  "map (\<lambda>r. (rank r, desc_key r)) (standings_spec s it fs) =
   map (\<lambda>(k, key). (1 + int k, key))
     (zip [0..<length (it (fixture_team_ids fs))]
        (sort (map desc_key (map (\<lambda>i. team_stats fs i (team_initial_row s i)) (it (fixture_team_ids fs))))))"
  by (simp only: standings_spec_def assign_ranks_rank_key map_key_sort_key length_sort length_map)

lemma set_iter_mset:
  assumes "set_iter_ok it1" and "set_iter_ok it2" and "set xs = set ys"
  shows "mset (it1 xs) = mset (it2 ys)"
  using set_iter_okD [OF assms(1), of xs] set_iter_okD [OF assms(2), of ys] assms(3)
  by (simp add: set_eq_iff_mset_eq_distinct [symmetric])

lemma points_fixture_effect:
  "points (fixture_effect i f r) = points r +
     (case parse_score (score f) of Inl _ \<Rightarrow> 0
      | Inr (hs, as) \<Rightarrow> (if i = home_team_id f then (if hs > as then 3 else 1) else 0) +
                       (if i = away_team_id f then (if hs > as then 0 else 1) else 0))"
  by (auto simp: fixture_effect_def home_delta_def away_delta_def row_update_defs Let_def
      split: sum.splits)

lemma sum_list_indicator:
  "distinct xs \<Longrightarrow> x \<in> set xs \<Longrightarrow> sum_list (map (\<lambda>i. if i = x then c else 0) xs) = (c::int)"
  by (simp add: sum_list_distinct_conv_sum_set)

lemma points_sum_fixture_effect:
  assumes "distinct ids" "home_team_id f \<in> set ids" "away_team_id f \<in> set ids"
  shows "sum_list (map (\<lambda>i. points (fixture_effect i f (r i))) ids) =
         sum_list (map (\<lambda>i. points (r i)) ids) + match_points f"
proof (cases "parse_score (score f)")
  case (Inl e)
  then show ?thesis by (simp add: points_fixture_effect match_points_def)
next
  case (Inr p)
  obtain hs as where p: "p = (hs, as)" by fastforce
  have "sum_list (map (\<lambda>i. points (fixture_effect i f (r i))) ids) =
        sum_list (map (\<lambda>i. points (r i)) ids) +
        sum_list (map (\<lambda>i. if i = home_team_id f then (if hs > as then 3 else 1) else 0) ids) +
        sum_list (map (\<lambda>i. if i = away_team_id f then (if hs > as then 0 else 1) else 0) ids)"
    using Inr p by (simp add: points_fixture_effect sum_list_addf)
  with assms Inr p show ?thesis
    by (simp add: sum_list_indicator match_points_def)
qed

lemma points_sum_team_stats:
  assumes "distinct ids" "set (fixture_team_ids fs) \<subseteq> set ids"
  shows "sum_list (map (\<lambda>i. points (team_stats fs i (r i))) ids) =
         sum_list (map (\<lambda>i. points (r i)) ids) + sum_list (map match_points fs)"
  using assms(2)
proof (induction fs arbitrary: r)
  case Nil
  then show ?case by (simp add: team_stats_def)
next
  case (Cons f fs)
  have sub: "set (fixture_team_ids fs) \<subseteq> set ids" and hf: "home_team_id f \<in> set ids"
    and af: "away_team_id f \<in> set ids"
    using Cons.prems by (auto simp: fixture_team_ids_def)
  show ?case
    using Cons.IH [OF sub, of "\<lambda>i. fixture_effect i f (r i)"]
      points_sum_fixture_effect [OF assms(1) hf af, of r]
    by (simp add: team_stats_Cons)
qed

lemma sum_list_map_perm:
  fixes f :: "'a \<Rightarrow> 'b::comm_monoid_add"
  shows "mset xs = mset ys \<Longrightarrow> sum_list (map f xs) = sum_list (map f ys)"
  using sum_mset_sum_list [of "map f xs"] sum_mset_sum_list [of "map f ys"] by simp

lemma dict_get_map_val: "dict_get (map (\<lambda>(k, v). (k, F k v)) d) k = map_option (F k) (dict_get d k)"
  by (induction d) (auto simp: dict_get_def)

lemma colon_notin_py_str_int: "CHR '':'' \<notin> set (py_str_int i)"
proof -
  have "\<not> is_digit CHR '':''" by (simp add: is_digit_def)
  then have "CHR '':'' \<notin> set (show_nat n)" for n
    using show_nat_digits [of n] by blast
  then show ?thesis by (simp add: py_str_int_def)
qed

subsection \<open>Properties of the standings aggregator\<close>

text \<open>C1: An away win is scored as a draw. When the away side scores more, \<^verbatim>\<open>__parse_result\<close> gives both teams one point and one draw. The branch meant for away wins tests \<^verbatim>\<open>away_score < home_score\<close>, the same condition as the home-win branch, so it is never reached.\<close>

theorem away_win_recorded_as_draw:
  assumes "home_team_id f \<noteq> away_team_id f"
    and "dict_get d (home_team_id f) = Some rh" and "dict_get d (away_team_id f) = Some ra"
    and "parse_score (score f) = Inr (hs, as)" and "hs < as"
    and "parse_result d f = Inr d'"
  shows "dict_get d' (home_team_id f) = Some (add_goals hs as (add_draw (add_points 1 rh))) \<and>
         dict_get d' (away_team_id f) = Some (add_goals as hs (add_draw (add_points 1 ra)))"
proof -
  have "d' = map (\<lambda>(k, v). (k, fixture_effect k f v)) d"
    using assms(6) by (simp add: parse_result_Inr_iff)
  with assms(1-5) show ?thesis
    by (simp add: dict_get_map_val fixture_effect_def home_delta_def away_delta_def)
qed

text \<open>C2: For every result that is not an away win (a home win or a draw), \<^verbatim>\<open>__parse_result\<close> changes the two rows exactly as the rule of the specification says: three points for the winner, one each on a draw, goals for and against, goal difference and one played game.\<close>

theorem parse_result_follows_rule_unless_away_win:
  assumes "home_team_id f \<in> set (dict_keys d)" and "away_team_id f \<in> set (dict_keys d)"
    and "parse_score (score f) = Inr (hs, as)" and "\<not> hs < as"
  shows "parse_result d f =
    Inr (map (\<lambda>(k, v). (k, (if k = away_team_id f then result_delta as hs else id)
                             ((if k = home_team_id f then result_delta hs as else id) v))) d)"
proof -
  have "home_delta hs as = result_delta hs as" and "away_delta hs as = result_delta as hs"
    using assms(4) by (auto simp: home_delta_def away_delta_def result_delta_def)
  moreover have "score_ok f" using assms(3) by (simp add: score_ok_def)
  ultimately show ?thesis
    using assms(1-3)
    by (auto simp: parse_result_Inr_iff fixture_effect_def Let_def intro!: map_cong)
qed

text \<open>C3: Every row of a computed table is consistent: goal difference is goals minus goals against, played games is wins plus losses plus draws, points are three per win plus one per draw, and the counts are non-negative.\<close>

theorem table_rows_consistent:
  assumes "set_iter_ok it" and "gen_standing_table s it gid = Inr tbl"
  shows "\<forall>r \<in> set (gt_standing tbl). standing_ok r"
  using gen_standing_table_spec [OF assms] standings_spec_row_inv
  by (auto intro: standing_ok_row_to_result_dict)

text \<open>C4: The rows of a computed table are ordered by points, then goal difference, both descending.\<close>

theorem table_sorted_desc:
  assumes "set_iter_ok it" and "gen_standing_table s it gid = Inr tbl"
  shows "sorted (map (\<lambda>r. (- sd_points r, - sd_goalDifference r)) (gt_standing tbl))"
  using gen_standing_table_spec [OF assms] standings_spec_sorted
  by (simp add: desc_key_result_dict)

text \<open>C5: The ranks of a computed table are 1, 2, ..., n in row order: ties do not share a rank.\<close>

theorem table_ranks_sequential:
  assumes "set_iter_ok it" and "gen_standing_table s it gid = Inr tbl"
  shows "map sd_rank (gt_standing tbl) = [1..int (length (gt_standing tbl))]"
proof -
  have "map sd_rank (gt_standing tbl) = map rank (standings_spec s it (fixtures_of_group s gid))"
    using gen_standing_table_spec [OF assms] by (simp add: row_to_result_dict_def)
  then show ?thesis
    using gen_standing_table_spec [OF assms] standings_spec_ranks by simp
qed

text \<open>C6: The points of a table add up to three for each home win and two for every other scored result. An away win adds two, not three, as the specification would require.\<close>

theorem table_points_total:
  assumes "set_iter_ok it" and "gen_standing_table s it gid = Inr tbl"
  shows "sum_list (map sd_points (gt_standing tbl)) =
         sum_list (map match_points (fixtures_of_group s gid))"
proof -
  let ?fs = "fixtures_of_group s gid"
  let ?ids = "it (fixture_team_ids ?fs)"
  let ?rows = "map (\<lambda>i. team_stats ?fs i (team_initial_row s i)) ?ids"
  have pts: "map points (assign_ranks i rs) = map points rs" for i rs
    by (induction rs arbitrary: i) auto
  have "sum_list (map sd_points (gt_standing tbl)) = sum_list (map points (standings_spec s it ?fs))"
    using gen_standing_table_spec [OF assms] by (simp add: row_to_result_dict_def comp_def)
  also have "\<dots> = sum_list (map points (sort_key desc_key ?rows))"
    by (simp only: standings_spec_def pts)
  also have "\<dots> = sum_list (map points ?rows)"
    by (rule sum_list_map_perm) simp
  also have "\<dots> = sum_list (map (\<lambda>i. points (team_initial_row s i)) ?ids) + sum_list (map match_points ?fs)"
  proof -
    have "distinct ?ids" and "set (fixture_team_ids ?fs) \<subseteq> set ?ids"
      using set_iter_okD [OF assms(1), of "fixture_team_ids ?fs"] by simp_all
    from points_sum_team_stats [OF this, of "team_initial_row s"] show ?thesis
      by (simp only: map_map comp_def)
  qed
  also have "\<dots> = sum_list (map match_points ?fs)"
    by (simp add: team_initial_row_def new_standings_row_def)
  finally show ?thesis .
qed

text \<open>C7: The sequence of (rank, points, goal difference) of a table, and its matchday, do not depend on the order in which the database returns the group's results, nor on the iteration order of the set of team ids.\<close>

theorem table_deterministic:
  assumes "set_iter_ok it1" and "set_iter_ok it2"
    and "football_teams s1 = football_teams s2"
    and "mset (fixtures_of_group s1 gid) = mset (fixtures_of_group s2 gid)"
    and "gen_standing_table s1 it1 gid = Inr t1" and "gen_standing_table s2 it2 gid = Inr t2"
  shows "map (\<lambda>r. (sd_rank r, sd_points r, sd_goalDifference r)) (gt_standing t1) =
         map (\<lambda>r. (sd_rank r, sd_points r, sd_goalDifference r)) (gt_standing t2) \<and>
         gt_matchday t1 = gt_matchday t2"
proof -
  let ?fs1 = "fixtures_of_group s1 gid" and ?fs2 = "fixtures_of_group s2 gid"
  have sets: "set ?fs1 = set ?fs2" using assms(4) by (metis set_mset_mset)
  have init: "team_initial_row s1 = team_initial_row s2"
    using assms(3) by (simp add: fun_eq_iff team_initial_row_def team_get_def)
  have stats: "team_stats ?fs1 = team_stats ?fs2"
    by (intro ext team_stats_perm [OF assms(4)])
  have ids: "mset (it1 (fixture_team_ids ?fs1)) = mset (it2 (fixture_team_ids ?fs2))"
    using sets by (intro set_iter_mset [OF assms(1,2)]) (simp add: fixture_team_ids_set)
  then have len: "length (it1 (fixture_team_ids ?fs1)) = length (it2 (fixture_team_ids ?fs2))"
    by (metis size_mset)
  let ?F1 = "\<lambda>i. desc_key (team_stats ?fs1 i (team_initial_row s1 i))"
  let ?F2 = "\<lambda>i. desc_key (team_stats ?fs2 i (team_initial_row s2 i))"
  have "sort (map ?F1 (it1 (fixture_team_ids ?fs1))) = sort (map ?F2 (it2 (fixture_team_ids ?fs2)))"
    using ids by (intro sort_eq_mset) (simp add: init stats)
  then have keys: "map (\<lambda>r. (rank r, desc_key r)) (standings_spec s1 it1 ?fs1) =
                   map (\<lambda>r. (rank r, desc_key r)) (standings_spec s2 it2 ?fs2)"
    using len by (simp only: standings_spec_rank_key map_map comp_def)
  have proj: "map (\<lambda>r. (sd_rank r, sd_points r, sd_goalDifference r)) (map row_to_result_dict rs) =
      map (\<lambda>(k, p, g). (k, - p, - g)) (map (\<lambda>r. (rank r, desc_key r)) rs)" for rs
    by (simp add: row_to_result_dict_def desc_key_def)
  have t1: "gt_standing t1 = map row_to_result_dict (standings_spec s1 it1 ?fs1)"
    and m1: "gt_matchday t1 = max_matchday_of 0 ?fs1"
    using gen_standing_table_spec [OF assms(1,5)] by simp_all
  have t2: "gt_standing t2 = map row_to_result_dict (standings_spec s2 it2 ?fs2)"
    and m2: "gt_matchday t2 = max_matchday_of 0 ?fs2"
    using gen_standing_table_spec [OF assms(2,6)] by simp_all
  have "map (\<lambda>r. (sd_rank r, sd_points r, sd_goalDifference r)) (gt_standing t1) =
        map (\<lambda>r. (sd_rank r, sd_points r, sd_goalDifference r)) (gt_standing t2)"
    by (simp only: t1 t2 proj keys)
  moreover have "gt_matchday t1 = gt_matchday t2"
    using sets by (simp add: m1 m2 max_matchday_of_Max)
  ultimately show ?thesis by blast
qed

text \<open>C8: A table has exactly one row for each distinct team that occurs in the group's results, named after that team.\<close>

theorem table_one_row_per_team:
  assumes "set_iter_ok it" and "gen_standing_table s it gid = Inr tbl"
  shows "mset (map sd_team (gt_standing tbl)) =
         image_mset (\<lambda>i. team (team_initial_row s i)) (mset_set (set (fixture_team_ids (fixtures_of_group s gid))))"
proof -
  let ?ids = "fixture_team_ids (fixtures_of_group s gid)"
  have "mset (it ?ids) = mset_set (set ?ids)"
    using set_iter_okD [OF assms(1), of ?ids] by (metis mset_set_set)
  moreover have "map sd_team (gt_standing tbl) = map team (standings_spec s it (fixtures_of_group s gid))"
    using gen_standing_table_spec [OF assms] by (simp add: row_to_result_dict_def)
  ultimately show ?thesis
    using standings_spec_teams by simp
qed

text \<open>C9: The matchday of a table is the largest matchday of the group's results, or 0 when the group has none.\<close>

theorem table_matchday_max:
  assumes "set_iter_ok it" and "gen_standing_table s it gid = Inr tbl"
  shows "gt_matchday tbl = Max (insert 0 {m. \<exists>f \<in> set (fixtures_of_group s gid). matchday f = Some m})"
  using gen_standing_table_spec [OF assms] by (simp add: max_matchday_of_Max)

text \<open>C10: If any result of the group has a score that does not parse, computing the table raises an exception: a partial table is never returned.\<close>

theorem table_aborts_on_bad_score:
  assumes "f \<in> set (fixtures_of_group s gid)" and "\<not> score_ok f"
  shows "\<exists>e. gen_standing_table s it gid = Inl e"
  using assms gen_standing_table_score_ok by (cases "gen_standing_table s it gid") blast+

text \<open>C11: In a consistent database, the table of an existing group is computed, and returned, whenever every result of the group has a matchday and a well-formed score.\<close>

theorem table_succeeds:
  assumes "catalog_inv s" and "set_iter_ok it" and "group_get s gid \<noteq> None"
    and "\<forall>f \<in> set (fixtures_of_group s gid). matchday f \<noteq> None \<and> score_ok f"
  shows "\<exists>tbl. gen_standing_table s it gid = Inr tbl"
proof -
  obtain g where g: "group_get s gid = Some g" using assms(3) by blast
  have "g \<in> set (league_groups s)"
    using g find_Some_in by (fastforce simp: group_get_def)
  with assms(1) obtain l where l: "league_get s (group_league_id g) = Some l"
    by (auto simp: catalog_inv_def)
  have "\<forall>f \<in> set (fixture_results s). team_get s (home_team_id f) \<noteq> None \<and> team_get s (away_team_id f) \<noteq> None"
    using assms(1) by (simp add: catalog_inv_def)
  then have "\<forall>i \<in> set (fixture_team_ids (fixtures_of_group s gid)). team_get s i \<noteq> None"
    by (auto simp: fixture_team_ids_set fixtures_of_group_def)
  with g l assms(4) show ?thesis
    by (simp add: gen_standing_table_Inr_iff [OF assms(2)] Let_def)
qed

text \<open>C13: A score written as \<^verbatim>\<open>str(h) + ':' + str(a)\<close> parses back to (h, a), for all integers, negative ones included.\<close>

theorem parse_score_roundtrip:
  "parse_score (Some (py_str_int h @ CHR '':'' # py_str_int a)) = Inr (h, a)"
  by (simp add: parse_score_def split_on_append_sep split_on_no_sep colon_notin_py_str_int
      py_int_py_str_int py_index_def)

text \<open>C14: A score without a colon (e.g. \<^verbatim>\<open>3-1\<close>) is rejected with ValueError or IndexError: a generic exception that names no fixture.\<close>

theorem parse_score_needs_colon:
  assumes "CHR '':'' \<notin> set s"
  shows "parse_score (Some s) = Inl ValueError \<or> parse_score (Some s) = Inl IndexError"
  using assms
  by (simp add: parse_score_def split_on_no_sep py_index_def split: option.splits)

text \<open>C15: A score with more than two colon-separated fields is accepted: the fields after the second are ignored.\<close>

theorem parse_score_ignores_extra_fields:
  assumes "CHR '':'' \<notin> set x" and "CHR '':'' \<notin> set y"
  shows "parse_score (Some (x @ CHR '':'' # y @ CHR '':'' # z)) = parse_score (Some (x @ CHR '':'' # y))"
  using assms
  by (simp add: parse_score_def split_on_append_sep split_on_no_sep py_index_def
      split: option.splits)

text \<open>C16: \<^verbatim>\<open>standings.sort(reverse=True)\<close> orders rows best first, keeps the multiset of rows, and keeps rows with equal points and goal difference in their dictionary order.\<close>

theorem py_sort_reverse_stable:
  "sorted (map desc_key (py_sort_reverse xs)) \<and> mset (py_sort_reverse xs) = mset xs \<and>
   (\<forall>k. filter (\<lambda>r. row_key r = k) (py_sort_reverse xs) = filter (\<lambda>r. row_key r = k) xs)"
proof -
  have eq: "row_key r = k \<longleftrightarrow> desc_key r = (- fst k, - snd k)" for r k
    by (cases k) (auto simp: row_key_def desc_key_def)
  show ?thesis
    by (simp add: py_sort_reverse_sort_key eq sort_key_stable)
qed

end
