(* ===== verification/Timestamp.thy ===== *)
theory Timestamp
  imports PyBuiltins Models
begin

text \<open>
  \<^verbatim>\<open>datetime.strptime(s, '%Y-%m-%dT%H:%M:%S')\<close>, which \<^verbatim>\<open>FixtureResult.__init__\<close>
  (\<^verbatim>\<open>models.py\<close> lines 86--91) and \<^verbatim>\<open>filter_results\<close> call, and the
  \<^verbatim>\<open>strftime\<close> of \<^verbatim>\<open>FixtureResult.to_result_dict\<close>. Both are CPython library
  code, modelled from CPython's \<^verbatim>\<open>_strptime\<close>. It compiles the format into a
  regular expression with the \<^verbatim>\<open>IGNORECASE\<close> flag, using one group per directive:
  \<^verbatim>\<open>%Y\<close> is \<^verbatim>\<open>\d\d\d\d\<close>; \<^verbatim>\<open>%m\<close> is \<^verbatim>\<open>1[0-2]|0[1-9]|[1-9]\<close>;
  \<^verbatim>\<open>%d\<close> is \<^verbatim>\<open>3[01]|[12]\d|0[1-9]|[1-9]| [1-9]\<close>;
  \<^verbatim>\<open>%H\<close> is \<^verbatim>\<open>2[0-3]|[0-1]\d|\d\<close>; \<^verbatim>\<open>%M\<close> is \<^verbatim>\<open>[0-5]\d|\d\<close>;
  \<^verbatim>\<open>%S\<close> is \<^verbatim>\<open>6[0-1]|[0-5]\d|\d\<close>.
  It then calls \<^verbatim>\<open>re.match\<close>: alternatives are tried in order, with backtracking,
  and the match need not reach the end of the string. Text left over raises
  \<^verbatim>\<open>ValueError\<close>. The \<^verbatim>\<open>datetime\<close> constructor then rejects year 0, a day
  beyond the month's length and seconds 60 and 61, all with \<^verbatim>\<open>ValueError\<close>.
  \<^verbatim>\<open>strftime\<close> pads every field but the year to two digits. glibc does not pad
  \<^verbatim>\<open>%Y\<close>, so the round-trip lemma is stated for four-digit years.
\<close>

type_synonym pat = "(char \<Rightarrow> bool) list"

datatype re_item = Lit char | Group "pat list"

definition char_in :: "string \<Rightarrow> char \<Rightarrow> bool" where
  "char_in cs c \<longleftrightarrow> c \<in> set cs"

definition ascii_lower :: "char \<Rightarrow> char" where
  "ascii_lower c =
     (if (65::nat) \<le> of_char c \<and> (of_char c :: nat) \<le> 90 then char_of (of_char c + (32::nat)) else c)"

definition lit_match :: "char \<Rightarrow> char \<Rightarrow> bool" where
  "lit_match c x \<longleftrightarrow> ascii_lower x = ascii_lower c"

fun match_pat :: "pat \<Rightarrow> string \<Rightarrow> (string \<times> string) option" where
  "match_pat [] s = Some ([], s)"
| "match_pat (p # ps) [] = None"
| "match_pat (p # ps) (x # s) =
     (if p x then map_option (\<lambda>(g, r). (x # g, r)) (match_pat ps s) else None)"

fun match_items :: "re_item list \<Rightarrow> string \<Rightarrow> (string list \<times> string) option"
  and first_alt :: "pat list \<Rightarrow> re_item list \<Rightarrow> string \<Rightarrow> (string list \<times> string) option" where
  "match_items [] s = Some ([], s)"
| "match_items (Lit c # is) s =
     (case s of [] \<Rightarrow> None | x # s' \<Rightarrow> if lit_match c x then match_items is s' else None)"
| "match_items (Group alts # is) s = first_alt alts is s"
| "first_alt [] is s = None"
| "first_alt (p # ps) is s =
     (case match_pat p s of
        None \<Rightarrow> first_alt ps is s
      | Some (g, s') \<Rightarrow>
          (case match_items is s' of
             Some (gs, r) \<Rightarrow> Some (g # gs, r)
           | None \<Rightarrow> first_alt ps is s))"

text \<open>The patterns of \<^verbatim>\<open>_strptime.TimeRE\<close> for the six directives of the format.\<close>

definition year_alts :: "pat list" where
  "year_alts = [[is_digit, is_digit, is_digit, is_digit]]"

definition month_alts :: "pat list" where
  "month_alts = [[char_in ''1'', char_in ''012''], [char_in ''0'', char_in ''123456789''],
                 [char_in ''123456789'']]"

definition day_alts :: "pat list" where
  "day_alts = [[char_in ''3'', char_in ''01''], [char_in ''12'', is_digit],
               [char_in ''0'', char_in ''123456789''], [char_in ''123456789''],
               [char_in '' '', char_in ''123456789'']]"

definition hour_alts :: "pat list" where
  "hour_alts = [[char_in ''2'', char_in ''0123''], [char_in ''01'', is_digit], [is_digit]]"

definition minute_alts :: "pat list" where
  "minute_alts = [[char_in ''012345'', is_digit], [is_digit]]"

definition second_alts :: "pat list" where
  "second_alts = [[char_in ''6'', char_in ''01''], [char_in ''012345'', is_digit], [is_digit]]"

text \<open>The compiled format \<^verbatim>\<open>'%Y-%m-%dT%H:%M:%S'\<close>.\<close>

definition strptime_items :: "re_item list" where
  "strptime_items =
     [Group year_alts, Lit CHR ''-'', Group month_alts, Lit CHR ''-'', Group day_alts,
      Lit CHR ''T'', Group hour_alts, Lit CHR '':'', Group minute_alts, Lit CHR '':'',
      Group second_alts]"

definition leap_year :: "int \<Rightarrow> bool" where
  "leap_year y \<longleftrightarrow> y mod 4 = 0 \<and> (y mod 100 \<noteq> 0 \<or> y mod 400 = 0)"

definition days_in_month :: "int \<Rightarrow> int \<Rightarrow> int" where
  "days_in_month y m =
     (if m = 2 then (if leap_year y then 29 else 28)
      else if m \<in> {4, 6, 9, 11} then 30 else 31)"

definition valid_timestamp :: "timestamp \<Rightarrow> bool" where
  "valid_timestamp t =
     (case t of (y, mo, d, h, mi, s) \<Rightarrow>
        1 \<le> y \<and> y \<le> 9999 \<and> 1 \<le> mo \<and> mo \<le> 12 \<and> 1 \<le> d \<and> d \<le> days_in_month y mo \<and>
        0 \<le> h \<and> h \<le> 23 \<and> 0 \<le> mi \<and> mi \<le> 59 \<and> 0 \<le> s \<and> s \<le> 59)"

definition py_strptime :: "string \<Rightarrow> timestamp py_result" where
  "py_strptime str =
     (case match_items strptime_items str of
        Some ([y, mo, d, h, mi, s], []) \<Rightarrow>
          (let t = (int (digits_value y), int (digits_value mo), int (digits_value d),
                    int (digits_value h), int (digits_value mi), int (digits_value s))
           in if valid_timestamp t then Inr t else Inl ValueError)
      | _ \<Rightarrow> Inl ValueError)"

definition pad2 :: "int \<Rightarrow> string" where
  "pad2 n = (if n < 10 then CHR ''0'' # show_nat (nat n) else show_nat (nat n))"

definition py_strftime :: "timestamp \<Rightarrow> string" where
  "py_strftime t =
     (case t of (y, mo, d, h, mi, s) \<Rightarrow>
        show_nat (nat y) @ ''-'' @ pad2 mo @ ''-'' @ pad2 d @ ''T'' @ pad2 h @ '':'' @ pad2 mi @ '':'' @ pad2 s)"

subsection \<open>Matching the printed form\<close>

lemma char_in_char_of: "(k::nat) < 256 \<Longrightarrow> char_in cs (char_of k) \<longleftrightarrow> k \<in> of_char ` set cs"
  by (auto simp: char_in_def image_iff intro!: bexI [of _ "char_of k"])

lemma zero_char: "CHR ''0'' = char_of (48::nat)"
  using char_of_char [of "CHR ''0''", where 'a = nat] by simp

lemma pad2_digits:
  assumes "0 \<le> n" "n < 100"
  shows "pad2 n = [char_of (48 + nat n div 10), char_of (48 + nat n mod 10)]"
proof (cases "n < 10")
  case True
  then show ?thesis using assms by (simp add: pad2_def show_nat.simps zero_char)
next
  case False
  then have "nat n div 10 < 10" using assms by simp
  with False show ?thesis using assms
    by (simp add: pad2_def show_nat.simps [of "nat n"] show_nat.simps [of "nat n div 10"] nat_less_iff)
qed

lemma match_pat_two:
  "match_pat [p, q] (c1 # c2 # r) = (if p c1 \<and> q c2 then Some ([c1, c2], r) else None)"
  by simp

lemma two_digits:
  assumes "0 \<le> n" "n < 100"
  obtains a b where "pad2 n = [char_of (48 + a), char_of (48 + b)]" "n = int (10 * a + b)" "b < 10"
proof -
  have "n = int (10 * (nat n div 10) + nat n mod 10)" using assms(1) by simp
  then show ?thesis using that [of "nat n div 10" "nat n mod 10"] pad2_digits [OF assms] by simp
qed

lemma lit_step:
  "match_items is r = Some (gs, r') \<Longrightarrow> match_items (Lit c # is) (c # r) = Some (gs, r')"
  by (simp add: lit_match_def)

lemma hour_item:
  assumes "0 \<le> n" "n \<le> 23" "match_items is r = Some (gs, r')"
  shows "match_items (Group hour_alts # is) (pad2 n @ r) = Some (pad2 n # gs, r')"
proof -
  obtain a b where p: "pad2 n = [char_of (48 + a), char_of (48 + b)]" and n: "n = int (10 * a + b)" and b: "b < 10"
    using assms two_digits [of n] by auto
  have a: "a \<le> 2" using n assms by linarith
  have d2: "is_digit (char_of (48 + b))" using b by (simp add: is_digit_char_of)
  show ?thesis
  proof (cases "a = 2")
    case True
    then have "b \<le> 3" using n assms by linarith
    then have "char_in ''0123'' (char_of (48 + b))" by (simp add: char_in_char_of) presburger
    moreover have "char_in ''2'' (char_of (48 + a))" using True by (simp add: char_in_char_of)
    ultimately show ?thesis using assms(3) by (simp add: hour_alts_def p match_pat_two)
  next
    case False
    with a have "\<not> char_in ''2'' (char_of (48 + a))" "char_in ''01'' (char_of (48 + a))"
      by (simp_all add: char_in_char_of) presburger
    then show ?thesis using assms(3) d2 by (simp add: hour_alts_def p match_pat_two)
  qed
qed

lemma minute_item:
  assumes "0 \<le> n" "n \<le> 59" "match_items is r = Some (gs, r')"
  shows "match_items (Group minute_alts # is) (pad2 n @ r) = Some (pad2 n # gs, r')"
proof -
  obtain a b where p: "pad2 n = [char_of (48 + a), char_of (48 + b)]" and n: "n = int (10 * a + b)" and b: "b < 10"
    using assms two_digits [of n] by auto
  have "a \<le> 5" using n assms by linarith
  then have "char_in ''012345'' (char_of (48 + a))" by (simp add: char_in_char_of) presburger
  moreover have "is_digit (char_of (48 + b))" using b by (simp add: is_digit_char_of)
  ultimately show ?thesis using assms(3) by (simp add: minute_alts_def p match_pat_two)
qed

lemma second_item:
  assumes "0 \<le> n" "n \<le> 59" "match_items is r = Some (gs, r')"
  shows "match_items (Group second_alts # is) (pad2 n @ r) = Some (pad2 n # gs, r')"
proof -
  obtain a b where p: "pad2 n = [char_of (48 + a), char_of (48 + b)]" and n: "n = int (10 * a + b)" and b: "b < 10"
    using assms two_digits [of n] by auto
  have "a \<le> 5" using n assms by linarith
  then have "\<not> char_in ''6'' (char_of (48 + a))" "char_in ''012345'' (char_of (48 + a))"
    by (simp_all add: char_in_char_of) presburger
  moreover have "is_digit (char_of (48 + b))" using b by (simp add: is_digit_char_of)
  ultimately show ?thesis using assms(3) by (simp add: second_alts_def p match_pat_two)
qed

lemma month_item:
  assumes "1 \<le> n" "n \<le> 12" "match_items is r = Some (gs, r')"
  shows "match_items (Group month_alts # is) (pad2 n @ r) = Some (pad2 n # gs, r')"
proof -
  obtain a b where p: "pad2 n = [char_of (48 + a), char_of (48 + b)]" and n: "n = int (10 * a + b)" and b: "b < 10"
    using assms two_digits [of n] by auto
  show ?thesis
  proof (cases "a = 1")
    case True
    then have "b \<le> 2" using n assms by linarith
    then have "char_in ''012'' (char_of (48 + b))" by (simp add: char_in_char_of) presburger
    moreover have "char_in ''1'' (char_of (48 + a))" using True by (simp add: char_in_char_of)
    ultimately show ?thesis using assms(3) by (simp add: month_alts_def p match_pat_two)
  next
    case False
    then have "a = 0" "1 \<le> b" using n assms by linarith+
    then have "char_in ''123456789'' (char_of (48 + b))" using b by (simp add: char_in_char_of) presburger
    moreover have "char_in ''0'' (char_of (48 + a))" "\<not> char_in ''1'' (char_of (48 + a))"
      using \<open>a = 0\<close> by (simp_all add: zero_char [symmetric] char_in_def)
    ultimately show ?thesis using assms(3) by (simp add: month_alts_def p match_pat_two)
  qed
qed

lemma day_item:
  assumes "1 \<le> n" "n \<le> 31" "match_items is r = Some (gs, r')"
  shows "match_items (Group day_alts # is) (pad2 n @ r) = Some (pad2 n # gs, r')"
proof -
  obtain a b where p: "pad2 n = [char_of (48 + a), char_of (48 + b)]" and n: "n = int (10 * a + b)" and b: "b < 10"
    using assms two_digits [of n] by auto
  have d2: "is_digit (char_of (48 + b))" using b by (simp add: is_digit_char_of)
  consider "a = 3" | "a = 1 \<or> a = 2" | "a = 0" using n assms by linarith
  then show ?thesis
  proof cases
    case 1
    then have "b \<le> 1" using n assms by linarith
    then have "char_in ''01'' (char_of (48 + b))" by (simp add: char_in_char_of) presburger
    moreover have "char_in ''3'' (char_of (48 + a))" using 1 by (simp add: char_in_char_of)
    ultimately show ?thesis using assms(3) by (simp add: day_alts_def p match_pat_two)
  next
    case 2
    then have "\<not> char_in ''3'' (char_of (48 + a))" "char_in ''12'' (char_of (48 + a))"
      by (auto simp: char_in_char_of)
    then show ?thesis using assms(3) d2 by (simp add: day_alts_def p match_pat_two)
  next
    case 3
    then have "1 \<le> b" using n assms by linarith
    then have "char_in ''123456789'' (char_of (48 + b))" using b by (simp add: char_in_char_of) presburger
    moreover have "char_in ''0'' (char_of (48 + a))" "\<not> char_in ''3'' (char_of (48 + a))"
      "\<not> char_in ''12'' (char_of (48 + a))"
      using 3 by (simp_all add: char_in_char_of zero_char [symmetric] char_in_def)
    ultimately show ?thesis using assms(3) by (simp add: day_alts_def p match_pat_two)
  qed
qed

lemma show_nat_four:
  assumes "1000 \<le> n" "n < 10000"
  shows "show_nat n = [char_of (48 + n div 1000), char_of (48 + n div 100 mod 10),
                       char_of (48 + n div 10 mod 10), char_of (48 + n mod 10)]"
proof -
  have "n div 1000 < 10" "\<not> n div 100 < 10" "\<not> n div 10 < 10" "\<not> n < 10" "n div 100 div 10 = n div 1000"
    "n div 10 div 10 = n div 100" using assms by (simp_all add: div_mult2_eq [symmetric])
  then show ?thesis
    by (simp add: show_nat.simps [of n] show_nat.simps [of "n div 10"] show_nat.simps [of "n div 100"]
        show_nat.simps [of "n div 1000"])
qed

lemma year_item:
  assumes "1000 \<le> n" "n \<le> 9999" "match_items is r = Some (gs, r')"
  shows "match_items (Group year_alts # is) (show_nat (nat n) @ r) = Some (show_nat (nat n) # gs, r')"
proof -
  have "show_nat (nat n) = [char_of (48 + nat n div 1000), char_of (48 + nat n div 100 mod 10),
                            char_of (48 + nat n div 10 mod 10), char_of (48 + nat n mod 10)]"
    using assms by (intro show_nat_four) simp_all
  moreover have "nat n div 1000 < 10" using assms by simp
  ultimately show ?thesis using assms(3) by (simp add: year_alts_def is_digit_char_of)
qed

lemma valid_timestamp_bounds:
  assumes "valid_timestamp (y, mo, d, h, mi, s)"
  shows "1 \<le> y" "y \<le> 9999" "1 \<le> mo" "mo \<le> 12" "1 \<le> d" "d \<le> 31" "0 \<le> h" "h \<le> 23"
    "0 \<le> mi" "mi \<le> 59" "0 \<le> s" "s \<le> 59"
  using assms by (auto simp: valid_timestamp_def days_in_month_def split: if_splits)

lemma match_strftime:
  assumes "valid_timestamp (y, mo, d, h, mi, s)" "1000 \<le> y"
  shows "match_items strptime_items (py_strftime (y, mo, d, h, mi, s) @ x) =
           Some ([show_nat (nat y), pad2 mo, pad2 d, pad2 h, pad2 mi, pad2 s], x)"
  using valid_timestamp_bounds [OF assms(1)] assms(2)
  unfolding strptime_items_def py_strftime_def prod.case
  by (simp only: append_assoc append_Cons append_Nil)
     (intro year_item month_item day_item hour_item minute_item second_item lit_step; simp)

lemma digits_value_zero_Cons: "digits_value (CHR ''0'' # s) = digits_value s"
  by (simp add: digits_value_def is_digit_def digit_val_def)

lemma digits_value_pad2: "0 \<le> n \<Longrightarrow> int (digits_value (pad2 n)) = n"
  by (simp add: pad2_def digits_value_show_nat digits_value_zero_Cons)

subsection \<open>Round trip\<close>

text \<open>Printing a valid timestamp whose year has four digits with
  \<^verbatim>\<open>strftime('%Y-%m-%dT%H:%M:%S')\<close> and parsing the text back with
  \<^verbatim>\<open>strptime\<close> in the same format gives back the same timestamp.\<close>

lemma strptime_strftime:
  assumes "valid_timestamp t" "1000 \<le> fst t"
  shows "py_strptime (py_strftime t) = Inr t"
proof -
  obtain y mo d h mi s where t: "t = (y, mo, d, h, mi, s)" by (cases t) auto
  show ?thesis
    using match_strftime [of y mo d h mi s "[]"] assms valid_timestamp_bounds [of y mo d h mi s]
    by (simp add: t py_strptime_def digits_value_pad2 digits_value_show_nat)
qed

end
