(* ===== verification/Workflows.thy ===== *)
theory Workflows
  imports Standings Timestamp
begin

text \<open>
  The workflows of \<^verbatim>\<open>ChampionshipDataUtil\<close> that change the database or return
  tables (\<^verbatim>\<open>utils.py\<close>): \<^verbatim>\<open>add_fixture_result\<close> (lines 115--147),
  \<^verbatim>\<open>update_fixture_result\<close> and \<^verbatim>\<open>update_fixture_results\<close> (lines 149--188),
  \<^verbatim>\<open>handle_fixture_results\<close> (lines 319--351) and \<^verbatim>\<open>get_tabels_for_groups\<close>
  (lines 353--393), with the constructor \<^verbatim>\<open>FixtureResult.__init__\<close>
  (\<^verbatim>\<open>models.py\<close> lines 68--92).
  A JSON object sent by a client is a record with one \<open>json_field\<close> per key the
  code reads. A field is absent (\<open>Missing\<close>), JSON \<^verbatim>\<open>null\<close> (\<open>Null\<close>) or a value.
  \<^verbatim>\<open>d.get(k)\<close> is \<open>json_get\<close>, which gives \<^verbatim>\<open>None\<close> in both of the first two
  cases; \<^verbatim>\<open>d[k]\<close> is \<open>json_index\<close>, which raises \<^verbatim>\<open>KeyError\<close> on an absent key.
  A request body that is one object instead of a list is wrapped by the code
  (\<^verbatim>\<open>if not isinstance(data, list): data = [data]\<close>); \<open>payload_list\<close> does the same.
  A handler returns the exception or its value together with the database after the
  call. Commits made before an exception stay in the database. A \<^verbatim>\<open>try\<close> whose
  \<^verbatim>\<open>except\<close> swallows every exception is a case on the sum type.
\<close>

datatype 'a json_field = Missing | Null | Present 'a

definition json_get :: "'a json_field \<Rightarrow> 'a option" where
  "json_get v = (case v of Present x \<Rightarrow> Some x | _ \<Rightarrow> None)"

definition json_index :: "'a json_field \<Rightarrow> 'a option py_result" where
  "json_index v = (case v of Missing \<Rightarrow> Inl KeyError | Null \<Rightarrow> Inr None | Present x \<Rightarrow> Inr (Some x))"

datatype 'a payload = Single 'a | Batch "'a list"

definition payload_list :: "'a payload \<Rightarrow> 'a list" where
  "payload_list p = (case p of Single x \<Rightarrow> [x] | Batch xs \<Rightarrow> xs)"

text \<open>A result submission of \<^verbatim>\<open>/api/fixture/result/publish\<close>.\<close>

record submission =
  sub_homeTeam :: "string json_field"
  sub_awayTeam :: "string json_field"
  sub_leagueTitle :: "string json_field"
  sub_group :: "string json_field"
  sub_matchday :: "int json_field"
  sub_kickoffAt :: "string json_field"
  sub_score :: "string json_field"

text \<open>An item of \<^verbatim>\<open>/api/result/update\<close>.\<close>

record score_update =
  upd_id :: "int json_field"
  upd_score :: "string json_field"

text \<open>An item of the list posted to \<^verbatim>\<open>/api/table/specific\<close>.\<close>

record target_group =
  tg_leagueName :: "string json_field"
  tg_group :: "string json_field"

subsection \<open>\<^verbatim>\<open>FixtureResult.__init__\<close> and the insert of a result\<close>

text \<open>
  The \<^verbatim>\<open>kickoff_at\<close> argument: a \<^verbatim>\<open>datetime\<close> is stored as it is, anything
  else goes to \<^verbatim>\<open>strptime\<close>, which raises \<^verbatim>\<open>TypeError\<close> on \<^verbatim>\<open>None\<close>.
  The argument \<^verbatim>\<open>res_id\<close> sets the id when given. Otherwise the id is left unset
  (here 0) and \<open>insert_fixture\<close> takes it from the table's sequence.
\<close>

datatype kickoff_arg = KickoffText string | KickoffTime timestamp | KickoffNone

definition kickoff_of_json :: "string option \<Rightarrow> kickoff_arg" where
  "kickoff_of_json v = (case v of Some t \<Rightarrow> KickoffText t | None \<Rightarrow> KickoffNone)"

definition fixture_result_init ::
  "int \<Rightarrow> int \<Rightarrow> int \<Rightarrow> int option \<Rightarrow> kickoff_arg \<Rightarrow> sql_str \<Rightarrow> int option \<Rightarrow> fixture_result py_result" where
  "fixture_result_init gid home away md ko sc res_id =
     (case (case ko of KickoffTime t \<Rightarrow> Inr t | KickoffText str \<Rightarrow> py_strptime str
                     | KickoffNone \<Rightarrow> Inl TypeError) of
        Inl e \<Rightarrow> Inl e
      | Inr t \<Rightarrow> Inr \<lparr>fixture_pk = (case res_id of Some i \<Rightarrow> i | None \<Rightarrow> 0), matchday = md,
                     kickoff_at = t, score = sc, group_id = gid, home_team_id = home,
                     away_team_id = away\<rparr>)"

definition insert_fixture :: "db \<Rightarrow> fixture_result \<Rightarrow> fixture_result \<times> db" where
  "insert_fixture s f =
     (let f' = f\<lparr>fixture_pk := fixture_seq s + 1\<rparr>
      in (f', s\<lparr>fixture_results := fixture_results s @ [f'], fixture_seq := fixture_seq s + 1\<rparr>))"

subsection \<open>\<^verbatim>\<open>add_fixture_result\<close>\<close>

text \<open>
  The teams, the league and the group are resolved (and created) first, each with its
  own commit. Then the three keys are read with \<^verbatim>\<open>d[k]\<close> and the constructor runs.
  An exception from any of these is swallowed: the method returns \<^verbatim>\<open>None\<close>, and the
  entities created before the exception stay.
\<close>

definition add_fixture_result :: "db \<Rightarrow> submission \<Rightarrow> fixture_result option \<times> db" where
  "add_fixture_result s data =
     (let (home, s1) = get_add_team s (json_get (sub_homeTeam data));
          (away, s2) = get_add_team s1 (json_get (sub_awayTeam data));
          (league, s3) = get_add_league s2 (json_get (sub_leagueTitle data));
          (grp, s4) = get_add_group s3 (json_get (sub_group data)) (league_pk league)
      in case json_index (sub_matchday data) of
           Inl _ \<Rightarrow> (None, s4)
         | Inr md \<Rightarrow>
             (case json_index (sub_kickoffAt data) of
                Inl _ \<Rightarrow> (None, s4)
              | Inr ko \<Rightarrow>
                  (case json_index (sub_score data) of
                     Inl _ \<Rightarrow> (None, s4)
                   | Inr sc \<Rightarrow>
                       (case fixture_result_init (group_pk grp) (team_pk home) (team_pk away) md
                               (kickoff_of_json ko) sc None of
                          Inl _ \<Rightarrow> (None, s4)
                        | Inr f \<Rightarrow> (case insert_fixture s4 f of (f', s5) \<Rightarrow> (Some f', s5))))))"

subsection \<open>\<^verbatim>\<open>update_fixture_result(s)\<close>\<close>

text \<open>
  \<^verbatim>\<open>FixtureResult.query.get(result_id)\<close> followed by an assignment to
  \<^verbatim>\<open>fixture.score\<close> and a commit: an \<^verbatim>\<open>UPDATE\<close> of the row with that primary key.
  A missing id (\<^verbatim>\<open>result.get('id')\<close> is \<^verbatim>\<open>None\<close>) finds no row.
\<close>

definition set_score :: "db \<Rightarrow> int \<Rightarrow> sql_str \<Rightarrow> db" where
  "set_score s i sc =
     s\<lparr>fixture_results := map (\<lambda>f. if fixture_pk f = i then f\<lparr>score := sc\<rparr> else f) (fixture_results s)\<rparr>"

definition update_fixture_result :: "db \<Rightarrow> int option \<Rightarrow> score_update \<Rightarrow> (bool \<times> string) \<times> db" where
  "update_fixture_result s result_id data =
     (case (case result_id of None \<Rightarrow> None | Some i \<Rightarrow> fixture_get s i) of
        None \<Rightarrow> ((False, ''Fixture not found.''), s)
      | Some fixture \<Rightarrow>
          (case json_index (upd_score data) of
             Inl _ \<Rightarrow> ((False, ''Exception occured.''), s)
           | Inr sc \<Rightarrow> ((True, ''Success''), set_score s (fixture_pk fixture) sc)))"

definition update_fixture_results :: "db \<Rightarrow> score_update payload \<Rightarrow> db" where
  "update_fixture_results s results =
     fold (\<lambda>result s. snd (update_fixture_result s (json_get (upd_id result)) result))
          (payload_list results) s"

subsection \<open>Tables of several groups\<close>

text \<open>
  The loop \<^verbatim>\<open>for group_id in ...: standing = cls.__gen_standing_table(group_id)\<close>:
  the first exception ends it. A table is a dict with four keys, and
  \<open>group_table_keys\<close> lists them for \<^verbatim>\<open>len\<close>.
\<close>

fun gen_tables :: "db \<Rightarrow> set_iter \<Rightarrow> int list \<Rightarrow> group_table list py_result" where
  "gen_tables s it [] = Inr []"
| "gen_tables s it (g # gs) =
     (case gen_standing_table s it g of
        Inl e \<Rightarrow> Inl e
      | Inr t \<Rightarrow> (case gen_tables s it gs of Inl e \<Rightarrow> Inl e | Inr ts \<Rightarrow> Inr (t # ts)))"

definition group_table_keys :: "group_table \<Rightarrow> string list" where
  "group_table_keys t = [''leagueTitle'', ''matchday'', ''group'', ''standing'']"

datatype 'a one_or_many = One 'a | Many "'a list"

subsection \<open>\<^verbatim>\<open>handle_fixture_results\<close>\<close>

text \<open>
  The first loop resolves each submission's league and group, records the group id in
  the set \<^verbatim>\<open>unique_group_ids\<close> and calls \<^verbatim>\<open>add_fixture_result\<close>. The set is kept
  as the list of ids in insertion order, and \<open>it\<close> is its iteration order. The second
  loop leaves its last table in \<^verbatim>\<open>standing\<close>. The test \<^verbatim>\<open>len(standing) == 1\<close>
  reads that variable (unbound when the set is empty: \<^verbatim>\<open>UnboundLocalError\<close>), not
  the list \<^verbatim>\<open>standings\<close>.
\<close>

fun ingest_loop :: "db \<Rightarrow> submission list \<Rightarrow> int list \<Rightarrow> int list \<times> db" where
  "ingest_loop s [] ids = (ids, s)"
| "ingest_loop s (fixture # fs) ids =
     (let (league, s1) = get_add_league s (json_get (sub_leagueTitle fixture));
          (grp, s2) = get_add_group s1 (json_get (sub_group fixture)) (league_pk league);
          s3 = snd (add_fixture_result s2 fixture)
      in ingest_loop s3 fs (ids @ [group_pk grp]))"

definition handle_fixture_results ::
  "db \<Rightarrow> set_iter \<Rightarrow> submission payload \<Rightarrow> group_table one_or_many py_result \<times> db" where
  "handle_fixture_results s it data =
     (case ingest_loop s (payload_list data) [] of
        (unique_group_ids, s') \<Rightarrow>
          (case gen_tables s' it (it unique_group_ids) of
             Inl e \<Rightarrow> (Inl e, s')
           | Inr standings \<Rightarrow>
               (if standings = [] then (Inl UnboundLocalError, s')
                else if length (group_table_keys (last standings)) = 1 then (Inr (One (hd standings)), s')
                else (Inr (Many standings), s'))))"

subsection \<open>\<^verbatim>\<open>get_tabels_for_groups\<close>\<close>

text \<open>
  With a target list, each item's league and group are looked up (without creating
  them) and an item that names no existing league or group is skipped. Without one,
  every group of the table \<^verbatim>\<open>league_groups\<close>, in the table's order. A single table
  is returned bare. The method only reads the database.
\<close>

fun target_groups_loop :: "db \<Rightarrow> target_group list \<Rightarrow> league_group list py_result" where
  "target_groups_loop s [] = Inr []"
| "target_groups_loop s (tg # tgs) =
     (case json_index (tg_leagueName tg) of
        Inl e \<Rightarrow> Inl e
      | Inr league_name \<Rightarrow>
          (case json_index (tg_group tg) of
             Inl e \<Rightarrow> Inl e
           | Inr group_name \<Rightarrow>
               (case get_league s league_name of
                  None \<Rightarrow> target_groups_loop s tgs
                | Some league \<Rightarrow>
                    (case get_group s group_name (league_pk league) of
                       None \<Rightarrow> target_groups_loop s tgs
                     | Some grp \<Rightarrow>
                         (case target_groups_loop s tgs of
                            Inl e \<Rightarrow> Inl e
                          | Inr gs \<Rightarrow> Inr (grp # gs))))))"

definition get_tabels_for_groups ::
  "db \<Rightarrow> set_iter \<Rightarrow> target_group list option \<Rightarrow> group_table one_or_many py_result" where
  "get_tabels_for_groups s it target_groups =
     (case (case target_groups of Some tgs \<Rightarrow> target_groups_loop s tgs | None \<Rightarrow> Inr (league_groups s)) of
        Inl e \<Rightarrow> Inl e
      | Inr groups \<Rightarrow>
          (case gen_tables s it (map group_pk groups) of
             Inl e \<Rightarrow> Inl e
           | Inr tabels \<Rightarrow> Inr (if length tabels = 1 then One (hd tabels) else Many tabels)))"

subsection \<open>Specification of the workflows\<close>

text \<open>
  Specification-side predicates of the workflows. \<open>submission_ok\<close>: the three keys
  read with \<^verbatim>\<open>d[k]\<close> are present and the kickoff parses. \<open>submitted_fixture\<close>:
  the row \<^verbatim>\<open>FixtureResult(...)\<close> builds from a submission and the resolved
  entities. \<open>update_applies\<close>: an update item that finds its result and has a score.
  \<open>app_reach\<close>: the states the application reaches from an empty database through
  its two writing endpoints, in any order.
\<close>

definition submission_ok :: "submission \<Rightarrow> bool" where
  "submission_ok d \<longleftrightarrow>
     sub_matchday d \<noteq> Missing \<and> sub_score d \<noteq> Missing \<and>
     (case sub_kickoffAt d of Present k \<Rightarrow> \<not> isl (py_strptime k) | _ \<Rightarrow> False)"

definition submitted_fixture ::
  "submission \<Rightarrow> league_group \<Rightarrow> football_team \<Rightarrow> football_team \<Rightarrow> fixture_result" where
  "submitted_fixture d grp home away =
     \<lparr>fixture_pk = 0, matchday = json_get (sub_matchday d),
      kickoff_at = projr (py_strptime (the (json_get (sub_kickoffAt d)))),
      score = json_get (sub_score d), group_id = group_pk grp,
      home_team_id = team_pk home, away_team_id = team_pk away\<rparr>"

inductive app_reach :: "db \<Rightarrow> bool" where
  app_empty: "app_reach empty_db"
| app_publish: "app_reach s \<Longrightarrow> app_reach (snd (handle_fixture_results s it data))"
| app_update: "app_reach s \<Longrightarrow> app_reach (update_fixture_results s us)"

definition update_applies :: "db \<Rightarrow> score_update \<Rightarrow> bool" where
  "update_applies s u \<longleftrightarrow>
     (case json_get (upd_id u) of None \<Rightarrow> False | Some i \<Rightarrow> fixture_get s i \<noteq> None) \<and>
     upd_score u \<noteq> Missing"

subsection \<open>Lemmas of the workflows\<close>

lemma json_index_Inr_iff [simp]: "json_index v = Inr x \<longleftrightarrow> v \<noteq> Missing \<and> x = json_get v"
  by (cases v) (auto simp: json_index_def json_get_def)

lemma json_index_Missing [simp]: "json_index Missing = Inl KeyError"
  by (simp add: json_index_def)

lemma json_index_not_Missing: "v \<noteq> Missing \<Longrightarrow> json_index v = Inr (json_get v)"
  by (cases v) (auto simp: json_index_def json_get_def)

lemma add_fixture_result_split:
  assumes "get_add_team s (json_get (sub_homeTeam d)) = (home, s1)"
    and "get_add_team s1 (json_get (sub_awayTeam d)) = (away, s2)"
    and "get_add_league s2 (json_get (sub_leagueTitle d)) = (league, s3)"
    and "get_add_group s3 (json_get (sub_group d)) (league_pk league) = (grp, s4)"
  shows "add_fixture_result s d =
     (if submission_ok d then
        (case insert_fixture s4
               \<lparr>fixture_pk = 0, matchday = json_get (sub_matchday d),
                kickoff_at = projr (py_strptime (the (json_get (sub_kickoffAt d)))),
                score = json_get (sub_score d), group_id = group_pk grp,
                home_team_id = team_pk home, away_team_id = team_pk away\<rparr> of
           (f', s5) \<Rightarrow> (Some f', s5))
      else (None, s4))"
proof (cases "sub_matchday d = Missing \<or> sub_score d = Missing")
  case True
  then show ?thesis using assms
    by (auto simp: add_fixture_result_def submission_ok_def split: sum.split)
next
  case False
  then show ?thesis using assms
    by (cases "sub_kickoffAt d")
       (auto simp: add_fixture_result_def submission_ok_def json_index_not_Missing json_get_def
          kickoff_of_json_def fixture_result_init_def split: sum.split)
qed

lemma insert_fixture_inv:
  assumes "catalog_inv s" and "group_get s (group_id f) \<noteq> None"
    and "team_get s (home_team_id f) \<noteq> None" and "team_get s (away_team_id f) \<noteq> None"
  shows "catalog_inv (snd (insert_fixture s f))"
proof -
  have "fixture_seq s + 1 \<notin> set (map fixture_pk (fixture_results s))"
    using assms(1) by (intro fresh_key_notin) (simp add: catalog_inv_def)
  then show ?thesis
    using assms by (auto simp: catalog_unfold insert_fixture_def)
qed

lemma add_fixture_result_resolved:
  assumes "catalog_inv s"
  obtains home away league grp s4 where
    "add_fixture_result s d =
       (if submission_ok d then
          (case insert_fixture s4 (submitted_fixture d grp home away) of (f', s5) \<Rightarrow> (Some f', s5))
        else (None, s4))"
    and "catalog_inv s4" and "fixture_results s4 = fixture_results s"
    and "team_get s4 (team_pk home) = Some home" and "team_name home = json_get (sub_homeTeam d)"
    and "team_get s4 (team_pk away) = Some away" and "team_name away = json_get (sub_awayTeam d)"
    and "group_get s4 (group_pk grp) = Some grp" and "group_title grp = json_get (sub_group d)"
    and "league_get s4 (group_league_id grp) = Some league"
    and "league_title league = json_get (sub_leagueTitle d)"
proof -
  obtain home s1 where 1: "get_add_team s (json_get (sub_homeTeam d)) = (home, s1)" by fastforce
  obtain away s2 where 2: "get_add_team s1 (json_get (sub_awayTeam d)) = (away, s2)" by fastforce
  obtain league s3 where 3: "get_add_league s2 (json_get (sub_leagueTitle d)) = (league, s3)" by fastforce
  obtain grp s4 where 4: "get_add_group s3 (json_get (sub_group d)) (league_pk league) = (grp, s4)" by fastforce
  have inv1: "catalog_inv s1" using get_add_team_inv [OF assms] 1 by (metis snd_conv)
  have inv2: "catalog_inv s2" using get_add_team_inv [OF inv1] 2 by (metis snd_conv)
  have inv3: "catalog_inv s3" using get_add_league_inv [OF inv2] 3 by (metis snd_conv)
  have "league_get s3 (league_pk league) \<noteq> None" using get_add_league_exists 3 by (metis fst_conv snd_conv)
  then have inv4: "catalog_inv s4" using get_add_group_inv [OF inv3] 4 by (metis snd_conv)
  have fr: "football_teams s4 = football_teams s3" "football_teams s3 = football_teams s2"
    "leagues s4 = leagues s3" "fixture_results s4 = fixture_results s"
    using get_add_group_frame [of s3] get_add_league_frame [of s2] get_add_team_frame [of s]
      get_add_team_frame [of s1] 1 2 3 4 by (metis snd_conv)+
  have "home \<in> set (football_teams s2)"
    using get_add_team_in [of s] get_add_team_teams_mono [of s1] 1 2 by (metis fst_conv snd_conv subsetD)
  then have h: "team_get s4 (team_pk home) = Some home" using catalog_inv_gets(1) [OF inv4] fr by simp
  have "away \<in> set (football_teams s2)" using get_add_team_in [of s1] 2 by (metis fst_conv snd_conv)
  then have a: "team_get s4 (team_pk away) = Some away" using catalog_inv_gets(1) [OF inv4] fr by simp
  have "grp \<in> set (league_groups s4)" using get_add_group_in [of s3] 4 by (metis fst_conv snd_conv)
  then have g: "group_get s4 (group_pk grp) = Some grp" using catalog_inv_gets(2) [OF inv4] by simp
  have "league \<in> set (leagues s3)" using get_add_league_in [of s2] 3 by (metis fst_conv snd_conv)
  moreover have "group_league_id grp = league_pk league" using get_add_group_key [of s3] 4 by (metis fst_conv)
  ultimately have l: "league_get s4 (group_league_id grp) = Some league"
    using catalog_inv_gets(3) [OF inv4] fr by simp
  show ?thesis
  proof (rule that [OF _ inv4 fr(4) h _ a _ g _ l])
    show "add_fixture_result s d =
       (if submission_ok d then
          (case insert_fixture s4 (submitted_fixture d grp home away) of (f', s5) \<Rightarrow> (Some f', s5))
        else (None, s4))"
      by (simp add: add_fixture_result_split [OF 1 2 3 4] submitted_fixture_def)
    show "team_name home = json_get (sub_homeTeam d)" using get_add_team_name 1 by (metis fst_conv)
    show "team_name away = json_get (sub_awayTeam d)" using get_add_team_name 2 by (metis fst_conv)
    show "group_title grp = json_get (sub_group d)" using get_add_group_key 4 by (metis fst_conv)
    show "league_title league = json_get (sub_leagueTitle d)" using get_add_league_title 3 by (metis fst_conv)
  qed
qed

lemma add_fixture_result_inv:
  "catalog_inv s \<Longrightarrow> catalog_inv (snd (add_fixture_result s d))"
proof -
  assume inv: "catalog_inv s"
  then obtain home away league grp s4 where
    eq: "add_fixture_result s d =
       (if submission_ok d then
          (case insert_fixture s4 (submitted_fixture d grp home away) of (f', s5) \<Rightarrow> (Some f', s5))
        else (None, s4))"
    and inv4: "catalog_inv s4" and "fixture_results s4 = fixture_results s"
    and "team_get s4 (team_pk home) = Some home" and "team_name home = json_get (sub_homeTeam d)"
    and "team_get s4 (team_pk away) = Some away" and "team_name away = json_get (sub_awayTeam d)"
    and "group_get s4 (group_pk grp) = Some grp" and "group_title grp = json_get (sub_group d)"
    and "league_get s4 (group_league_id grp) = Some league"
    and "league_title league = json_get (sub_leagueTitle d)"
    by (rule add_fixture_result_resolved)
  then have "catalog_inv (snd (insert_fixture s4 (submitted_fixture d grp home away)))"
    by (intro insert_fixture_inv) (simp_all add: submitted_fixture_def)
  then show ?thesis
    using eq inv4 by (cases "insert_fixture s4 (submitted_fixture d grp home away)") auto
qed

text \<open>C23: A well-formed submission (matchday, score and kickoff present, kickoff in the format) is stored by \<^verbatim>\<open>add_fixture_result\<close> in a consistent database: the new result is appended to the table of results, carries the submitted score, matchday and parsed kickoff, and its home team, away team, group and the group's league are the rows named by the submission.\<close>

theorem add_fixture_result_stores:
  assumes "catalog_inv s" and "submission_ok d"
  shows "\<exists>f s'. add_fixture_result s d = (Some f, s') \<and> fixture_results s' = fixture_results s @ [f] \<and>
     score f = json_get (sub_score d) \<and> matchday f = json_get (sub_matchday d) \<and>
     py_strptime (the (json_get (sub_kickoffAt d))) = Inr (kickoff_at f) \<and>
     map_option team_name (team_get s' (home_team_id f)) = Some (json_get (sub_homeTeam d)) \<and>
     map_option team_name (team_get s' (away_team_id f)) = Some (json_get (sub_awayTeam d)) \<and>
     map_option group_title (group_get s' (group_id f)) = Some (json_get (sub_group d)) \<and>
     map_option league_title (Option.bind (group_get s' (group_id f)) (\<lambda>g. league_get s' (group_league_id g)))
       = Some (json_get (sub_leagueTitle d))"
proof -
  obtain home away league grp s4 where
    eq: "add_fixture_result s d =
       (if submission_ok d then
          (case insert_fixture s4 (submitted_fixture d grp home away) of (f', s5) \<Rightarrow> (Some f', s5))
        else (None, s4))"
    and "catalog_inv s4" "fixture_results s4 = fixture_results s"
    and "team_get s4 (team_pk home) = Some home" "team_name home = json_get (sub_homeTeam d)"
    and "team_get s4 (team_pk away) = Some away" "team_name away = json_get (sub_awayTeam d)"
    and "group_get s4 (group_pk grp) = Some grp" "group_title grp = json_get (sub_group d)"
    and "league_get s4 (group_league_id grp) = Some league"
    and "league_title league = json_get (sub_leagueTitle d)"
    by (rule add_fixture_result_resolved [OF assms(1)])
  define f where "f = (submitted_fixture d grp home away)\<lparr>fixture_pk := fixture_seq s4 + 1\<rparr>"
  define s' where "s' = snd (insert_fixture s4 (submitted_fixture d grp home away))"
  have run: "add_fixture_result s d = (Some f, s')"
    using eq assms(2) by (simp add: insert_fixture_def Let_def f_def s'_def)
  have gets: "team_get s' = team_get s4" "group_get s' = group_get s4" "league_get s' = league_get s4"
    and fr: "fixture_results s' = fixture_results s4 @ [f]"
    by (simp_all add: s'_def f_def insert_fixture_def Let_def fun_eq_iff team_get_def group_get_def league_get_def)
  obtain t where t: "py_strptime (the (json_get (sub_kickoffAt d))) = Inr t"
    using assms(2) by (cases "py_strptime (the (json_get (sub_kickoffAt d)))")
      (auto simp: submission_ok_def json_get_def split: json_field.splits)
  have fields: "home_team_id f = team_pk home" "away_team_id f = team_pk away" "group_id f = group_pk grp"
    "score f = json_get (sub_score d)" "matchday f = json_get (sub_matchday d)" "kickoff_at f = t"
    by (simp_all add: f_def submitted_fixture_def t)
  show ?thesis
    using run fr gets fields t \<open>fixture_results s4 = fixture_results s\<close>
      \<open>team_get s4 (team_pk home) = Some home\<close> \<open>team_name home = json_get (sub_homeTeam d)\<close>
      \<open>team_get s4 (team_pk away) = Some away\<close> \<open>team_name away = json_get (sub_awayTeam d)\<close>
      \<open>group_get s4 (group_pk grp) = Some grp\<close> \<open>group_title grp = json_get (sub_group d)\<close>
      \<open>league_get s4 (group_league_id grp) = Some league\<close>
      \<open>league_title league = json_get (sub_leagueTitle d)\<close>
    by simp
qed

text \<open>C24: A submission that is not well-formed (a key missing, or a kickoff that does not parse) is dropped silently: \<^verbatim>\<open>add_fixture_result\<close> returns \<^verbatim>\<open>None\<close> and stores no result, but the teams and the league it names have been created and committed. The specification asks for the failure to be reported and the workflow aborted.\<close>

theorem add_fixture_result_swallows:
  assumes "catalog_inv s" and "\<not> submission_ok d"
  shows "fst (add_fixture_result s d) = None \<and>
         fixture_results (snd (add_fixture_result s d)) = fixture_results s \<and>
         team_by_name (snd (add_fixture_result s d)) (json_get (sub_homeTeam d)) \<noteq> None \<and>
         team_by_name (snd (add_fixture_result s d)) (json_get (sub_awayTeam d)) \<noteq> None \<and>
         league_by_title (snd (add_fixture_result s d)) (json_get (sub_leagueTitle d)) \<noteq> None"
proof -
  obtain home away league grp s4 where
    eq: "add_fixture_result s d =
       (if submission_ok d then
          (case insert_fixture s4 (submitted_fixture d grp home away) of (f', s5) \<Rightarrow> (Some f', s5))
        else (None, s4))"
    and "catalog_inv s4" "fixture_results s4 = fixture_results s"
    and "team_get s4 (team_pk home) = Some home" "team_name home = json_get (sub_homeTeam d)"
    and "team_get s4 (team_pk away) = Some away" "team_name away = json_get (sub_awayTeam d)"
    and "group_get s4 (group_pk grp) = Some grp" "group_title grp = json_get (sub_group d)"
    and "league_get s4 (group_league_id grp) = Some league"
    and "league_title league = json_get (sub_leagueTitle d)"
    by (rule add_fixture_result_resolved [OF assms(1)])
  moreover have "home \<in> set (football_teams s4)" "away \<in> set (football_teams s4)" "league \<in> set (leagues s4)"
    using calculation by (auto simp: team_get_def league_get_def dest: find_Some_in)
  ultimately show ?thesis
    using assms(2) by (auto simp: team_by_name_def league_by_title_def find_None_iff)
qed

lemma ingest_loop_inv: "catalog_inv s \<Longrightarrow> catalog_inv (snd (ingest_loop s fs ids))"
proof (induction fs arbitrary: s ids)
  case Nil
  then show ?case by simp
next
  case (Cons f fs)
  obtain league s1 where 1: "get_add_league s (json_get (sub_leagueTitle f)) = (league, s1)" by fastforce
  obtain grp s2 where 2: "get_add_group s1 (json_get (sub_group f)) (league_pk league) = (grp, s2)" by fastforce
  have "catalog_inv s1" using get_add_league_inv [OF Cons.prems] 1 by (metis snd_conv)
  moreover have "league_get s1 (league_pk league) \<noteq> None" using get_add_league_exists 1 by (metis fst_conv snd_conv)
  ultimately have "catalog_inv s2" using get_add_group_inv 2 by (metis snd_conv)
  then have "catalog_inv (snd (add_fixture_result s2 f))" by (rule add_fixture_result_inv)
  then show ?case using Cons.IH 1 2 by simp
qed

lemma handle_fixture_results_state:
  "snd (handle_fixture_results s it data) = snd (ingest_loop s (payload_list data) [])"
  by (simp add: handle_fixture_results_def split: prod.split sum.split)

lemma find_map_eq:
  "(\<And>x. P (g x) = P x) \<Longrightarrow> find P (map g xs) = map_option g (find P xs)"
  by (induction xs) auto

lemma set_score_fields:
  "fixture_results (set_score s i sc) =
     map (\<lambda>f. f\<lparr>score := if fixture_pk f = i then sc else score f\<rparr>) (fixture_results s)"
  "leagues (set_score s i sc) = leagues s" "league_groups (set_score s i sc) = league_groups s"
  "football_teams (set_score s i sc) = football_teams s"
  "league_seq (set_score s i sc) = league_seq s" "group_seq (set_score s i sc) = group_seq s"
  "team_seq (set_score s i sc) = team_seq s" "fixture_seq (set_score s i sc) = fixture_seq s"
  by (simp_all add: set_score_def)

lemma fixture_get_set_score:
  "fixture_get (set_score s i sc) j =
     (if j = i then map_option (\<lambda>f. f\<lparr>score := sc\<rparr>) (fixture_get s j) else fixture_get s j)"
proof -
  have eq: "fixture_get (set_score s i sc) j =
        map_option (\<lambda>f. f\<lparr>score := if fixture_pk f = i then sc else score f\<rparr>) (fixture_get s j)"
    by (simp add: fixture_get_def set_score_fields find_map_eq)
  show ?thesis
  proof (cases "fixture_get s j")
    case None
    then show ?thesis unfolding eq by (cases "j = i") auto
  next
    case (Some f)
    then have "fixture_pk f = j" by (auto simp: fixture_get_def dest: find_Some_in)
    with Some show ?thesis unfolding eq by (cases "j = i") auto
  qed
qed

lemma set_score_inv: "catalog_inv s \<Longrightarrow> catalog_inv (set_score s i sc)"
  by (simp add: catalog_inv_def set_score_fields comp_def team_get_def group_get_def league_get_def)

lemma update_fixture_result_state:
  "snd (update_fixture_result s r u) = s \<or>
   (\<exists>i sc. snd (update_fixture_result s r u) = set_score s i sc)"
  by (auto simp: update_fixture_result_def split: option.split sum.split)

lemma update_fixture_results_inv:
  "catalog_inv s \<Longrightarrow> catalog_inv (update_fixture_results s us)"
proof -
  have "catalog_inv s \<Longrightarrow>
        catalog_inv (fold (\<lambda>result s. snd (update_fixture_result s (json_get (upd_id result)) result)) xs s)"
    for xs
  proof (induction xs arbitrary: s)
    case Nil
    then show ?case by simp
  next
    case (Cons x xs)
    then show ?case
      using update_fixture_result_state [of s "json_get (upd_id x)" x] set_score_inv by fastforce
  qed
  then show "catalog_inv s \<Longrightarrow> catalog_inv (update_fixture_results s us)"
    by (simp add: update_fixture_results_def)
qed

text \<open>C25: Every database state reachable from the empty database by publishing batches of results and by batches of score updates, in any order and with any set iteration order, satisfies the catalog invariant: natural keys and primary keys are unique and every foreign key resolves.\<close>

theorem app_reach_inv: "app_reach s \<Longrightarrow> catalog_inv s"
proof (induction rule: app_reach.induct)
  case app_empty
  show ?case by (rule catalog_inv_empty)
next
  case (app_publish s it data)
  then show ?case by (simp add: handle_fixture_results_state ingest_loop_inv)
next
  case (app_update s us)
  from app_update.IH show ?case by (rule update_fixture_results_inv)
qed

lemma fixture_get_Some_pk: "fixture_get s i = Some f \<Longrightarrow> fixture_pk f = i"
  by (auto simp: fixture_get_def dest: find_Some_in)

lemma update_fixture_result_step:
  "snd (update_fixture_result s (json_get (upd_id u)) u) =
     (if update_applies s u then set_score s (the (json_get (upd_id u))) (json_get (upd_score u)) else s)"
  by (auto simp: update_fixture_result_def update_applies_def json_index_not_Missing
      dest: fixture_get_Some_pk split: option.split sum.split)

lemma update_applies_set_score: "update_applies (set_score s i sc) = update_applies s"
  by (simp add: fun_eq_iff update_applies_def fixture_get_set_score split: option.split)

lemma update_fixture_results_fold:
  "update_fixture_results s (Batch us) =
     fold (\<lambda>u s. if update_applies s u then set_score s (the (json_get (upd_id u))) (json_get (upd_score u)) else s)
          us s"
  by (simp add: update_fixture_results_def payload_list_def update_fixture_result_step)

lemma update_fixture_results_none_apply:
  assumes "\<forall>u \<in> set (payload_list p). \<not> update_applies s u"
  shows "update_fixture_results s p = s"
proof -
  have "\<forall>u \<in> set us. \<not> update_applies s u \<Longrightarrow>
      fold (\<lambda>u s. snd (update_fixture_result s (json_get (upd_id u)) u)) us s = s" for us
    by (induction us) (simp_all add: update_fixture_result_step)
  with assms show ?thesis by (simp add: update_fixture_results_def)
qed

text \<open>C26: A successful \<^verbatim>\<open>update_fixture_result\<close> changes only the score of the result with the given id: every other result, and every field but the score of that one, is unchanged, and so are the leagues, groups and teams.\<close>

theorem update_fixture_result_only_score:
  assumes "update_fixture_result s (Some i) u = ((True, m), s')"
  shows "fixture_get s' j =
           (if j = i then map_option (\<lambda>f. f\<lparr>score := json_get (upd_score u)\<rparr>) (fixture_get s j)
            else fixture_get s j) \<and>
         leagues s' = leagues s \<and> league_groups s' = league_groups s \<and> football_teams s' = football_teams s"
proof -
  obtain f where f: "fixture_get s i = Some f" and sc: "upd_score u \<noteq> Missing"
    and s': "s' = set_score s i (json_get (upd_score u))"
    using assms by (auto simp: update_fixture_result_def json_index_not_Missing
        dest: fixture_get_Some_pk split: option.splits sum.splits)
  then show ?thesis by (simp add: fixture_get_set_score set_score_fields)
qed

text \<open>C27: In \<^verbatim>\<open>update_fixture_results\<close> an item that fails (no id, an unknown id, or no score key) has no effect and does not stop the items after it: the batch has the effect of the batch of its applicable items.\<close>

theorem update_batch_skips_failures:
  "update_fixture_results s (Batch us) = update_fixture_results s (Batch (filter (update_applies s) us))"
proof (induction us arbitrary: s)
  case Nil
  then show ?case by simp
next
  case (Cons u us)
  then show ?case
    by (simp add: update_fixture_results_fold update_applies_set_score del: fold_simps)
qed

text \<open>C28: After a batch of updates, a result carries the score of the last item of the batch that names it and has a score; with no such item it is unchanged (last writer wins).\<close>

theorem update_last_writer_wins:
  "fixture_get (update_fixture_results s (Batch us)) i =
     (case filter (\<lambda>u. json_get (upd_id u) = Some i \<and> upd_score u \<noteq> Missing) us of
        [] \<Rightarrow> fixture_get s i
      | ws \<Rightarrow> map_option (\<lambda>f. f\<lparr>score := json_get (upd_score (last ws))\<rparr>) (fixture_get s i))"
proof (induction us rule: rev_induct)
  case Nil
  then show ?case by (simp add: update_fixture_results_fold)
next
  case (snoc u us)
  let ?s = "update_fixture_results s (Batch us)"
  have step: "update_fixture_results s (Batch (us @ [u])) =
      (if update_applies ?s u then set_score ?s (the (json_get (upd_id u))) (json_get (upd_score u)) else ?s)"
    by (simp add: update_fixture_results_fold)
  have ex: "fixture_get ?s i \<noteq> None \<longleftrightarrow> fixture_get s i \<noteq> None"
    using snoc.IH by (auto split: list.splits)
  show ?case
    using snoc.IH ex
    by (auto simp: step update_applies_def fixture_get_set_score split: option.splits list.splits if_splits)
qed

lemma gen_tables_Inl_iff:
  "(\<exists>e. gen_tables s it gs = Inl e) \<longleftrightarrow> (\<exists>g \<in> set gs. \<exists>e. gen_standing_table s it g = Inl e)"
  by (induction gs) (auto split: sum.split)

lemma gen_tables_Inr_iff:
  "gen_tables s it gs = Inr ts \<longleftrightarrow> map (gen_standing_table s it) gs = map Inr ts"
  by (induction gs arbitrary: ts) (auto split: sum.split simp: Cons_eq_map_conv)

text \<open>C29: \<^verbatim>\<open>handle_fixture_results\<close> never returns a bare table. The test meant to unwrap a single table, \<^verbatim>\<open>len(standing) == 1\<close>, measures the last table, a dict of four keys, instead of the list of tables.\<close>

theorem handle_never_single:
  "fst (handle_fixture_results s it data) \<noteq> Inr (One t)"
  by (simp add: handle_fixture_results_def group_table_keys_def split: prod.split sum.split)

text \<open>C30: Publishing an empty batch raises \<^verbatim>\<open>UnboundLocalError\<close>: no table is computed and the variable \<^verbatim>\<open>standing\<close> is read unassigned. The database is unchanged.\<close>

theorem handle_empty_batch:
  "set_iter_ok it \<Longrightarrow> handle_fixture_results s it (Batch []) = (Inl UnboundLocalError, s)"
  using set_iter_okD [of it "[]"]
  by (simp add: handle_fixture_results_def payload_list_def)

text \<open>C31: When \<^verbatim>\<open>handle_fixture_results\<close> succeeds, it returns exactly one table for each distinct group touched by the batch, each computed on the database after the whole batch has been stored (the contract of the ingestion workflow).\<close>

theorem handle_tables_of_touched_groups:
  assumes "set_iter_ok it" and "fst (handle_fixture_results s it data) = Inr (Many ts)"
  shows "\<exists>gids. distinct gids \<and> set gids = set (fst (ingest_loop s (payload_list data) [])) \<and>
           map Inr ts = map (gen_standing_table (snd (handle_fixture_results s it data)) it) gids"
proof -
  obtain ids s' where l: "ingest_loop s (payload_list data) [] = (ids, s')" by fastforce
  then have "gen_tables s' it (it ids) = Inr ts"
    using assms(2) by (auto simp: handle_fixture_results_def split: sum.splits if_splits)
  moreover have "snd (handle_fixture_results s it data) = s'"
    using l by (simp add: handle_fixture_results_state)
  ultimately show ?thesis
    using set_iter_okD [OF assms(1), of ids] l by (auto simp: gen_tables_Inr_iff)
qed

text \<open>C32: \<^verbatim>\<open>get_tabels_for_groups\<close> silently skips a requested group whose league does not exist, instead of failing with a not-found error as the specification requires.\<close>

theorem get_tabels_skips_unknown_league:
  assumes "json_index (tg_leagueName tg) = Inr n" and "tg_group tg \<noteq> Missing" and "get_league s n = None"
  shows "get_tabels_for_groups s it (Some (tg # tgs)) = get_tabels_for_groups s it (Some tgs)"
  using assms by (simp add: get_tabels_for_groups_def json_index_not_Missing)

text \<open>C33: \<^verbatim>\<open>get_tabels_for_groups\<close> returns a bare table, not a list, when there is exactly one group, unlike \<^verbatim>\<open>handle_fixture_results\<close> and unlike the specification, which asks for a collection in every case.\<close>

theorem get_tabels_single_bare:
  assumes "league_groups s = [g]" and "gen_standing_table s it (group_pk g) = Inr t"
  shows "get_tabels_for_groups s it None = Inr (One t)"
  using assms by (simp add: get_tabels_for_groups_def)

end
