(* ===== verification/ResultFilter.thy ===== *)
theory ResultFilter
  imports Workflows "HOL-Library.Sublist"
begin

text \<open>
  The result filter of \<^verbatim>\<open>ChampionshipDataUtil.filter_results\<close> (\<^verbatim>\<open>utils.py\<close>
  lines 424--490), with \<^verbatim>\<open>__parse_query_row\<close> (lines 395--421) and
  \<^verbatim>\<open>FixtureResult.to_result_dict\<close> (\<^verbatim>\<open>models.py\<close> lines 94--113).
  The method builds an SQL text from the four optional criteria (\<open>filter_query\<close>).
  It runs the text, turns every row into a result dict, and returns \<^verbatim>\<open>[]\<close> on any
  exception. The database engine is not repository code. It is the parameter
  \<open>exec\<close>, which maps an SQL text to the rows it selects, or to \<open>None\<close> when the
  engine rejects the text. A criterion counts when it is truthy: \<^verbatim>\<open>.get\<close> gives a
  non-empty string. \<^verbatim>\<open>str(datetime)\<close> is the ISO form with a space, each field
  zero-padded (\<open>py_str_datetime\<close>).
\<close>

record filter_criteria =
  fc_group :: "string json_field"
  fc_team :: "string json_field"
  fc_date_from :: "string json_field"
  fc_date_to :: "string json_field"

definition no_criteria :: filter_criteria where
  "no_criteria = \<lparr>fc_group = Missing, fc_team = Missing, fc_date_from = Missing, fc_date_to = Missing\<rparr>"

definition truthy :: "string option \<Rightarrow> bool" where
  "truthy v = (case v of Some x \<Rightarrow> x \<noteq> [] | None \<Rightarrow> False)"

definition pad4 :: "int \<Rightarrow> string" where
  "pad4 n = replicate (4 - length (show_nat (nat n))) (CHR ''0'') @ show_nat (nat n)"

definition py_str_datetime :: "timestamp \<Rightarrow> string" where
  "py_str_datetime t =
     (case t of (y, mo, d, h, mi, s) \<Rightarrow>
        pad4 y @ ''-'' @ pad2 mo @ ''-'' @ pad2 d @ '' '' @ pad2 h @ '':'' @ pad2 mi @ '':'' @ pad2 s)"

definition select_join :: string where
  "select_join =
     ''select '' @ ''fixture_results.id, matchday, kickoff_at, score, '' @
     ''group_id, home_team_id, away_team_id '' @
     ''from fixture_results, football_teams, league_groups'' @ '' where ''"

definition team_clause :: "string \<Rightarrow> string" where
  "team_clause t =
     ''(fixture_results.home_team_id = football_teams.id'' @ '' or '' @
     ''fixture_results.away_team_id = football_teams.id)'' @ '' and '' @
     ''football_teams.team_name = '' @ [CHR 0x27] @ t @ [CHR 0x27]"

definition group_clause :: "string \<Rightarrow> string" where
  "group_clause g =
     '' and league_groups.id = fixture_results.group_id '' @
     ''and league_groups.title='' @ [CHR 0x27] @ g @ [CHR 0x27]"

definition date_clause :: "string \<Rightarrow> string \<Rightarrow> string py_result" where
  "date_clause op v =
     (case py_strptime v of
        Inl e \<Rightarrow> Inl e
      | Inr t \<Rightarrow> Inr ('' and '' @ ''fixture_results.kickoff_at '' @ op @ '' '' @ [CHR 0x27] @
                     py_str_datetime t @ [CHR 0x27]))"

text \<open>
  The query text. A \<^verbatim>\<open>None\<close> body becomes \<^verbatim>\<open>{}\<close>. The \<^verbatim>\<open>where\<close> of the join
  is followed by the team clause, which is the only clause not to start with
  \<^verbatim>\<open>and\<close>. The two date criteria are parsed in order, so a bad \<^verbatim>\<open>date_from\<close>
  raises before \<^verbatim>\<open>date_to\<close> is read.
\<close>

definition filter_query :: "filter_criteria option \<Rightarrow> string py_result" where
  "filter_query filters_dict =
     (let c = (case filters_dict of None \<Rightarrow> no_criteria | Some c \<Rightarrow> c);
          group_filter = json_get (fc_group c); team_filter = json_get (fc_team c);
          date_from_filter = json_get (fc_date_from c); date_to_filter = json_get (fc_date_to c);
          query = (if truthy group_filter \<or> truthy team_filter \<or> truthy date_from_filter \<or>
                      truthy date_to_filter
                   then select_join else ''select * from fixture_results'');
          query = query @ (if truthy team_filter then team_clause (the team_filter) else []);
          query = query @ (if truthy group_filter then group_clause (the group_filter) else [])
      in case (if truthy date_from_filter then date_clause ''>='' (the date_from_filter) else Inr []) of
           Inl e \<Rightarrow> Inl e
         | Inr q3 \<Rightarrow>
             (case (if truthy date_to_filter then date_clause ''<='' (the date_to_filter) else Inr []) of
                Inl e \<Rightarrow> Inl e
              | Inr q4 \<Rightarrow> Inr (query @ q3 @ q4)))"

subsection \<open>Result dicts\<close>

record result_view =
  rv_id :: int
  rv_matchday :: "int option"
  rv_kickoffAt :: string
  rv_score :: sql_str
  rv_group :: sql_str
  rv_leagueTitle :: sql_str
  rv_homeTeam :: sql_str
  rv_awayTeam :: sql_str

text \<open>\<^verbatim>\<open>FixtureResult.to_result_dict\<close>: each \<^verbatim>\<open>query.get\<close> that finds nothing
  gives \<^verbatim>\<open>None\<close>, and reading an attribute of it raises \<^verbatim>\<open>AttributeError\<close>.\<close>

definition to_result_dict :: "db \<Rightarrow> fixture_result \<Rightarrow> result_view py_result" where
  "to_result_dict s f =
     (case group_get s (group_id f) of
        None \<Rightarrow> Inl AttributeError
      | Some grp \<Rightarrow>
          (case league_get s (group_league_id grp) of
             None \<Rightarrow> Inl AttributeError
           | Some league \<Rightarrow>
               (case (team_get s (home_team_id f), team_get s (away_team_id f)) of
                  (Some home, Some away) \<Rightarrow>
                    Inr \<lparr>rv_id = fixture_pk f, rv_matchday = matchday f,
                         rv_kickoffAt = py_strftime (kickoff_at f), rv_score = score f,
                         rv_group = group_title grp, rv_leagueTitle = league_title league,
                         rv_homeTeam = team_name home, rv_awayTeam = team_name away\<rparr>
                | _ \<Rightarrow> Inl AttributeError)))"

text \<open>\<^verbatim>\<open>__parse_query_row\<close>: the row's columns go to the constructor with the
  \<^verbatim>\<open>datetime\<close> the driver returns, and the object is turned into a dict.\<close>

definition parse_query_row :: "db \<Rightarrow> fixture_result \<Rightarrow> result_view py_result" where
  "parse_query_row s row =
     (case fixture_result_init (group_id row) (home_team_id row) (away_team_id row) (matchday row)
             (KickoffTime (kickoff_at row)) (score row) (Some (fixture_pk row)) of
        Inl e \<Rightarrow> Inl e
      | Inr temp_fixture \<Rightarrow> to_result_dict s temp_fixture)"

fun parse_rows :: "db \<Rightarrow> fixture_result list \<Rightarrow> result_view list py_result" where
  "parse_rows s [] = Inr []"
| "parse_rows s (row # rows) =
     (case parse_query_row s row of
        Inl e \<Rightarrow> Inl e
      | Inr r \<Rightarrow> (case parse_rows s rows of Inl e \<Rightarrow> Inl e | Inr rs \<Rightarrow> Inr (r # rs)))"

type_synonym sql_exec = "string \<Rightarrow> fixture_result list option"

definition filter_results :: "db \<Rightarrow> sql_exec \<Rightarrow> filter_criteria option \<Rightarrow> result_view list" where
  "filter_results s exec filters_dict =
     (case filter_query filters_dict of
        Inl _ \<Rightarrow> []
      | Inr query \<Rightarrow>
          (case exec query of
             None \<Rightarrow> []
           | Some rows \<Rightarrow> (case parse_rows s rows of Inl _ \<Rightarrow> [] | Inr res \<Rightarrow> res)))"

subsection \<open>Properties of the filter\<close>

lemma filter_query_no_criteria: "filter_query None = Inr ''select * from fixture_results''"
  by (simp add: filter_query_def no_criteria_def json_get_def truthy_def)

text \<open>C36: A team criterion is pasted verbatim between quotes into the SQL text of
  \<^verbatim>\<open>filter_results\<close>, without escaping. A team name containing a quote therefore
  ends the literal and the rest of the name becomes SQL (injection). The specification
  requires parameterised predicates.\<close>

theorem filter_query_splices_team:
  assumes "json_get (fc_team c) = Some t" and "t \<noteq> []" and "filter_query (Some c) = Inr q"
  shows "sublist (''football_teams.team_name = '' @ [CHR 0x27] @ t @ [CHR 0x27]) q"
proof -
  have "\<exists>post. q = select_join @ team_clause t @ post"
    using assms by (auto simp: filter_query_def truthy_def Let_def split: if_splits sum.splits)
  then obtain post where "q = select_join @ team_clause t @ post" by blast
  then show ?thesis
    unfolding team_clause_def by (metis append.assoc sublist_appendI)
qed

text \<open>C37: With a group criterion but no team criterion, the SQL text starts with the
  join, then \<^verbatim>\<open>where  and league_groups.id\<close>. This is not valid SQL, so the
  engine rejects the query and \<^verbatim>\<open>filter_results\<close> returns no result.\<close>

theorem filter_query_where_and:
  assumes "\<not> truthy (json_get (fc_team c))" and "json_get (fc_group c) = Some g" and "g \<noteq> []"
    and "filter_query (Some c) = Inr q"
  shows "prefix (select_join @ '' and league_groups.id'') q \<and> sublist ''where  and'' q"
proof -
  have "\<exists>post. q = select_join @ group_clause g @ post"
    using assms by (auto simp: filter_query_def truthy_def Let_def split: if_splits sum.splits)
  then obtain post where q: "q = select_join @ group_clause g @ post" by blast
  have pre: "select_join = ''select fixture_results.id, matchday, kickoff_at, score, group_id, home_team_id, away_team_id from fixture_results, football_teams, league_groups '' @ ''where '' "
    by (simp add: select_join_def)
  have eq: "q = ''select fixture_results.id, matchday, kickoff_at, score, group_id, home_team_id, away_team_id from fixture_results, football_teams, league_groups '' @
      ''where  and'' @ '' league_groups.id = fixture_results.group_id '' @ ''and league_groups.title='' @
      [CHR 0x27] @ g @ [CHR 0x27] @ post"
    using q by (simp add: pre group_clause_def)
  have "sublist ''where  and'' q"
    unfolding eq by (rule sublist_appendI)
  moreover have "prefix (select_join @ '' and league_groups.id'') q"
    using q by (simp add: group_clause_def)
  ultimately show ?thesis by simp
qed

text \<open>C38: A \<^verbatim>\<open>date_from\<close> criterion that does not parse in the expected
  format makes \<^verbatim>\<open>filter_results\<close> return the empty list, whatever the database
  holds. The specification asks for a \<^verbatim>\<open>MalformedTimestampError\<close>.\<close>

theorem filter_bad_date_swallowed:
  assumes "json_get (fc_date_from c) = Some v" and "v \<noteq> []" and "isl (py_strptime v)"
  shows "filter_results s exec (Some c) = []"
  using assms by (auto simp: filter_results_def filter_query_def truthy_def date_clause_def Let_def isl_def
      split: sum.splits if_splits)


subsection \<open>Properties of result dicts\<close>

lemma to_result_dict_kickoff:
  "to_result_dict s f = Inr v \<Longrightarrow> rv_kickoffAt v = py_strftime (kickoff_at f)"
  by (auto simp: to_result_dict_def split: option.splits prod.splits)

text \<open>C21: The kickoff text that \<^verbatim>\<open>to_result_dict\<close> puts into a result dict
  (\<^verbatim>\<open>strftime\<close>) is parsed back by \<^verbatim>\<open>FixtureResult.__init__\<close>
  (\<^verbatim>\<open>strptime\<close>) to the stored kickoff: a result served by the API and posted
  again keeps its kickoff, for every valid timestamp with a four-digit year.\<close>

theorem result_dict_kickoff_roundtrip:
  assumes "to_result_dict s f = Inr v" and "valid_timestamp (kickoff_at f)" and "1000 \<le> fst (kickoff_at f)"
  shows "fixture_result_init gid home away md (KickoffText (rv_kickoffAt v)) sc rid =
           Inr \<lparr>fixture_pk = (case rid of Some i \<Rightarrow> i | None \<Rightarrow> 0), matchday = md,
                kickoff_at = kickoff_at f, score = sc, group_id = gid, home_team_id = home,
                away_team_id = away\<rparr>"
  using assms by (simp add: to_result_dict_kickoff strptime_strftime fixture_result_init_def)

end
