(* ===== verification/Routes.thy ===== *)
theory Routes
  imports ResultFilter
begin

text \<open>
  The HTTP layer: the routes of \<^verbatim>\<open>src/app/championship/routes.py\<close> and the
  decorator of \<^verbatim>\<open>wrappers.py\<close>. A response is either an \<^verbatim>\<open>abort(code)\<close>, a
  JSON body returned with status 200, or a message dict with its status (Flask
  answers 200 when a view returns a bare dict). \<^verbatim>\<open>request.json\<close> is \<open>None\<close>
  when the request has no JSON body. Otherwise it is the decoded value, of the type
  the view passes on. \<^verbatim>\<open>get_data\<close> first tries \<^verbatim>\<open>loads(request.json)\<close>. On a
  decoded list or dict this raises \<^verbatim>\<open>TypeError\<close>, which the method catches, so it
  returns \<^verbatim>\<open>request.json\<close>; that is \<open>get_data\<close>. A JSON body that is itself a
  string holding JSON, which the \<^verbatim>\<open>loads\<close> branch decodes a second time, is not
  modelled. Each view catches \<^verbatim>\<open>TypeError\<close> as "Bad JSON." with status 400, and
  every other exception as "Error occured." with status 200.
\<close>

datatype 'a response = Abort nat | Body 'a | Message string nat

definition get_data :: "'a option \<Rightarrow> 'a option" where
  "get_data request_json = request_json"

definition error_response :: "py_error \<Rightarrow> 'a response" where
  "error_response e = (if e = TypeError then Message ''Bad JSON.'' 400 else Message ''Error occured.'' 200)"

subsection \<open>\<^verbatim>\<open>wrappers.py\<close>\<close>

text \<open>\<^verbatim>\<open>extract_param_from_kwargs\<close>: the keyword arguments are a dict from names to
  strings, \<open>None\<close> when absent. \<^verbatim>\<open>kwargs['param_name']\<close> is read in every
  iteration and once more after the loop, so a dict without that key raises
  \<^verbatim>\<open>KeyError\<close> in every case.\<close>

definition extract_param_from_kwargs :: "(string, string) pydict option \<Rightarrow> string py_result" where
  "extract_param_from_kwargs kwargs =
     (case kwargs of
        None \<Rightarrow> Inl ValueError
      | Some kw \<Rightarrow>
          (case dict_get kw ''param_name'' of
             None \<Rightarrow> Inl KeyError
           | Some param_name \<Rightarrow>
               (case foldl (\<lambda>val key. if key = param_name then dict_get kw key else val) None
                       (dict_keys kw) of
                  None \<Rightarrow> Inl ValueError
                | Some v \<Rightarrow> Inr v)))"

text \<open>\<^verbatim>\<open>verify_mode\<close> applied to a view taking the URL parameter \<^verbatim>\<open>mode\<close>.\<close>

definition verify_mode :: "(string \<Rightarrow> 'a response) \<Rightarrow> string \<Rightarrow> 'a response py_result" where
  "verify_mode funct mode =
     (let kwargs = dict_set [(''mode'', mode)] ''param_name'' ''mode'' in
      case extract_param_from_kwargs (Some kwargs) of
        Inl e \<Rightarrow> Inl e
      | Inr m \<Rightarrow> Inr (if m \<notin> set [''all'', ''specific''] then Abort 404 else funct mode))"

subsection \<open>The views of \<^verbatim>\<open>routes.py\<close>\<close>

definition publish_fixture_result ::
  "db \<Rightarrow> set_iter \<Rightarrow> submission payload option \<Rightarrow> group_table one_or_many response \<times> db" where
  "publish_fixture_result s it request_json =
     (case request_json of
        None \<Rightarrow> (Abort 400, s)
      | Some _ \<Rightarrow>
          (case handle_fixture_results s it (the (get_data request_json)) of
             (Inl e, s') \<Rightarrow> (error_response e, s')
           | (Inr standings, s') \<Rightarrow> (Body standings, s')))"

definition get_tables_view ::
  "db \<Rightarrow> set_iter \<Rightarrow> target_group list option \<Rightarrow> string \<Rightarrow> group_table one_or_many response" where
  "get_tables_view s it request_json mode =
     (let data = (if mode = ''specific'' then get_data request_json else None) in
      case get_tabels_for_groups s it data of
        Inl e \<Rightarrow> error_response e
      | Inr standings \<Rightarrow> Body standings)"

definition get_tables :: "db \<Rightarrow> set_iter \<Rightarrow> target_group list option \<Rightarrow> string \<Rightarrow> group_table one_or_many response" where
  "get_tables s it request_json mode =
     (case verify_mode (get_tables_view s it request_json) mode of
        Inl e \<Rightarrow> Message ''Internal Server Error'' 500
      | Inr r \<Rightarrow> r)"

definition filter_results_view ::
  "db \<Rightarrow> sql_exec \<Rightarrow> filter_criteria option \<Rightarrow> result_view list response" where
  "filter_results_view s exec request_json = Body (filter_results s exec (get_data request_json))"

definition update_result :: "db \<Rightarrow> score_update payload option \<Rightarrow> unit response \<times> db" where
  "update_result s request_json =
     (case get_data request_json of
        None \<Rightarrow> (error_response AttributeError, s)
      | Some data \<Rightarrow> (Message ''Success.'' 200, update_fixture_results s data))"

subsection \<open>Properties of the HTTP layer\<close>

lemma verify_mode_eq:
  "verify_mode funct mode = Inr (if mode \<in> {''all'', ''specific''} then funct mode else Abort 404)"
  by (simp add: verify_mode_def extract_param_from_kwargs_def dict_keys_def dict_get_def)

lemma get_tables_mode:
  "get_tables s it request_json mode =
     (if mode \<in> {''all'', ''specific''} then get_tables_view s it request_json mode else Abort 404)"
  by (simp add: get_tables_def verify_mode_eq)

lemma publish_empty_batch:
  "set_iter_ok it \<Longrightarrow> publish_fixture_result s it (Some (Batch [])) = (Message ''Error occured.'' 200, s)"
  using set_iter_okD [of it "[]"]
  by (simp add: publish_fixture_result_def get_data_def handle_fixture_results_def payload_list_def
      error_response_def)

lemma update_result_no_body: "update_result s None = (Message ''Error occured.'' 200, s)"
  by (simp add: update_result_def get_data_def error_response_def)


text \<open>C22: The route \<^verbatim>\<open>/api/result/update\<close> answers "Success." with status 200
  even when no item of the body applies (no id, an unknown id or no score key). The
  database is then unchanged, so the caller cannot tell a request that did nothing from
  one that succeeded. The specification asks for a success or failure report per item.\<close>

theorem update_result_reports_success:
  assumes "\<forall>u \<in> set (payload_list data). \<not> update_applies s u"
  shows "update_result s (Some data) = (Message ''Success.'' 200, s)"
  using assms by (simp add: update_result_def get_data_def update_fixture_results_none_apply)

end
