(* ===== verification/Race.thy ===== *)
theory Race
  imports Catalog
begin

text \<open>
  Two requests running \<^verbatim>\<open>get_add_group\<close> or \<^verbatim>\<open>get_add_team\<close>
  (\<^verbatim>\<open>utils.py\<close> lines 54--76 and 98--113) at the same time. Each call makes two round
  trips to the database. The first is the \<^verbatim>\<open>SELECT\<close> of \<^verbatim>\<open>filter_by(...).first()\<close>.
  The second, when nothing was found, is the \<^verbatim>\<open>INSERT\<close> with its commit. Only
  these round trips are atomic, so a call is a thread of two steps, and the requests
  interleave them (\<open>race\<close>). \<^verbatim>\<open>league_groups\<close> has no unique constraint, so the
  insert of a group always succeeds. \<^verbatim>\<open>football_teams.team_name\<close> is
  \<^verbatim>\<open>unique=True\<close>. PostgreSQL then rejects an insert whose name is already
  present. \<^verbatim>\<open>get_add_team\<close> catches the \<^verbatim>\<open>IntegrityError\<close> and returns
  \<^verbatim>\<open>None\<close>. The rolled-back insert leaves the table unchanged, but the value it drew
  from the \<^verbatim>\<open>SERIAL\<close> sequence is not given back (\<^verbatim>\<open>nextval\<close> is not
  transactional), so \<open>team_seq\<close> still advances. A unique index
  does not compare NULLs, so NULL names are never rejected.
\<close>

datatype group_thread =
    GLookup sql_str int
  | GChecked "league_group option" sql_str int
  | GDone "league_group option"

datatype team_thread =
    TLookup sql_str
  | TChecked "football_team option" sql_str
  | TDone "football_team option"

definition group_step :: "group_thread \<Rightarrow> db \<Rightarrow> (group_thread \<times> db) option" where
  "group_step th s =
     (case th of
        GLookup t lid \<Rightarrow> Some (GChecked (group_by s t lid) t lid, s)
      | GChecked None t lid \<Rightarrow> (case insert_group s t lid of (g, s') \<Rightarrow> Some (GDone (Some g), s'))
      | GChecked (Some g) t lid \<Rightarrow> Some (GDone (Some g), s)
      | GDone _ \<Rightarrow> None)"

definition unique_violation :: "db \<Rightarrow> sql_str \<Rightarrow> bool" where
  "unique_violation s n \<longleftrightarrow> n \<noteq> None \<and> team_by_name s n \<noteq> None"

definition team_step :: "team_thread \<Rightarrow> db \<Rightarrow> (team_thread \<times> db) option" where
  "team_step th s =
     (case th of
        TLookup n \<Rightarrow> Some (TChecked (team_by_name s n) n, s)
      | TChecked None n \<Rightarrow>
          (if unique_violation s n then Some (TDone None, s\<lparr>team_seq := team_seq s + 1\<rparr>)
           else (case insert_team s n of (t, s') \<Rightarrow> Some (TDone (Some t), s')))
      | TChecked (Some t) n \<Rightarrow> Some (TDone (Some t), s)
      | TDone _ \<Rightarrow> None)"

text \<open>The interleavings of two threads of the same step function: at each point
  either thread may take its next step.\<close>

inductive race :: "('t \<Rightarrow> db \<Rightarrow> ('t \<times> db) option) \<Rightarrow> db \<times> 't \<times> 't \<Rightarrow> db \<times> 't \<times> 't \<Rightarrow> bool"
  for step :: "'t \<Rightarrow> db \<Rightarrow> ('t \<times> db) option" where
  race_refl: "race step c c"
| race_left: "step a s = Some (a', s') \<Longrightarrow> race step (s', a', b) c \<Longrightarrow> race step (s, a, b) c"
| race_right: "step b s = Some (b', s') \<Longrightarrow> race step (s', a, b') c \<Longrightarrow> race step (s, a, b) c"

definition team_names_ok :: "db \<Rightarrow> team_thread \<Rightarrow> team_thread \<Rightarrow> bool" where
  "team_names_ok s a b \<longleftrightarrow>
     distinct (map team_name (football_teams s)) \<and>
     (\<forall>th \<in> {a, b}. \<forall>n. th = TLookup n \<or> (\<exists>r. th = TChecked r n) \<longrightarrow> n \<noteq> None)"

subsection \<open>Interleavings\<close>

text \<open>The interleaving used below: both lookups first, then both writes.\<close>

lemma race_lookup_lookup_write_write:
  assumes "step a s = Some (a1, s)" and "step b s = Some (b1, s)"
    and "step a1 s = Some (a2, smid)" and "step b1 smid = Some (b2, sfin)"
  shows "race step (s, a, b) (sfin, a2, b2)"
  using assms by (meson race_left race_right race_refl)

text \<open>C39: Two concurrent requests resolving the same new group (title, league) can
  both miss it in their lookup and both insert it: the interleaving lookup, lookup,
  insert, insert ends with two groups of the same natural key, which breaks the catalog
  invariant. The specification requires resolve-or-create to survive this race.\<close>

theorem group_race_duplicates:
  assumes "group_by s t lid = None"
  shows "\<exists>s' g1 g2. race group_step (s, GLookup t lid, GLookup t lid) (s', GDone (Some g1), GDone (Some g2)) \<and>
           group_pk g1 \<noteq> group_pk g2 \<and>
           length (filter (\<lambda>g. (group_title g, group_league_id g) = (t, lid)) (league_groups s')) = 2"
proof -
  define s1 where "s1 = snd (insert_group s t lid)"
  define s2 where "s2 = snd (insert_group s1 t lid)"
  define g1 where "g1 = fst (insert_group s t lid)"
  define g2 where "g2 = fst (insert_group s1 t lid)"
  have r: "race group_step (s, GLookup t lid, GLookup t lid) (s2, GDone (Some g1), GDone (Some g2))"
    by (rule race_lookup_lookup_write_write [where smid = s1])
       (auto simp: group_step_def assms s1_def s2_def g1_def g2_def case_prod_beta)
  have "filter (\<lambda>g. (group_title g, group_league_id g) = (t, lid)) (league_groups s) = []"
    using assms by (simp add: group_by_def filter_empty_conv find_None_iff)
  then have "length (filter (\<lambda>g. (group_title g, group_league_id g) = (t, lid)) (league_groups s2)) = 2"
    by (simp add: s2_def s1_def insert_group_def Let_def)
  moreover have "group_pk g1 \<noteq> group_pk g2"
    by (simp add: g1_def g2_def s1_def insert_group_def Let_def)
  ultimately show ?thesis using r by blast
qed

lemma team_names_ok_sym: "team_names_ok s a b = team_names_ok s b a"
  by (auto simp: team_names_ok_def)

lemma team_step_names_ok:
  assumes "team_step a s = Some (a', s')" and "team_names_ok s a b"
  shows "team_names_ok s' a' b"
proof (cases a)
  case (TLookup n)
  with assms show ?thesis by (auto simp: team_step_def team_names_ok_def)
next
  case (TChecked r n)
  show ?thesis
  proof (cases r)
    case None
    show ?thesis
    proof (cases "unique_violation s n")
      case True
      with assms TChecked None show ?thesis by (auto simp: team_step_def team_names_ok_def)
    next
      case False
      have "n \<noteq> None" using assms(2) TChecked by (auto simp: team_names_ok_def)
      with False have "n \<notin> set (map team_name (football_teams s))"
        by (auto simp: unique_violation_def team_by_name_def find_None_iff)
      with assms TChecked None False show ?thesis
        by (auto simp: team_step_def team_names_ok_def insert_team_def Let_def)
    qed
  next
    case (Some t)
    with assms TChecked show ?thesis by (auto simp: team_step_def team_names_ok_def)
  qed
next
  case (TDone r)
  with assms show ?thesis by (simp add: team_step_def)
qed

lemma team_race_names_ok:
  "race team_step c c' \<Longrightarrow> team_names_ok (fst c) (fst (snd c)) (snd (snd c)) \<Longrightarrow>
   team_names_ok (fst c') (fst (snd c')) (snd (snd c'))"
proof (induction rule: race.induct)
  case (race_refl c)
  then show ?case .
next
  case (race_left a s a' s' b c)
  then show ?case using team_step_names_ok by simp
next
  case (race_right b s b' s' a c)
  then show ?case using team_step_names_ok [of b s b' s' a] team_names_ok_sym by simp
qed

text \<open>C40: For teams the unique constraint on \<^verbatim>\<open>team_name\<close> keeps names distinct
  in every interleaving of two requests resolving the same name. The request that
  loses the race gets \<^verbatim>\<open>None\<close> back instead of the team (the specification asks
  for a re-fetch). Two requests resolving a missing (NULL) name both insert one, since
  the index does not compare NULLs.\<close>

theorem team_race:
  assumes "distinct (map team_name (football_teams s))" and "team_by_name s (Some x) = None"
    and "team_by_name s None = None"
  shows "(\<forall>c. race team_step (s, TLookup (Some x), TLookup (Some x)) c \<longrightarrow>
            distinct (map team_name (football_teams (fst c)))) \<and>
         (\<exists>s' t. race team_step (s, TLookup (Some x), TLookup (Some x)) (s', TDone (Some t), TDone None)) \<and>
         (\<exists>s' t1 t2. race team_step (s, TLookup None, TLookup None) (s', TDone (Some t1), TDone (Some t2)) \<and>
            \<not> distinct (map team_name (football_teams s')))"
proof (intro conjI allI impI)
  fix c
  assume "race team_step (s, TLookup (Some x), TLookup (Some x)) c"
  moreover have "team_names_ok s (TLookup (Some x)) (TLookup (Some x))"
    using assms(1) by (simp add: team_names_ok_def)
  ultimately show "distinct (map team_name (football_teams (fst c)))"
    using team_race_names_ok by (fastforce simp: team_names_ok_def)
next
  define s1 where "s1 = snd (insert_team s (Some x))"
  define t where "t = fst (insert_team s (Some x))"
  have v: "team_by_name s1 (Some x) \<noteq> None"
    using assms(2) by (simp add: s1_def insert_team_def team_by_name_def Let_def)
  have "race team_step (s, TLookup (Some x), TLookup (Some x))
      (s1\<lparr>team_seq := team_seq s1 + 1\<rparr>, TDone (Some t), TDone None)"
    by (rule race_lookup_lookup_write_write [where smid = s1])
       (auto simp: team_step_def v [unfolded s1_def] assms(2) s1_def t_def case_prod_beta unique_violation_def)
  then show "\<exists>s' t. race team_step (s, TLookup (Some x), TLookup (Some x)) (s', TDone (Some t), TDone None)"
    by blast
next
  define s1 where "s1 = snd (insert_team s None)"
  define s2 where "s2 = snd (insert_team s1 None)"
  define t1 where "t1 = fst (insert_team s None)"
  define t2 where "t2 = fst (insert_team s1 None)"
  have r: "race team_step (s, TLookup None, TLookup None) (s2, TDone (Some t1), TDone (Some t2))"
    by (rule race_lookup_lookup_write_write [where smid = s1])
       (auto simp: team_step_def unique_violation_def assms(3) s1_def s2_def t1_def t2_def case_prod_beta)
  have "\<not> distinct (map team_name (football_teams s2))"
    by (simp add: s2_def s1_def insert_team_def Let_def)
  with r show "\<exists>s' t1 t2. race team_step (s, TLookup None, TLookup None) (s', TDone (Some t1), TDone (Some t2)) \<and>
      \<not> distinct (map team_name (football_teams s'))" by blast
qed

end
