(* ===== verification/Spec2Isabelle.thy ===== *)
theory Spec2Isabelle
  imports Prelude PyBuiltins Models Catalog Standings Timestamp Workflows ResultFilter Routes Race
begin

text \<open>
  \<^bold>\<open>Championship: a verification development of the standings service.\<close>

  The repository (\<^verbatim>\<open>src/app\<close>) is a Flask/SQLAlchemy service that stores football
  results and derives league tables from them. Its logic is the class
  \<^verbatim>\<open>ChampionshipDataUtil\<close> of \<^verbatim>\<open>src/app/championship/utils.py\<close>. Its data are
  the models of \<^verbatim>\<open>models.py\<close>. The routes of \<^verbatim>\<open>routes.py\<close> and the decorator of
  \<^verbatim>\<open>wrappers.py\<close> call the class methods. The parts interact as follows: the
  ingestion workflow (\<^verbatim>\<open>handle_fixture_results\<close>, \<^verbatim>\<open>add_fixture_result\<close>)
  resolves or creates leagues, groups and teams through the entity catalog
  (\<^verbatim>\<open>get_add_*\<close>), stores results, and then asks the standings aggregator
  (\<^verbatim>\<open>__gen_standing_table\<close>) for the table of every touched group. The aggregator
  reads the group's results back from the database.

  \<^bold>\<open>Theories and what they model.\<close>
  \<^item> \<open>Prelude\<close>: Python exceptions as the datatype \<open>py_error\<close>, results that may
    raise as \<open>py_error + 'a\<close>, dicts as insertion-ordered association lists
    (\<open>dict_get\<close>, \<open>dict_set\<close>, and \<open>dict_modify\<close> for in-place mutation of an
    entry), and the fact that CPython's \<^verbatim>\<open>sort(reverse=True)\<close> is a stable sort by
    the reversed key (\<open>rev_sort_key_rev\<close>).
  \<^item> \<open>PyBuiltins\<close>: \<^verbatim>\<open>str.split\<close>, \<^verbatim>\<open>int(str)\<close>, \<^verbatim>\<open>str(int)\<close> and indexing,
    modelled from CPython's behaviour (they are library code, not repository code).
  \<^item> \<open>Models\<close>: the tables \<^verbatim>\<open>League\<close>, \<^verbatim>\<open>LeagueGroup\<close>, \<^verbatim>\<open>FootballTeam\<close>,
    \<^verbatim>\<open>FixtureResult\<close> and the class \<^verbatim>\<open>StandingsRow\<close> as records, with its
    comparison operators (\<open>row_lt\<close>, \<open>row_gt\<close>, \<open>row_eq\<close>) and
    \<^verbatim>\<open>to_result_dict\<close> (\<open>row_to_result_dict\<close>).
  \<^item> \<open>Catalog\<close>: the database as the record \<open>db\<close> (one list per table plus the
    SERIAL sequences), the SQLAlchemy queries used (\<open>league_by_title\<close>,
    \<open>group_get\<close>, ...), and the catalog methods \<open>get_add_league\<close>,
    \<open>get_league\<close>, \<open>get_add_group\<close>, \<open>get_group\<close>, \<open>get_add_team\<close>
    (\<^verbatim>\<open>utils.py\<close> 14--113). \<open>catalog_inv\<close> is the consistency invariant, and
    \<open>catalog_reach\<close> is the inductive set of states the catalog operations reach.
  \<^item> \<open>Standings\<close>: \<^verbatim>\<open>__create_standings_dict\<close> (\<open>create_standings_dict\<close>),
    \<^verbatim>\<open>__parse_result\<close> (\<open>parse_score\<close>, \<open>parse_result\<close>), the loop of
    \<^verbatim>\<open>__gen_standing_table\<close> (\<open>populate\<close>), \<^verbatim>\<open>__get_sorted_stangings_as_list\<close>
    (\<open>py_sort_reverse\<close>, \<open>assign_ranks\<close>) and \<^verbatim>\<open>__gen_standing_table\<close>
    (\<open>gen_standing_table\<close>), \<^verbatim>\<open>utils.py\<close> 190--317. Next to them is the
    abstract specification: \<open>team_stats\<close> aggregates one team's matches and
    \<open>standings_spec\<close> is the ranked table it yields. \<open>gen_standing_table_Inr_iff\<close>
    is the refinement lemma: the code returns a table exactly when every team exists,
    every result has a matchday and a well-formed score, and the group and its league
    exist. The table it returns is then the specification's table.
  \<^item> \<open>Timestamp\<close>: CPython's \<^verbatim>\<open>datetime.strptime\<close> for the format
    \<^verbatim>\<open>'%Y-%m-%dT%H:%M:%S'\<close>. The compiled regular expression is a list of
    literals and groups of ordered alternatives (\<open>strptime_items\<close>). It is matched
    with backtracking and without an end anchor (\<open>match_items\<close>, \<open>first_alt\<close>).
    Then come the check for unconverted text and the \<^verbatim>\<open>datetime\<close> range checks
    (\<open>py_strptime\<close>). \<open>py_strftime\<close> is \<^verbatim>\<open>strftime\<close> in the same format.
  \<^item> \<open>Workflows\<close>: \<^verbatim>\<open>FixtureResult.__init__\<close>
    (\<open>fixture_result_init\<close>), \<^verbatim>\<open>add_fixture_result\<close>,
    \<^verbatim>\<open>update_fixture_result\<close> and \<^verbatim>\<open>update_fixture_results\<close>,
    \<^verbatim>\<open>handle_fixture_results\<close> (\<open>ingest_loop\<close>, \<open>gen_tables\<close>) and
    \<^verbatim>\<open>get_tabels_for_groups\<close> (\<open>target_groups_loop\<close>); \<^verbatim>\<open>utils.py\<close>
    115--188 and 319--393. A JSON body is a record of \<open>json_field\<close>s: absent,
    \<^verbatim>\<open>null\<close> or a value. \<^verbatim>\<open>d.get(k)\<close> and \<^verbatim>\<open>d[k]\<close> are \<open>json_get\<close>
    and \<open>json_index\<close>. A workflow returns its exception or value together with the
    database after the call. \<open>app_reach\<close> is the inductive set of states reached
    from the empty database through the two writing endpoints, in any order.
  \<^item> \<open>ResultFilter\<close>: \<^verbatim>\<open>filter_results\<close>. \<open>filter_query\<close> builds the
    SQL text from the four optional criteria exactly as the code concatenates it.
    Rows become result dicts through \<open>parse_query_row\<close> and
    \<open>FixtureResult.to_result_dict\<close> (\<open>to_result_dict\<close>), and every exception
    gives \<^verbatim>\<open>[]\<close>. The database engine is a parameter \<open>exec\<close> from SQL text to
    the rows it selects, or \<open>None\<close> when it rejects the text. The claims are
    therefore about the text the code sends, not about SQL semantics.
  \<^item> \<open>Routes\<close>: the four views of \<^verbatim>\<open>routes.py\<close> and the decorator
    \<^verbatim>\<open>verify_mode\<close> with \<^verbatim>\<open>extract_param_from_kwargs\<close> of \<^verbatim>\<open>wrappers.py\<close>.
    Each view maps the database and the decoded JSON body to a response and the new
    database. \<open>verify_mode_eq\<close> shows that the decorator aborts with 404 unless the
    mode is \<^verbatim>\<open>all\<close> or \<^verbatim>\<open>specific\<close>. \<open>publish_empty_batch\<close> shows that an
    empty batch is answered "Error occured." with status 200, and C22 that the update
    route reports success whatever its items did.
  \<^item> \<open>Race\<close>: \<^verbatim>\<open>get_add_group\<close> and \<^verbatim>\<open>get_add_team\<close> split into
    their two database round trips (\<open>group_step\<close>, \<open>team_step\<close>): the lookup,
    then the insert with its commit. \<open>race\<close> is the inductive relation of all
    interleavings of two requests. The unique index on team names is the check
    \<open>unique_violation\<close>. PostgreSQL does not apply it to NULL. A rejected insert
    still consumes its value of the team sequence.

  \<^bold>\<open>Modelling choices.\<close> Python ints are \<open>int\<close>. A nullable column or a JSON field
  read with \<^verbatim>\<open>.get\<close> is an \<open>option\<close>. An exception is an \<open>Inl\<close>. The iteration
  order of a Python \<^verbatim>\<open>set\<close> is a parameter \<open>it\<close>, constrained only by
  \<open>set_iter_ok\<close> (duplicate-free and complete), because CPython's order is an artefact
  of hashing. Every loop of the code runs over a finite list, so every definition is
  structurally recursive. The one exception is the backtracking matcher of
  \<open>Timestamp\<close>, whose termination \<^theory_text>\<open>fun\<close> proves by a lexicographic
  measure (items left, then alternatives left). No fuel is needed, and "the table is
  returned" is proved as such (C11). Database failures are not modelled. Each \<^verbatim>\<open>try\<close> of the catalog
  therefore returns normally.

  \<^bold>\<open>What the lemmas show.\<close> C1--C11 are the aggregator's contract:
  consistency of every row, order, ranks, one row per team, matchday, point totals,
  independence of row order, abort on malformed scores, and success. C1 and C6 expose
  a bug: an away win is counted as a draw. The branch of \<^verbatim>\<open>__parse_result\<close>
  meant for it tests \<^verbatim>\<open>away_score < home_score\<close>, which repeats the home-win test.
  C12 is the specification's example table. C13--C15 are the score parser: round trip,
  errors, and acceptance of extra fields. C16 and C17 are the sort and the comparison
  operators. C18--C20 are the catalog: idempotent resolve-or-create, one record per
  natural key, and the invariant of all reachable states (by rule induction).

  C21 is the kickoff round trip: the text \<^verbatim>\<open>to_result_dict\<close> prints with
  \<^verbatim>\<open>strftime\<close> is parsed back by \<^verbatim>\<open>FixtureResult.__init__\<close> to the stored
  kickoff (the library lemma \<open>strptime_strftime\<close> of \<open>Timestamp\<close> carries it).
  C22 is the update route: it answers "Success." also when no item of the body
  applies, and the database is then unchanged. C23--C33 are the workflows:
  \<^item> C23 and C24: what \<^verbatim>\<open>add_fixture_result\<close> stores. It silently drops a
    malformed submission but keeps the entities that submission created.
  \<^item> C25: the catalog invariant holds for every state reachable through the endpoints.
  \<^item> C26--C28: updates change only the score, failing items are no-ops, and the last
    writer wins.
  \<^item> C29--C31: \<^verbatim>\<open>handle_fixture_results\<close>. It never unwraps a single table
    (the test \<^verbatim>\<open>len(standing) == 1\<close> reads the wrong variable). It raises
    \<^verbatim>\<open>UnboundLocalError\<close> on an empty batch. It returns one table per touched
    group.
  \<^item> C32 and C33: \<^verbatim>\<open>get_tabels_for_groups\<close> skips unknown groups and unwraps
    a single table.
  C34 and C35 span the workflows and the aggregator:
  \<^item> C34: an update to a malformed score breaks every later table request for all groups.
  \<^item> C35: publishing the example's two results end to end gives the example's
    database and table.

  C36--C38 are the filter: the team name is pasted into the SQL text without escaping;
  a group criterion without a team criterion yields the malformed
  \<^verbatim>\<open>where  and\<close>; and a malformed date is answered with an empty list.
  C39 and C40 are the interleavings. Two requests for a new group both insert it,
  which gives a duplicate natural key. For teams the unique index keeps names
  distinct, but the request that loses the race gets \<^verbatim>\<open>None\<close>, and NULL names
  are duplicated.

  \<^bold>\<open>Not modelled.\<close>
  \<^item> The SQL semantics of the filter's text. The engine is a parameter.
  \<^item> Database failures other than the unique-constraint violation of
    \<open>Race\<close>. Interleavings other than two requests resolving the same entity.
    The failed-session state SQLAlchemy keeps after an \<^verbatim>\<open>IntegrityError\<close>.
  \<^item> JSON values of a type other than the one the code expects (e.g. a matchday sent
    as a string), a JSON body that is a string of JSON, and \<^verbatim>\<open>dumps\<close>.
  \<^item> Configuration (\<^verbatim>\<open>config/dev.py\<close>), the app factory (\<^verbatim>\<open>app/__init__.py\<close>)
    and the HTTP tests: they only wire the parts together and hold no logic.
\<close>

subsection \<open>The example of the specification\<close>


definition fixture_A_B :: fixture_result where
  "fixture_A_B = \<lparr>fixture_pk = 1, matchday = Some 1, kickoff_at = (2017, 9, 13, 20, 45, 0),
     score = Some ''3:1'', group_id = 1, home_team_id = 1, away_team_id = 2\<rparr>"

definition fixture_B_A :: fixture_result where
  "fixture_B_A = \<lparr>fixture_pk = 2, matchday = Some 2, kickoff_at = (2017, 9, 20, 20, 45, 0),
     score = Some ''2:2'', group_id = 1, home_team_id = 2, away_team_id = 1\<rparr>"

definition scenario_db :: db where
  "scenario_db =
     \<lparr>leagues = [\<lparr>league_pk = 1, league_title = Some ''Champions League''\<rparr>],
      league_groups = [\<lparr>group_pk = 1, group_title = Some ''A'', group_league_id = 1\<rparr>],
      football_teams = [\<lparr>team_pk = 1, team_name = Some ''A''\<rparr>, \<lparr>team_pk = 2, team_name = Some ''B''\<rparr>],
      fixture_results = [fixture_A_B, fixture_B_A],
      league_seq = 1, group_seq = 1, team_seq = 2, fixture_seq = 2\<rparr>"

definition scenario_table :: group_table where
  "scenario_table =
     \<lparr>gt_leagueTitle = Some ''Champions League'', gt_matchday = 2, gt_group = Some ''A'',
      gt_standing =
        [\<lparr>sd_rank = 1, sd_team = Some ''A'', sd_playedGames = 2, sd_points = 4, sd_goals = 5,
          sd_goalsAgainst = 3, sd_goalDifference = 2, sd_win = 1, sd_lose = 0, sd_draw = 1\<rparr>,
         \<lparr>sd_rank = 2, sd_team = Some ''B'', sd_playedGames = 2, sd_points = 1, sd_goals = 3,
          sd_goalsAgainst = 5, sd_goalDifference = -2, sd_win = 0, sd_lose = 1, sd_draw = 1\<rparr>]\<rparr>"

definition bad_score_db :: db where
  "bad_score_db = scenario_db\<lparr>fixture_results := [fixture_A_B, fixture_B_A\<lparr>score := Some ''2-2''\<rparr>]\<rparr>"

definition two_rows :: standings_dict where
  "two_rows = [(1, new_standings_row (Some ''A'')), (2, new_standings_row (Some ''B''))]"

definition away_win :: fixture_result where
  "away_win = fixture_A_B\<lparr>score := Some ''0:2''\<rparr>"

text \<open>The same two results as submissions to the publishing endpoint, with faulty variants.\<close>

definition sub_A_B :: submission where
  "sub_A_B = \<lparr>sub_homeTeam = Present ''A'', sub_awayTeam = Present ''B'',
     sub_leagueTitle = Present ''Champions League'', sub_group = Present ''A'', sub_matchday = Present 1,
     sub_kickoffAt = Present ''2017-09-13T20:45:00'', sub_score = Present ''3:1''\<rparr>"

definition sub_B_A :: submission where
  "sub_B_A = \<lparr>sub_homeTeam = Present ''B'', sub_awayTeam = Present ''A'',
     sub_leagueTitle = Present ''Champions League'', sub_group = Present ''A'', sub_matchday = Present 2,
     sub_kickoffAt = Present ''2017-09-20T20:45:00'', sub_score = Present ''2:2''\<rparr>"

definition sub_no_score :: submission where
  "sub_no_score = sub_A_B\<lparr>sub_score := Missing\<rparr>"

definition upd_draw :: score_update where
  "upd_draw = \<lparr>upd_id = Present 1, upd_score = Present ''1:1''\<rparr>"

definition upd_dash :: score_update where
  "upd_dash = \<lparr>upd_id = Present 1, upd_score = Present ''3-1''\<rparr>"

definition tg_unknown :: target_group where
  "tg_unknown = \<lparr>tg_leagueName = Present ''Europa League'', tg_group = Present ''A''\<rparr>"

text \<open>Filter criteria: a team name carrying a quote, a group alone, a date in another format.\<close>

definition upd_unknown :: score_update where
  "upd_unknown = \<lparr>upd_id = Present 7, upd_score = Present ''1:1''\<rparr>"

definition quote_team :: string where
  "quote_team = ''x'' @ [CHR 0x27] @ '' or 1=1 --''"

definition crit_quote :: filter_criteria where
  "crit_quote = no_criteria\<lparr>fc_team := Present quote_team\<rparr>"

definition crit_group :: filter_criteria where
  "crit_group = no_criteria\<lparr>fc_group := Present ''A''\<rparr>"

definition crit_bad_date :: filter_criteria where
  "crit_bad_date = no_criteria\<lparr>fc_date_from := Present ''13/09/2017''\<rparr>"

lemma set_iter_ok_remdups: "set_iter_ok remdups"
  by (simp add: set_iter_ok_def)

lemma set_iter_ok_rev_remdups: "set_iter_ok (\<lambda>xs. rev (remdups xs))"
  by (simp add: set_iter_ok_def)

lemma scenario_eval: "gen_standing_table scenario_db remdups 1 = Inr scenario_table"
  by code_simp

lemma scenario_eval_rev: "gen_standing_table scenario_db (\<lambda>xs. rev (remdups xs)) 1 = Inr scenario_table"
  by code_simp

lemma gen_standing_table_iter_cong:
  "it (fixture_team_ids (fixtures_of_group s gid)) = it' (fixture_team_ids (fixtures_of_group s gid)) \<Longrightarrow>
   gen_standing_table s it gid = gen_standing_table s it' gid"
  by (simp add: gen_standing_table_def create_standings_dict_def)

lemma distinct_two: "distinct xs \<Longrightarrow> set xs = {a, b} \<Longrightarrow> a \<noteq> b \<Longrightarrow> xs = [a, b] \<or> xs = [b, a]"
proof -
  assume d: "distinct xs" and s: "set xs = {a, b}" and ab: "a \<noteq> b"
  then have "length xs = 2" using distinct_card [OF d] by (simp add: card_insert_if)
  then obtain x y where "xs = [x, y]" by (metis (no_types) length_0_conv length_Suc_conv numeral_2_eq_2)
  with d s ab show ?thesis by auto
qed

lemma scenario_table_cases:
  assumes "set_iter_ok it"
  shows "gen_standing_table scenario_db it 1 = gen_standing_table scenario_db remdups 1 \<or>
         gen_standing_table scenario_db it 1 = gen_standing_table scenario_db (\<lambda>xs. rev (remdups xs)) 1"
proof -
  have ids: "fixture_team_ids (fixtures_of_group scenario_db 1) = [1, 2, 2, 1]"
    by code_simp
  have "it [1, 2, 2, 1] = [1, 2] \<or> it [1, 2, 2, 1] = [2, 1]"
    using set_iter_okD [OF assms, of "[1, 2, 2, 1]"] by (intro distinct_two) auto
  then show ?thesis
  proof
    assume "it [1, 2, 2, 1] = [2, 1]"
    then have "gen_standing_table scenario_db it 1 = gen_standing_table scenario_db remdups 1"
      using ids by (intro gen_standing_table_iter_cong) simp
    then show ?thesis ..
  next
    assume "it [1, 2, 2, 1] = [1, 2]"
    then have "gen_standing_table scenario_db it 1 = gen_standing_table scenario_db (\<lambda>xs. rev (remdups xs)) 1"
      using ids by (intro gen_standing_table_iter_cong) simp
    then show ?thesis ..
  qed
qed

lemma distinct_one: "distinct xs \<Longrightarrow> set xs = {a} \<Longrightarrow> xs = [a]"
  by (cases xs) (auto simp: subset_singleton_iff)

text \<open>C12: The example of the specification: a group with the results A 3:1 B on
  matchday 1 and B 2:2 A on matchday 2 yields matchday 2, A first with 4 points, 5:3
  goals, one win and one draw, and B second with 1 point, 3:5 goals, one draw and one
  loss. This holds for every iteration order of the set of team ids.\<close>

theorem scenario_standings:
  assumes "set_iter_ok it"
  shows "gen_standing_table scenario_db it 1 = Inr scenario_table"
  using scenario_table_cases [OF assms] scenario_eval scenario_eval_rev by auto

subsection \<open>Properties across the workflows and the aggregator\<close>

text \<open>C34: The update workflow stores any string as a score. After an update of a result
  to a score that \<^verbatim>\<open>__parse_score\<close> rejects, the table of that result's group can no
  longer be computed, and neither can the tables of \<^verbatim>\<open>/api/table/all\<close>, which fail
  as a whole: one malformed update breaks the retrieval of every table.\<close>

theorem bad_score_update_breaks_tables:
  assumes "catalog_inv s" and "fixture_get s i = Some f" and "upd_score u = Present sc"
    and "isl (parse_score (Some sc))"
  shows "(\<exists>e. gen_standing_table (snd (update_fixture_result s (Some i) u)) it (group_id f) = Inl e) \<and>
         (\<exists>e. get_tabels_for_groups (snd (update_fixture_result s (Some i) u)) it None = Inl e)"
proof -
  let ?s' = "set_score s i (Some sc)"
  have s': "snd (update_fixture_result s (Some i) u) = ?s'"
    using assms(2,3) fixture_get_Some_pk [OF assms(2)]
    by (simp add: update_fixture_result_def json_index_def)
  have "f \<in> set (fixture_results s)" and pk: "fixture_pk f = i"
    using assms(2) by (auto simp: fixture_get_def dest: find_Some_in)
  then have "f\<lparr>score := Some sc\<rparr> \<in> set (fixtures_of_group ?s' (group_id f))"
    by (force simp: fixtures_of_group_def set_score_fields)
  moreover have "\<not> score_ok (f\<lparr>score := Some sc\<rparr>)"
    using assms(4) by (cases "parse_score (Some sc)") (simp_all add: score_ok_def)
  ultimately have bad: "\<exists>e. gen_standing_table ?s' it (group_id f) = Inl e"
    using gen_standing_table_score_ok by (metis sum.exhaust)
  have "group_get s (group_id f) \<noteq> None"
    using assms(1) \<open>f \<in> set (fixture_results s)\<close> by (simp add: catalog_inv_def)
  then obtain g where "g \<in> set (league_groups ?s')" "group_pk g = group_id f"
    by (auto simp: group_get_def set_score_fields find_None_iff)
  moreover from bad \<open>group_pk g = group_id f\<close>
  have "\<exists>e. gen_standing_table ?s' it (group_pk g) = Inl e" by simp
  ultimately have "\<exists>e. gen_tables ?s' it (map group_pk (league_groups ?s')) = Inl e"
    unfolding gen_tables_Inl_iff set_map by blast
  then show ?thesis
    using bad s' by (auto simp: get_tabels_for_groups_def)
qed

text \<open>C35: End to end, publishing the two results of the example of the specification to
  an empty database stores exactly the database \<open>scenario_db\<close> (one league, one group,
  two teams, two results with ids 1 and 2) and returns the example's table, inside a
  list, for every iteration order of the sets involved.\<close>

theorem publish_scenario:
  assumes "set_iter_ok it"
  shows "handle_fixture_results empty_db it (Batch [sub_A_B, sub_B_A]) = (Inr (Many [scenario_table]), scenario_db)"
proof -
  have l: "ingest_loop empty_db [sub_A_B, sub_B_A] [] = ([1, 1], scenario_db)"
    by code_simp
  have "it [1, 1] = [1]"
    using set_iter_okD [OF assms, of "[1, 1]"] by (intro distinct_one) auto
  moreover have "gen_standing_table scenario_db it 1 = Inr scenario_table"
    using scenario_table_cases [OF assms] scenario_eval scenario_eval_rev by auto
  ultimately show ?thesis
    by (simp add: handle_fixture_results_def payload_list_def l group_table_keys_def del: ingest_loop.simps)
qed

subsection \<open>Witnesses\<close>

theorem scenario_standings_witness:
  "set_iter_ok remdups \<and> gen_standing_table scenario_db remdups 1 = Inr scenario_table"
  using scenario_standings [OF set_iter_ok_remdups] set_iter_ok_remdups by simp

lemma away_win_eval: "parse_result two_rows away_win = Inr (projr (parse_result two_rows away_win))"
  by code_simp

theorem away_win_recorded_as_draw_witness:
  "home_team_id away_win \<noteq> away_team_id away_win \<and>
   dict_get two_rows 1 = Some (new_standings_row (Some ''A'')) \<and>
   dict_get two_rows 2 = Some (new_standings_row (Some ''B'')) \<and>
   parse_score (score away_win) = Inr (0, 2) \<and> (0::int) < 2 \<and>
   dict_get (projr (parse_result two_rows away_win)) 1 =
     Some (add_goals 0 2 (add_draw (add_points 1 (new_standings_row (Some ''A''))))) \<and>
   dict_get (projr (parse_result two_rows away_win)) 2 =
     Some (add_goals 2 0 (add_draw (add_points 1 (new_standings_row (Some ''B'')))))"
proof -
  have h: "home_team_id away_win \<noteq> away_team_id away_win"
    "dict_get two_rows (home_team_id away_win) = Some (new_standings_row (Some ''A''))"
    "dict_get two_rows (away_team_id away_win) = Some (new_standings_row (Some ''B''))"
    "parse_score (score away_win) = Inr (0, 2)"
    by code_simp+
  have "home_team_id away_win = 1" "away_team_id away_win = 2" by code_simp+
  with away_win_recorded_as_draw [OF h, of "projr (parse_result two_rows away_win)"] away_win_eval h
  show ?thesis by simp
qed

theorem parse_result_follows_rule_witness:
  "1 \<in> set (dict_keys two_rows) \<and> 2 \<in> set (dict_keys two_rows) \<and>
   parse_score (score fixture_A_B) = Inr (3, 1) \<and> \<not> (3::int) < 1 \<and>
   parse_result two_rows fixture_A_B =
     Inr (map (\<lambda>(k, v). (k, (if k = 2 then result_delta 1 3 else id)
                            ((if k = 1 then result_delta 3 1 else id) v))) two_rows)"
proof -
  have h: "home_team_id fixture_A_B \<in> set (dict_keys two_rows)"
    "away_team_id fixture_A_B \<in> set (dict_keys two_rows)"
    "parse_score (score fixture_A_B) = Inr (3, 1)" "\<not> (3::int) < 1"
    by code_simp+
  have "home_team_id fixture_A_B = 1" "away_team_id fixture_A_B = 2" by code_simp+
  with parse_result_follows_rule_unless_away_win [OF h] h show ?thesis by simp
qed

lemmas scenario_facts = set_iter_ok_remdups scenario_eval

theorem table_rows_consistent_witness:
  "set_iter_ok remdups \<and> gen_standing_table scenario_db remdups 1 = Inr scenario_table \<and>
   standing_ok (gt_standing scenario_table ! 0) \<and> standing_ok (gt_standing scenario_table ! 1)"
  using table_rows_consistent [OF scenario_facts] scenario_facts by (simp add: scenario_table_def)

theorem table_sorted_desc_witness:
  "set_iter_ok remdups \<and> gen_standing_table scenario_db remdups 1 = Inr scenario_table \<and>
   sorted (map (\<lambda>r. (- sd_points r, - sd_goalDifference r)) (gt_standing scenario_table))"
  using table_sorted_desc [OF scenario_facts] scenario_facts by simp

theorem table_ranks_sequential_witness:
  "set_iter_ok remdups \<and> gen_standing_table scenario_db remdups 1 = Inr scenario_table \<and>
   map sd_rank (gt_standing scenario_table) = [1..int (length (gt_standing scenario_table))]"
  using table_ranks_sequential [OF scenario_facts] scenario_facts by simp

theorem table_points_total_witness:
  "set_iter_ok remdups \<and> gen_standing_table scenario_db remdups 1 = Inr scenario_table \<and>
   sum_list (map sd_points (gt_standing scenario_table)) =
     sum_list (map match_points (fixtures_of_group scenario_db 1))"
  using table_points_total [OF scenario_facts] scenario_facts by simp

theorem table_deterministic_witness:
  "set_iter_ok remdups \<and> set_iter_ok (\<lambda>xs. rev (remdups xs)) \<and>
   football_teams scenario_db = football_teams scenario_db \<and>
   mset (fixtures_of_group scenario_db 1) = mset (fixtures_of_group scenario_db 1) \<and>
   gen_standing_table scenario_db remdups 1 = Inr scenario_table \<and>
   gen_standing_table scenario_db (\<lambda>xs. rev (remdups xs)) 1 = Inr scenario_table \<and>
   gt_matchday scenario_table = gt_matchday scenario_table"
  using table_deterministic [OF set_iter_ok_remdups set_iter_ok_rev_remdups refl refl scenario_eval
      scenario_eval_rev] set_iter_ok_remdups set_iter_ok_rev_remdups scenario_eval scenario_eval_rev
  by simp

theorem table_one_row_per_team_witness:
  "set_iter_ok remdups \<and> gen_standing_table scenario_db remdups 1 = Inr scenario_table \<and>
   mset (map sd_team (gt_standing scenario_table)) =
     image_mset (\<lambda>i. team (team_initial_row scenario_db i))
       (mset_set (set (fixture_team_ids (fixtures_of_group scenario_db 1))))"
  using table_one_row_per_team [OF scenario_facts] scenario_facts by simp

theorem table_matchday_max_witness:
  "set_iter_ok remdups \<and> gen_standing_table scenario_db remdups 1 = Inr scenario_table \<and>
   gt_matchday scenario_table =
     Max (insert 0 {m. \<exists>f \<in> set (fixtures_of_group scenario_db 1). matchday f = Some m})"
  using table_matchday_max [OF scenario_facts] scenario_facts by simp

theorem table_aborts_on_bad_score_witness:
  "fixture_B_A\<lparr>score := Some ''2-2''\<rparr> \<in> set (fixtures_of_group bad_score_db 1) \<and>
   \<not> score_ok (fixture_B_A\<lparr>score := Some ''2-2''\<rparr>) \<and>
   (\<exists>e. gen_standing_table bad_score_db remdups 1 = Inl e)"
proof -
  have h: "fixture_B_A\<lparr>score := Some ''2-2''\<rparr> \<in> set (fixtures_of_group bad_score_db 1)"
    "\<not> score_ok (fixture_B_A\<lparr>score := Some ''2-2''\<rparr>)"
    by code_simp+
  from table_aborts_on_bad_score [OF h, of remdups] h show ?thesis by simp
qed

theorem table_succeeds_witness:
  "set_iter_ok remdups \<and> group_get scenario_db 1 \<noteq> None \<and>
   (\<exists>tbl. gen_standing_table scenario_db remdups 1 = Inr tbl)"
proof -
  have h: "catalog_inv scenario_db" "group_get scenario_db 1 \<noteq> None"
    "\<forall>f \<in> set (fixtures_of_group scenario_db 1). matchday f \<noteq> None \<and> score_ok f"
    by code_simp+
  from table_succeeds [OF h(1) set_iter_ok_remdups h(2,3)] h set_iter_ok_remdups show ?thesis by simp
qed

theorem parse_score_needs_colon_witness:
  "CHR '':'' \<notin> set ''3-1'' \<and> (parse_score (Some ''3-1'') = Inl ValueError \<or> parse_score (Some ''3-1'') = Inl IndexError)"
proof -
  have h: "CHR '':'' \<notin> set ''3-1''" by simp
  from parse_score_needs_colon [OF h] h show ?thesis by simp
qed

theorem parse_score_ignores_extra_fields_witness:
  "CHR '':'' \<notin> set ''3'' \<and> CHR '':'' \<notin> set ''1'' \<and>
   parse_score (Some (''3'' @ CHR '':'' # ''1'' @ CHR '':'' # ''junk'')) = parse_score (Some (''3'' @ CHR '':'' # ''1''))"
proof -
  have h: "CHR '':'' \<notin> set ''3''" "CHR '':'' \<notin> set ''1''" by simp_all
  from parse_score_ignores_extra_fields [OF h, of "''junk''"] h show ?thesis by simp
qed

theorem resolve_leaves_one_record_witness:
  "length (filter (\<lambda>l. league_title l = Some ''Champions League'')
     (leagues (snd (get_add_league scenario_db (Some ''Champions League''))))) = 1 \<and>
   length (filter (\<lambda>g. (group_title g, group_league_id g) = (Some ''A'', 1))
     (league_groups (snd (get_add_group scenario_db (Some ''A'') 1)))) = 1 \<and>
   length (filter (\<lambda>x. team_name x = Some ''C'') (football_teams (snd (get_add_team scenario_db (Some ''C''))))) = 1"
proof -
  have h: "catalog_inv scenario_db" by code_simp
  from resolve_leaves_one_record [OF h] show ?thesis by blast
qed

theorem catalog_reach_inv_witness:
  "catalog_reach (snd (get_add_team (snd (get_add_league empty_db (Some ''L''))) (Some ''PSG''))) \<and>
   distinct (map team_name (football_teams (snd (get_add_team (snd (get_add_league empty_db (Some ''L''))) (Some ''PSG'')))))"
proof -
  have h: "catalog_reach (snd (get_add_team (snd (get_add_league empty_db (Some ''L''))) (Some ''PSG'')))"
    by (intro catalog_reach.reach_team catalog_reach.reach_league catalog_reach.reach_empty)
  from catalog_reach_inv [OF h] h show ?thesis by (simp add: catalog_inv_def)
qed

theorem add_fixture_result_stores_witness:
  "submission_ok sub_A_B \<and> (\<exists>f s'. add_fixture_result empty_db sub_A_B = (Some f, s') \<and> score f = Some ''3:1'')"
proof -
  have h: "submission_ok sub_A_B" by code_simp
  obtain f s' where "add_fixture_result empty_db sub_A_B = (Some f, s')" "score f = json_get (sub_score sub_A_B)"
    using add_fixture_result_stores [OF catalog_inv_empty h] by blast
  with h show ?thesis by (auto simp: sub_A_B_def json_get_def)
qed

theorem add_fixture_result_swallows_witness:
  "submission_ok sub_no_score = False \<and> fst (add_fixture_result empty_db sub_no_score) = None \<and>
   team_by_name (snd (add_fixture_result empty_db sub_no_score)) (Some ''A'') \<noteq> None"
proof -
  have h: "submission_ok sub_no_score = False" by code_simp
  from add_fixture_result_swallows [OF catalog_inv_empty, of sub_no_score] h show ?thesis
    by (simp add: sub_no_score_def sub_A_B_def json_get_def)
qed

theorem app_reach_inv_witness:
  "app_reach (snd (handle_fixture_results empty_db remdups (Batch [sub_A_B]))) \<and>
   distinct (map team_name (football_teams (snd (handle_fixture_results empty_db remdups (Batch [sub_A_B])))))"
proof -
  have h: "app_reach (snd (handle_fixture_results empty_db remdups (Batch [sub_A_B])))"
    by (intro app_reach.app_publish app_reach.app_empty)
  from app_reach_inv [OF h] h show ?thesis by (simp add: catalog_inv_def)
qed

theorem update_fixture_result_only_score_witness:
  "update_fixture_result scenario_db (Some 1) upd_draw = ((True, ''Success''), set_score scenario_db 1 (Some ''1:1'')) \<and>
   fixture_get (set_score scenario_db 1 (Some ''1:1'')) 2 = fixture_get scenario_db 2"
proof -
  have h: "update_fixture_result scenario_db (Some 1) upd_draw = ((True, ''Success''), set_score scenario_db 1 (Some ''1:1''))"
    by code_simp
  from update_fixture_result_only_score [OF h, of 2] h show ?thesis by simp
qed

theorem handle_empty_batch_witness:
  "set_iter_ok remdups \<and> handle_fixture_results empty_db remdups (Batch []) = (Inl UnboundLocalError, empty_db)"
  using handle_empty_batch [OF set_iter_ok_remdups] set_iter_ok_remdups by simp

theorem handle_tables_of_touched_groups_witness:
  "set_iter_ok remdups \<and> fst (handle_fixture_results empty_db remdups (Batch [sub_A_B, sub_B_A])) = Inr (Many [scenario_table]) \<and>
   (\<exists>gids. distinct gids \<and> set gids = set (fst (ingest_loop empty_db [sub_A_B, sub_B_A] [])) \<and>
      [Inr scenario_table] = map (gen_standing_table (snd (handle_fixture_results empty_db remdups (Batch [sub_A_B, sub_B_A]))) remdups) gids)"
proof -
  have h: "fst (handle_fixture_results empty_db remdups (Batch [sub_A_B, sub_B_A])) = Inr (Many [scenario_table])"
    by code_simp
  from handle_tables_of_touched_groups [OF set_iter_ok_remdups h] h set_iter_ok_remdups show ?thesis
    by (simp add: payload_list_def)
qed

theorem get_tabels_skips_unknown_league_witness:
  "json_index (tg_leagueName tg_unknown) = Inr (Some ''Europa League'') \<and> tg_group tg_unknown \<noteq> Missing \<and>
   get_league scenario_db (Some ''Europa League'') = None \<and>
   get_tabels_for_groups scenario_db remdups (Some [tg_unknown]) = get_tabels_for_groups scenario_db remdups (Some [])"
proof -
  have h: "json_index (tg_leagueName tg_unknown) = Inr (Some ''Europa League'')" "tg_group tg_unknown \<noteq> Missing"
    "get_league scenario_db (Some ''Europa League'') = None"
    by code_simp+
  from get_tabels_skips_unknown_league [OF h, of remdups "[]"] h show ?thesis by simp
qed

theorem get_tabels_single_bare_witness:
  "league_groups scenario_db = [\<lparr>group_pk = 1, group_title = Some ''A'', group_league_id = 1\<rparr>] \<and>
   gen_standing_table scenario_db remdups 1 = Inr scenario_table \<and>
   get_tabels_for_groups scenario_db remdups None = Inr (One scenario_table)"
proof -
  have h: "league_groups scenario_db = [\<lparr>group_pk = 1, group_title = Some ''A'', group_league_id = 1\<rparr>]"
    by (simp add: scenario_db_def)
  from get_tabels_single_bare [OF h, of remdups scenario_table] h scenario_eval show ?thesis by simp
qed

theorem bad_score_update_breaks_tables_witness:
  "fixture_get scenario_db 1 = Some fixture_A_B \<and> upd_score upd_dash = Present ''3-1'' \<and>
   isl (parse_score (Some ''3-1'')) \<and>
   (\<exists>e. get_tabels_for_groups (snd (update_fixture_result scenario_db (Some 1) upd_dash)) remdups None = Inl e)"
proof -
  have h: "catalog_inv scenario_db" "fixture_get scenario_db 1 = Some fixture_A_B"
    "upd_score upd_dash = Present ''3-1''" "isl (parse_score (Some ''3-1''))"
    by code_simp+
  from bad_score_update_breaks_tables [OF h, of remdups] h show ?thesis by simp
qed

theorem publish_scenario_witness:
  "set_iter_ok remdups \<and>
   handle_fixture_results empty_db remdups (Batch [sub_A_B, sub_B_A]) = (Inr (Many [scenario_table]), scenario_db)"
  using publish_scenario [OF set_iter_ok_remdups] set_iter_ok_remdups by simp

theorem filter_query_splices_team_witness:
  "json_get (fc_team crit_quote) = Some quote_team \<and> quote_team \<noteq> [] \<and>
   filter_query (Some crit_quote) = Inr (select_join @ team_clause quote_team) \<and>
   sublist (''football_teams.team_name = '' @ [CHR 0x27] @ quote_team @ [CHR 0x27]) (select_join @ team_clause quote_team)"
proof -
  have h: "json_get (fc_team crit_quote) = Some quote_team" "quote_team \<noteq> []"
    "filter_query (Some crit_quote) = Inr (select_join @ team_clause quote_team)"
    by (simp_all add: crit_quote_def no_criteria_def json_get_def quote_team_def filter_query_def truthy_def)
  from filter_query_splices_team [OF h] h show ?thesis by simp
qed

theorem filter_query_where_and_witness:
  "\<not> truthy (json_get (fc_team crit_group)) \<and> json_get (fc_group crit_group) = Some ''A'' \<and>
   filter_query (Some crit_group) = Inr (select_join @ group_clause ''A'') \<and>
   sublist ''where  and'' (select_join @ group_clause ''A'')"
proof -
  have h: "\<not> truthy (json_get (fc_team crit_group))" "json_get (fc_group crit_group) = Some ''A''" "''A'' \<noteq> []"
    "filter_query (Some crit_group) = Inr (select_join @ group_clause ''A'')"
    by (simp_all add: crit_group_def no_criteria_def json_get_def filter_query_def truthy_def)
  from filter_query_where_and [OF h] h show ?thesis by simp
qed

theorem filter_bad_date_swallowed_witness:
  "json_get (fc_date_from crit_bad_date) = Some ''13/09/2017'' \<and> isl (py_strptime ''13/09/2017'') \<and>
   filter_results scenario_db (\<lambda>_. Some (fixture_results scenario_db)) (Some crit_bad_date) = []"
proof -
  have h: "json_get (fc_date_from crit_bad_date) = Some ''13/09/2017''" "''13/09/2017'' \<noteq> []"
    "isl (py_strptime ''13/09/2017'')"
    by (simp add: crit_bad_date_def no_criteria_def json_get_def, simp, code_simp)
  from filter_bad_date_swallowed [OF h] h show ?thesis by simp
qed

theorem result_dict_kickoff_roundtrip_witness:
  "to_result_dict scenario_db fixture_A_B = Inr (projr (to_result_dict scenario_db fixture_A_B)) \<and>
   valid_timestamp (2017, 9, 13, 20, 45, 0) \<and>
   fixture_result_init 1 1 2 (Some 1) (KickoffText (rv_kickoffAt (projr (to_result_dict scenario_db fixture_A_B))))
     (Some ''3:1'') (Some 1) = Inr fixture_A_B"
proof -
  have h: "to_result_dict scenario_db fixture_A_B = Inr (projr (to_result_dict scenario_db fixture_A_B))"
    "valid_timestamp (kickoff_at fixture_A_B)" "1000 \<le> fst (kickoff_at fixture_A_B)"
    by code_simp+
  from result_dict_kickoff_roundtrip [OF h, of 1 1 2 "Some 1" "Some ''3:1''" "Some 1"] h show ?thesis
    by (simp add: fixture_A_B_def)
qed

theorem update_result_reports_success_witness:
  "\<not> update_applies scenario_db upd_unknown \<and>
   update_result scenario_db (Some (Batch [upd_unknown])) = (Message ''Success.'' 200, scenario_db)"
proof -
  have h: "\<not> update_applies scenario_db upd_unknown" by code_simp
  then have "\<forall>u \<in> set (payload_list (Batch [upd_unknown])). \<not> update_applies scenario_db u"
    by (simp add: payload_list_def)
  from update_result_reports_success [OF this] h show ?thesis by simp
qed

theorem group_race_duplicates_witness:
  "group_by scenario_db (Some ''B'') 1 = None \<and>
   (\<exists>s' g1 g2. race group_step (scenario_db, GLookup (Some ''B'') 1, GLookup (Some ''B'') 1)
      (s', GDone (Some g1), GDone (Some g2)) \<and> group_pk g1 \<noteq> group_pk g2)"
proof -
  have h: "group_by scenario_db (Some ''B'') 1 = None" by code_simp
  from group_race_duplicates [OF h] h show ?thesis by blast
qed

theorem team_race_witness:
  "distinct (map team_name (football_teams scenario_db)) \<and> team_by_name scenario_db (Some ''C'') = None \<and>
   team_by_name scenario_db None = None \<and>
   (\<exists>s' t. race team_step (scenario_db, TLookup (Some ''C''), TLookup (Some ''C'')) (s', TDone (Some t), TDone None))"
proof -
  have h: "distinct (map team_name (football_teams scenario_db))" "team_by_name scenario_db (Some ''C'') = None"
    "team_by_name scenario_db None = None"
    by code_simp+
  from team_race [OF h] h show ?thesis by blast
qed

end
